theory Spec2Isabelle
  imports Complex_Main
begin

section \<open>Arithmetic on abscissas\<close>

text \<open>
  \<^verbatim>\<open>glob_min\<close> never branches on an abscissa: it only computes abscissas and hands them to
  the criterion function, and it only compares and copies criterion values. Its model is
  therefore polymorphic in the type \<open>'x\<close> of abscissas, with the arithmetic of the C type
  \<^verbatim>\<open>double\<close> passed as a record of operations. Criterion values are real numbers
  (finite, not NaN), for which the comparisons of the source are exact.
\<close>

record 'x arith =
  fadd :: "'x \<Rightarrow> 'x \<Rightarrow> 'x"
  fsub :: "'x \<Rightarrow> 'x \<Rightarrow> 'x"
  fmul :: "'x \<Rightarrow> 'x \<Rightarrow> 'x"
  fdiv :: "'x \<Rightarrow> 'x \<Rightarrow> 'x"
  fexp :: "'x \<Rightarrow> 'x"
  flog :: "'x \<Rightarrow> 'x"
  fnum :: "int \<Rightarrow> 'x"

text \<open>Exact real arithmetic. It is used wherever no divisor can be zero.\<close>

definition real_arith :: "real arith" where
  "real_arith = \<lparr>fadd = (+), fsub = (-), fmul = (*), fdiv = (/),
                 fexp = exp, flog = ln, fnum = of_int\<rparr>"

text \<open>
  Reals extended by the exceptional values of IEEE 754: exact on finite values (no rounding,
  no overflow), and with the results IEEE 754 prescribes for a zero divisor, the infinities
  and NaN. A zero is the positive zero, as the conversion of the integer 0 gives it.
\<close>

datatype xreal = Fin real | PInf | NInf | NaN

fun xneg :: "xreal \<Rightarrow> xreal" where
  "xneg (Fin a) = Fin (- a)"
| "xneg PInf = NInf"
| "xneg NInf = PInf"
| "xneg NaN = NaN"

fun xadd :: "xreal \<Rightarrow> xreal \<Rightarrow> xreal" where
  "xadd (Fin a) (Fin b) = Fin (a + b)"
| "xadd NaN _ = NaN"
| "xadd _ NaN = NaN"
| "xadd PInf NInf = NaN"
| "xadd NInf PInf = NaN"
| "xadd PInf _ = PInf"
| "xadd NInf _ = NInf"
| "xadd _ PInf = PInf"
| "xadd _ NInf = NInf"

definition xsub :: "xreal \<Rightarrow> xreal \<Rightarrow> xreal" where
  "xsub a b = xadd a (xneg b)"

definition xsign :: "real \<Rightarrow> xreal" where
  "xsign a = (if 0 < a then PInf else if a < 0 then NInf else NaN)"

fun xmul :: "xreal \<Rightarrow> xreal \<Rightarrow> xreal" where
  "xmul (Fin a) (Fin b) = Fin (a * b)"
| "xmul NaN _ = NaN"
| "xmul _ NaN = NaN"
| "xmul (Fin a) PInf = xsign a"
| "xmul (Fin a) NInf = xsign (- a)"
| "xmul PInf (Fin b) = xsign b"
| "xmul NInf (Fin b) = xsign (- b)"
| "xmul PInf PInf = PInf"
| "xmul NInf NInf = PInf"
| "xmul PInf NInf = NInf"
| "xmul NInf PInf = NInf"

fun xdiv :: "xreal \<Rightarrow> xreal \<Rightarrow> xreal" where
  "xdiv (Fin a) (Fin b) = (if b = 0 then xsign a else Fin (a / b))"
| "xdiv NaN _ = NaN"
| "xdiv _ NaN = NaN"
| "xdiv (Fin a) PInf = Fin 0"
| "xdiv (Fin a) NInf = Fin 0"
| "xdiv PInf (Fin b) = (if 0 \<le> b then PInf else NInf)"
| "xdiv NInf (Fin b) = (if 0 \<le> b then NInf else PInf)"
| "xdiv PInf PInf = NaN"
| "xdiv PInf NInf = NaN"
| "xdiv NInf PInf = NaN"
| "xdiv NInf NInf = NaN"

fun xexp :: "xreal \<Rightarrow> xreal" where
  "xexp (Fin a) = Fin (exp a)"
| "xexp PInf = PInf"
| "xexp NInf = Fin 0"
| "xexp NaN = NaN"

fun xlog :: "xreal \<Rightarrow> xreal" where
  "xlog (Fin a) = (if 0 < a then Fin (ln a) else if a = 0 then NInf else NaN)"
| "xlog PInf = PInf"
| "xlog NInf = NaN"
| "xlog NaN = NaN"

definition ieee_arith :: "xreal arith" where
  "ieee_arith = \<lparr>fadd = xadd, fsub = xsub, fmul = xmul, fdiv = xdiv,
                 fexp = xexp, flog = xlog, fnum = (\<lambda>k. Fin (of_int k))\<rparr>"

section \<open>glob\_min: the bracketer\<close>

text \<open>
  The six in/out parameters \<^verbatim>\<open>*x1, *y1, *x2, *y2, *x3, *y3\<close> of \<^verbatim>\<open>glob_min\<close>. The fields
  carry the prefix \<open>g_\<close> because record fields are global names.
\<close>

record 'x bracket =
  g_x1 :: 'x
  g_y1 :: real
  g_x2 :: 'x
  g_y2 :: real
  g_x3 :: 'x
  g_y3 :: real

text \<open>The locals \<^verbatim>\<open>x, rate, ibest, turned_up, previous\<close> on top of the out parameters.\<close>

record 'x gstate = "'x bracket" +
  g_x :: 'x
  g_rate :: 'x
  g_ibest :: int
  g_turned_up :: bool
  g_previous :: real

text \<open>
  One pass of the body of \<^verbatim>\<open>for (i=0 ; i<npts ; i++)\<close>. The result is paired with
  \<open>True\<close> when the pass leaves the loop through its \<^verbatim>\<open>break\<close>.
\<close>

definition scan_point ::
  "'x arith \<Rightarrow> bool \<Rightarrow> bool \<Rightarrow> real \<Rightarrow> ('x \<Rightarrow> real) \<Rightarrow> int \<Rightarrow> 'x gstate \<Rightarrow> bool \<times> 'x gstate" where
  "scan_point A know_first_point log_space critlim criter i s =
    (let y = (if i \<noteq> 0 \<or> \<not> know_first_point then criter (g_x s) else g_y2 s);
         s1 = (if i = 0 \<or> y < g_y2 s
               then s\<lparr>g_ibest := i, g_x2 := g_x s, g_y2 := y, g_y1 := g_previous s,
                      g_turned_up := False\<rparr>
               else if i = g_ibest s + 1
               then s\<lparr>g_y3 := y, g_turned_up := True\<rparr>
               else s);
         s2 = s1\<lparr>g_previous := y\<rparr>
     in if g_y2 s2 \<le> critlim \<and> 0 < g_ibest s2 \<and> g_turned_up s2
        then (True, s2)
        else (False, s2\<lparr>g_x := (if log_space then fmul A (g_x s2) (g_rate s2)
                                  else fadd A (g_x s2) (g_rate s2))\<rparr>))"

text \<open>
  The scan loop. It returns the value of \<^verbatim>\<open>i\<close> on leaving the loop (less than
  \<^verbatim>\<open>npts\<close> exactly when the loop was left through \<^verbatim>\<open>break\<close>) and the state.
\<close>

function scan ::
  "'x arith \<Rightarrow> bool \<Rightarrow> bool \<Rightarrow> real \<Rightarrow> ('x \<Rightarrow> real) \<Rightarrow> int \<Rightarrow> int \<Rightarrow> 'x gstate \<Rightarrow> int \<times> 'x gstate" where
  "scan A know_first_point log_space critlim criter npts i s =
    (if i < npts
     then (case scan_point A know_first_point log_space critlim criter i s of
             (True, s') \<Rightarrow> (i, s')
           | (False, s') \<Rightarrow> scan A know_first_point log_space critlim criter npts (i + 1) s')
     else (i, s))"
  by pat_completeness auto
termination
  by (relation "measure (\<lambda>(A, k, l, c, f, npts, i, s). nat (npts - i))") auto

declare scan.simps [simp del]

text \<open>
  The number of passes of the body of the scan loop that run, that is the number of points
  of the grid that the scan gets to: one for a pass that leaves through \<^verbatim>\<open>break\<close>, one
  more than the passes after it for a pass that goes on.
\<close>

function scan_passes ::
  "'x arith \<Rightarrow> bool \<Rightarrow> bool \<Rightarrow> real \<Rightarrow> ('x \<Rightarrow> real) \<Rightarrow> int \<Rightarrow> int \<Rightarrow> 'x gstate \<Rightarrow> int" where
  "scan_passes A know_first_point log_space critlim criter npts i s =
    (if i < npts
     then (case scan_point A know_first_point log_space critlim criter i s of
             (True, s') \<Rightarrow> 1
           | (False, s') \<Rightarrow>
               1 + scan_passes A know_first_point log_space critlim criter npts (i + 1) s')
     else 0)"
  by pat_completeness auto
termination
  by (relation "measure (\<lambda>(A, k, l, c, f, npts, i, s). nat (npts - i))") auto

declare scan_passes.simps [simp del]

text \<open>
  The two boundary-extension loops are \<^verbatim>\<open>for (;;)\<close> loops that need not end. The first
  argument is fuel: the number of passes allowed. \<open>None\<close> means that the loop was still
  running when the fuel ran out.
\<close>

fun extend_right :: "nat \<Rightarrow> 'x arith \<Rightarrow> bool \<Rightarrow> ('x \<Rightarrow> real) \<Rightarrow> 'x gstate \<Rightarrow> 'x gstate option" where
  "extend_right 0 A log_space criter s = None"
| "extend_right (Suc fuel) A log_space criter s =
    (let s1 = s\<lparr>g_y3 := criter (g_x3 s)\<rparr>
     in if g_y3 s1 > g_y2 s1 then Some s1
        else if g_y1 s1 = g_y2 s1 \<and> g_y2 s1 = g_y3 s1 then Some s1
        else
          (let s2 = s1\<lparr>g_x1 := g_x2 s1, g_y1 := g_y2 s1, g_x2 := g_x3 s1, g_y2 := g_y3 s1\<rparr>;
               s3 = s2\<lparr>g_rate := fmul A (g_rate s2) (fnum A 2)\<rparr>;
               s4 = s3\<lparr>g_x3 := (if log_space then fmul A (g_x3 s3) (g_rate s3)
                                 else fadd A (g_x3 s3) (g_rate s3))\<rparr>
           in extend_right fuel A log_space criter s4))"

fun extend_left :: "nat \<Rightarrow> 'x arith \<Rightarrow> bool \<Rightarrow> ('x \<Rightarrow> real) \<Rightarrow> 'x gstate \<Rightarrow> 'x gstate option" where
  "extend_left 0 A log_space criter s = None"
| "extend_left (Suc fuel) A log_space criter s =
    (let s1 = s\<lparr>g_y1 := criter (g_x1 s)\<rparr>
     in if g_y1 s1 > g_y2 s1 then Some s1
        else if g_y1 s1 = g_y2 s1 \<and> g_y2 s1 = g_y3 s1 then Some s1
        else
          (let s2 = s1\<lparr>g_x3 := g_x2 s1, g_y3 := g_y2 s1, g_x2 := g_x1 s1, g_y2 := g_y1 s1\<rparr>;
               s3 = s2\<lparr>g_rate := fmul A (g_rate s2) (fnum A 2)\<rparr>;
               s4 = s3\<lparr>g_x1 := (if log_space then fdiv A (g_x1 s3) (g_rate s3)
                                 else fsub A (g_x1 s3) (g_rate s3))\<rparr>
           in extend_left fuel A log_space criter s4))"

text \<open>
  The state before the scan: \<^verbatim>\<open>npts\<close> is already made positive, the out parameters hold
  what the caller's memory holds (\<open>mem\<close>).
\<close>

definition glob_init :: "'x arith \<Rightarrow> 'x \<Rightarrow> 'x \<Rightarrow> int \<Rightarrow> bool \<Rightarrow> 'x bracket \<Rightarrow> 'x gstate" where
  "glob_init A low high npts log_space mem =
    \<lparr>g_x1 = g_x1 mem, g_y1 = g_y1 mem, g_x2 = g_x2 mem, g_y2 = g_y2 mem,
     g_x3 = g_x3 mem, g_y3 = g_y3 mem,
     g_x = low,
     g_rate = (if log_space
               then fexp A (fdiv A (flog A (fdiv A high low)) (fnum A (npts - 1)))
               else fdiv A (fsub A high low) (fnum A (npts - 1))),
     g_ibest = - 1, g_turned_up = False, g_previous = 0\<rparr>"

definition neighbors :: "'x arith \<Rightarrow> bool \<Rightarrow> 'x gstate \<Rightarrow> 'x gstate" where
  "neighbors A log_space s =
    (if log_space
     then s\<lparr>g_x1 := fdiv A (g_x2 s) (g_rate s), g_x3 := fmul A (g_x2 s) (g_rate s)\<rparr>
     else s\<lparr>g_x1 := fsub A (g_x2 s) (g_rate s), g_x3 := fadd A (g_x2 s) (g_rate s)\<rparr>)"

definition extension :: "nat \<Rightarrow> 'x arith \<Rightarrow> bool \<Rightarrow> ('x \<Rightarrow> real) \<Rightarrow> 'x gstate \<Rightarrow> 'x gstate option" where
  "extension fuel A log_space criter s =
    (if \<not> g_turned_up s then extend_right fuel A log_space criter s
     else if g_ibest s = 0 then extend_left fuel A log_space criter s
     else Some s)"

definition glob_run ::
  "nat \<Rightarrow> 'x arith \<Rightarrow> 'x \<Rightarrow> 'x \<Rightarrow> int \<Rightarrow> bool \<Rightarrow> real \<Rightarrow> ('x \<Rightarrow> real) \<Rightarrow> 'x bracket
     \<Rightarrow> 'x gstate option" where
  "glob_run fuel A low high npts log_space critlim criter mem =
    (let know_first_point = (npts < 0);
         npts = (if npts < 0 then - npts else npts);
         s = glob_init A low high npts log_space mem;
         (i, s) = scan A know_first_point log_space critlim criter npts 0 s
     in extension fuel A log_space criter (neighbors A log_space s))"

text \<open>\<^verbatim>\<open>glob_min\<close> itself: what the caller sees are the six out parameters.\<close>

definition glob_min ::
  "nat \<Rightarrow> 'x arith \<Rightarrow> 'x \<Rightarrow> 'x \<Rightarrow> int \<Rightarrow> bool \<Rightarrow> real \<Rightarrow> ('x \<Rightarrow> real) \<Rightarrow> 'x bracket
     \<Rightarrow> 'x bracket option" where
  "glob_min fuel A low high npts log_space critlim criter mem =
    map_option bracket.truncate
      (glob_run fuel A low high npts log_space critlim criter mem)"

section \<open>brentmin: the line refiner\<close>

text \<open>
  \<^verbatim>\<open>brentmin\<close> works on real numbers: the model is exact real arithmetic. The locals that
  live from one pass of the main loop to the next, with the prefix \<open>b_\<close>. The other
  locals (\<^verbatim>\<open>small_step, small_dist, xmid, numer, denom, temp1, temp2, testdist, this_x,
  this_y\<close>) are assigned in every pass before they are read.
\<close>

record bstate =
  b_x0 :: real
  b_x1 :: real
  b_x2 :: real
  b_y0 :: real
  b_y1 :: real
  b_y2 :: real
  b_xleft :: real
  b_xright :: real
  b_movement :: real
  b_trial :: real

text \<open>How the main loop was left: one label for each \<^verbatim>\<open>break\<close> and one for the bound.\<close>

datatype bexit = Crit_reached | X_converged | F_converged | Itmax_reached

definition small_step_of :: "real \<Rightarrow> real \<Rightarrow> real" where
  "small_step_of tol x0 = (if \<bar>x0\<bar> < 1 then 1 else \<bar>x0\<bar>) * tol"

text \<open>
  The test \<^verbatim>\<open>a / b < e\<close> on doubles. A zero divisor gives an infinity of the sign of
  \<open>a\<close>, or NaN when \<open>a\<close> is zero too, and a comparison with NaN is false.
\<close>

definition quot_less :: "real \<Rightarrow> real \<Rightarrow> real \<Rightarrow> bool" where
  "quot_less a b e = (if b = 0 then a < 0 else a / b < e)"

text \<open>The three stopping tests at the head of a pass.\<close>

definition brent_checks :: "real \<Rightarrow> real \<Rightarrow> real \<Rightarrow> int \<Rightarrow> bstate \<Rightarrow> bexit option" where
  "brent_checks critlim eps tol iter s =
    (if b_y0 s < critlim then Some Crit_reached
     else
       (let small_step = small_step_of tol (b_x0 s);
            small_dist = 2 * small_step;
            xmid = 0.5 * (b_xleft s + b_xright s)
        in if \<bar>b_x0 s - xmid\<bar> \<le> small_dist - 0.5 * (b_xright s - b_xleft s)
           then Some X_converged
           else if 4 \<le> iter \<and> quot_less (b_y2 s - b_y0 s) (b_y0 s + 1) eps
           then Some F_converged
           else None))"

text \<open>The golden-section step of the source, taken in two places.\<close>

definition golden :: "bstate \<Rightarrow> bstate" where
  "golden s =
    (let xmid = 0.5 * (b_xleft s + b_xright s);
         movement = (if xmid > b_x0 s then b_xright s - b_x0 s else b_xleft s - b_x0 s)
     in s\<lparr>b_movement := movement, b_trial := 0.3819660 * movement\<rparr>)"

text \<open>
  \<^verbatim>\<open>numer\<close> and \<^verbatim>\<open>denom\<close> of the parabola through the three best points, lines 258 to
  261.
\<close>

definition parabolic_numer :: "bstate \<Rightarrow> real" where
  "parabolic_numer s =
    (let temp1 = (b_x0 s - b_x2 s) * (b_y0 s - b_y1 s);
         temp2 = (b_x0 s - b_x1 s) * (b_y0 s - b_y2 s)
     in (b_x0 s - b_x1 s) * temp2 - (b_x0 s - b_x2 s) * temp1)"

definition parabolic_denom :: "bstate \<Rightarrow> real" where
  "parabolic_denom s =
    (let temp1 = (b_x0 s - b_x2 s) * (b_y0 s - b_y1 s);
         temp2 = (b_x0 s - b_x1 s) * (b_y0 s - b_y2 s)
     in 2 * (temp1 - temp2))"

text \<open>The parabolic estimate of the step: \<^verbatim>\<open>numer / denom\<close>, or the sentinel.\<close>

definition parabolic_trial :: "bstate \<Rightarrow> real" where
  "parabolic_trial s =
    (if \<bar>parabolic_denom s\<bar> > 1 / 10 ^ 40
     then parabolic_numer s / parabolic_denom s
     else 10 ^ 40)"

text \<open>
  The choice of the step: the new \<^verbatim>\<open>movement\<close> and \<^verbatim>\<open>trial\<close>, lines 257 to 285 of the
  source.
\<close>

definition choose_trial :: "real \<Rightarrow> bstate \<Rightarrow> bstate" where
  "choose_trial tol s =
    (let small_step = small_step_of tol (b_x0 s);
         small_dist = 2 * small_step;
         xmid = 0.5 * (b_xleft s + b_xright s)
     in if \<bar>b_movement s\<bar> > small_step
        then
          (let testdist = b_movement s;
               trial = parabolic_trial s;
               s1 = s\<lparr>b_movement := b_trial s, b_trial := trial\<rparr>;
               temp1 = trial + b_x0 s
           in if 2 * \<bar>trial\<bar> < \<bar>testdist\<bar> \<and> temp1 > b_xleft s \<and> temp1 < b_xright s
              then (if temp1 - b_xleft s < small_dist \<or> b_xright s - temp1 < small_dist
                    then s1\<lparr>b_trial := (if b_x0 s < xmid then small_step else - small_step)\<rparr>
                    else s1)
              else golden s1)
        else golden s)"

text \<open>The point where the criterion is evaluated, lines 287 to 290.\<close>

definition this_x_of :: "real \<Rightarrow> bstate \<Rightarrow> real" where
  "this_x_of tol s =
    (let small_step = small_step_of tol (b_x0 s)
     in if \<bar>b_trial s\<bar> \<ge> small_step then b_x0 s + b_trial s
        else if b_trial s > 0 then b_x0 s + small_step else b_x0 s - small_step)"

text \<open>The new point takes its place among the three best, lines 299 to 328.\<close>

definition insert_point :: "real \<Rightarrow> real \<Rightarrow> bstate \<Rightarrow> bstate" where
  "insert_point this_x this_y s =
    (if this_y \<le> b_y0 s
     then (if this_x < b_x0 s then s\<lparr>b_xright := b_x0 s\<rparr> else s\<lparr>b_xleft := b_x0 s\<rparr>)
            \<lparr>b_x2 := b_x1 s, b_x1 := b_x0 s, b_x0 := this_x,
             b_y2 := b_y1 s, b_y1 := b_y0 s, b_y0 := this_y\<rparr>
     else
       (let s1 = (if this_x \<ge> b_x0 s then s\<lparr>b_xright := this_x\<rparr> else s\<lparr>b_xleft := this_x\<rparr>)
        in if this_y \<le> b_y1 s \<or> b_x1 s = b_x0 s
           then s1\<lparr>b_x2 := b_x1 s, b_x1 := this_x, b_y2 := b_y1 s, b_y1 := this_y\<rparr>
           else if this_y \<le> b_y2 s \<or> b_x2 s = b_x0 s \<or> b_x2 s = b_x1 s
           then s1\<lparr>b_x2 := this_x, b_y2 := this_y\<rparr>
           else s1))"

text \<open>One pass of the main loop: \<open>Inl\<close> the label of the \<^verbatim>\<open>break\<close> taken.\<close>

definition brent_body ::
  "real \<Rightarrow> real \<Rightarrow> real \<Rightarrow> (real \<Rightarrow> real) \<Rightarrow> int \<Rightarrow> bstate \<Rightarrow> bexit + bstate" where
  "brent_body critlim eps tol criter iter s =
    (case brent_checks critlim eps tol iter s of
       Some e \<Rightarrow> Inl e
     | None \<Rightarrow>
         (let s1 = choose_trial tol s;
              this_x = this_x_of tol s1
          in Inr (insert_point this_x (criter this_x) s1)))"

text \<open>
  \<^verbatim>\<open>for (iter=0 ; iter<itmax ; iter++)\<close>: the result is how the loop was left, the value
  of \<^verbatim>\<open>iter\<close> then (the number of evaluations of the criterion), and the state.
\<close>

function brent_loop ::
  "int \<Rightarrow> real \<Rightarrow> real \<Rightarrow> real \<Rightarrow> (real \<Rightarrow> real) \<Rightarrow> int \<Rightarrow> bstate \<Rightarrow> bexit \<times> int \<times> bstate" where
  "brent_loop itmax critlim eps tol criter iter s =
    (if iter < itmax
     then (case brent_body critlim eps tol criter iter s of
             Inl e \<Rightarrow> (e, iter, s)
           | Inr s' \<Rightarrow> brent_loop itmax critlim eps tol criter (iter + 1) s')
     else (Itmax_reached, iter, s))"
  by pat_completeness auto
termination
  by (relation "measure (\<lambda>(itmax, c, e, t, f, iter, s). nat (itmax - iter))") auto

declare brent_loop.simps [simp del]

definition brent_init :: "real \<Rightarrow> real \<Rightarrow> real \<Rightarrow> real \<Rightarrow> bstate" where
  "brent_init xa xb xc y =
    \<lparr>b_x0 = xb, b_x1 = xb, b_x2 = xb, b_y0 = y, b_y1 = y, b_y2 = y,
     b_xleft = xa, b_xright = xc, b_movement = 0, b_trial = 0\<rparr>"

text \<open>
  \<^verbatim>\<open>brentmin\<close>: the new \<^verbatim>\<open>*xa\<close>, \<^verbatim>\<open>*xb\<close>, \<^verbatim>\<open>*xc\<close> and the value returned.
\<close>

definition brentmin ::
  "int \<Rightarrow> real \<Rightarrow> real \<Rightarrow> real \<Rightarrow> (real \<Rightarrow> real) \<Rightarrow> real \<Rightarrow> real \<Rightarrow> real \<Rightarrow> real
     \<Rightarrow> real \<times> real \<times> real \<times> real" where
  "brentmin itmax critlim eps tol criter xa xb xc y =
    (let (e, iter, s) = brent_loop itmax critlim eps tol criter 0 (brent_init xa xb xc y)
     in (b_xleft s, b_x0 s, b_xright s, b_y0 s))"

section \<open>powell: the direction-set minimizer\<close>

text \<open>
  The vectors \<^verbatim>\<open>x, base, p0\<close> are lists of reals, of which the source reads and writes the
  first \<^verbatim>\<open>n\<close> entries; \<^verbatim>\<open>direc\<close> is the flat array of \<^verbatim>\<open>n*n\<close> entries, row
  \<^verbatim>\<open>i\<close> at \<^verbatim>\<open>direc + i*n\<close>.
\<close>

definition vec :: "int \<Rightarrow> real list \<Rightarrow> real list" where
  "vec n b = map (\<lambda>i. b ! i) [0..<nat n]"

definition row :: "int \<Rightarrow> real list \<Rightarrow> nat \<Rightarrow> real list" where
  "row n direc idir = map (\<lambda>i. direc ! (idir * nat n + i)) [0..<nat n]"

text \<open>\<^verbatim>\<open>x[i] = base[i] + t * local_direc[i]\<close> for all \<^verbatim>\<open>i\<close> below \<^verbatim>\<open>n\<close>.\<close>

definition along :: "int \<Rightarrow> real list \<Rightarrow> real list \<Rightarrow> real \<Rightarrow> real list" where
  "along n base direc t = map (\<lambda>i. base ! i + t * direc ! i) [0..<nat n]"

text \<open>
  \<^verbatim>\<open>univar_crit\<close> with the statics \<^verbatim>\<open>local_criter, local_n, local_base, local_direc\<close> as
  arguments. It computes its point in \<^verbatim>\<open>local_x\<close>, which is the caller's \<^verbatim>\<open>x\<close>; \<^verbatim>\<open>powell\<close>
  assigns \<^verbatim>\<open>x\<close> anew after every line search before it reads it, so the model leaves this
  scratch use of \<^verbatim>\<open>x\<close> out.
\<close>

definition univar_crit :: "(real list \<Rightarrow> real) \<Rightarrow> int \<Rightarrow> real list \<Rightarrow> real list \<Rightarrow> real \<Rightarrow> real" where
  "univar_crit criter n base direc t = criter (along n base direc t)"

text \<open>
  The locals of \<^verbatim>\<open>powell\<close>, with the prefix \<open>p_\<close>; \<open>p_br\<close> holds \<^verbatim>\<open>t1, y1, t2, y2, t3,
  y3\<close>. The locals \<^verbatim>\<open>toler, test, len, ftest, mult\<close> do not outlive a pass.
\<close>

record pstate =
  p_x :: "real list"
  p_base :: "real list"
  p_p0 :: "real list"
  p_direc :: "real list"
  p_br :: "real bracket"
  p_replaced :: int
  p_idelta :: int
  p_iter :: int
  p_convergence_counter :: int
  p_fval :: real
  p_fbest :: real
  p_f0 :: real
  p_prev_best :: real
  p_delta :: real
  p_scale :: real

text \<open>
  What stops a run of the model short of a result: the fuel of the main loop is used up, a
  boundary extension of \<^verbatim>\<open>glob_min\<close> used up its fuel, or a division by zero left the real
  numbers.
\<close>

datatype fault = Out_of_fuel | Extension_unbounded | Not_finite

text \<open>
  The ways out of the main loop: the three \<^verbatim>\<open>break\<close>s at its head, \<^verbatim>\<open>goto FINISH\<close> in
  the loop over the directions, and the \<^verbatim>\<open>break\<close> in the replacement.
\<close>

datatype pexit = Cap_hit | Crit_met | Converged | Finish | Replace_break

datatype 'a flow = Go 'a | Stop pexit 'a | Fault fault

text \<open>
  \<^verbatim>\<open>for (mult=0.1 ; mult < 11.0 ; mult *= 4.0)\<close> around the call of \<^verbatim>\<open>glob_min\<close>. The
  list argument holds the values that \<^verbatim>\<open>mult\<close> takes: 0.1, 0.4, 1.6 and 6.4.
\<close>

fun bracket_tries ::
  "nat \<Rightarrow> real \<Rightarrow> (real \<Rightarrow> real) \<Rightarrow> real \<Rightarrow> real list \<Rightarrow> real bracket \<Rightarrow> real bracket option" where
  "bracket_tries gfuel critlim crit scale [] b = Some b"
| "bracket_tries gfuel critlim crit scale (mult # mults) b =
    (case glob_min gfuel real_arith (- mult * scale) (mult * scale) 15 False critlim crit b of
       None \<Rightarrow> None
     | Some b' \<Rightarrow>
         if g_y2 b' < g_y1 b' \<and> g_y2 b' < g_y3 b' then Some b'
         else bracket_tries gfuel critlim crit scale mults b')"

definition mults :: "real list" where
  "mults = [0.1, 0.4, 1.6, 6.4]"

text \<open>
  The two calls of \<^verbatim>\<open>brentmin\<close>, chosen by \<^verbatim>\<open>convergence_counter\<close>; the result is written
  to \<^verbatim>\<open>t1, t2, t3\<close> and \<^verbatim>\<open>fval\<close>.
\<close>

definition refine :: "real \<Rightarrow> real \<Rightarrow> (real \<Rightarrow> real) \<Rightarrow> pstate \<Rightarrow> pstate" where
  "refine critlim tol crit s =
    (let b = p_br s;
         (t1, t2, t3, fval) =
           (if p_convergence_counter s \<noteq> 0
            then brentmin 40 critlim tol (1 / 10 ^ 7) crit (g_x1 b) (g_x2 b) (g_x3 b) (g_y2 b)
            else brentmin 20 critlim (10 * tol) (1 / 10 ^ 5) crit (g_x1 b) (g_x2 b) (g_x3 b) (g_y2 b))
     in s\<lparr>p_br := b\<lparr>g_x1 := t1, g_x2 := t2, g_x3 := t3\<rparr>, p_fval := fval\<rparr>)"

text \<open>
  \<^verbatim>\<open>scale = fabs(t2) / n + (1.0 - 1.0/n) * scale\<close>. Where it is used, the model has
  stopped with the fault \<open>Not_finite\<close> if \<^verbatim>\<open>n\<close> is zero.
\<close>

definition new_scale :: "int \<Rightarrow> real \<Rightarrow> real \<Rightarrow> real" where
  "new_scale n t2 scale = \<bar>t2\<bar> / of_int n + (1 - 1 / of_int n) * scale"

text \<open>The body of the loop over the directions, for direction \<^verbatim>\<open>idir\<close>.\<close>

definition direction_step ::
  "nat \<Rightarrow> real \<Rightarrow> real \<Rightarrow> (real list \<Rightarrow> real) \<Rightarrow> int \<Rightarrow> nat \<Rightarrow> pstate \<Rightarrow> pstate flow" where
  "direction_step gfuel critlim tol criter n idir s =
    (if 1 < n \<and> idir = 0 \<and> p_replaced s = 0 then Go s
     else
       (let s1 = s\<lparr>p_base := vec n (p_x s), p_br := (p_br s)\<lparr>g_y2 := p_fbest s\<rparr>\<rparr>;
            local_direc = row n (p_direc s1) idir;
            crit = univar_crit criter n (p_base s1) local_direc
        in case bracket_tries gfuel critlim crit (p_scale s1) mults (p_br s1) of
             None \<Rightarrow> Fault Extension_unbounded
           | Some b \<Rightarrow>
               (let s2 = s1\<lparr>p_br := b\<rparr>
                in if g_y2 b < critlim
                   then (if g_y2 b < p_fbest s2
                         then Stop Finish (s2\<lparr>p_x := along n (p_base s2) local_direc (g_x2 b),
                                               p_fbest := g_y2 b\<rparr>)
                         else Stop Finish (s2\<lparr>p_x := vec n (p_base s2)\<rparr>))
                   else if n = 0 then Fault Not_finite
                   else
                     (let s3 = refine critlim tol crit s2;
                          s4 = s3\<lparr>p_scale := new_scale n (g_x2 (p_br s3)) (p_scale s3),
                                  p_x := along n (p_base s3) local_direc (g_x2 (p_br s3))\<rparr>;
                          s5 = (if p_fbest s4 - p_fval s4 > p_delta s4
                                then s4\<lparr>p_delta := p_fbest s4 - p_fval s4, p_idelta := int idir\<rparr>
                                else s4)
                      in Go (s5\<lparr>p_fbest := p_fval s5\<rparr>)))))"

text \<open>\<^verbatim>\<open>for (idir=0 ; idir<n ; idir++)\<close>, given the directions still to do.\<close>

fun directions ::
  "nat \<Rightarrow> real \<Rightarrow> real \<Rightarrow> (real list \<Rightarrow> real) \<Rightarrow> int \<Rightarrow> nat list \<Rightarrow> pstate \<Rightarrow> pstate flow" where
  "directions gfuel critlim tol criter n [] s = Go s"
| "directions gfuel critlim tol criter n (idir # idirs) s =
    (case direction_step gfuel critlim tol criter n idir s of
       Go s' \<Rightarrow> directions gfuel critlim tol criter n idirs s'
     | Stop e s' \<Rightarrow> Stop e s'
     | Fault f \<Rightarrow> Fault f)"

text \<open>The step beyond the point reached, lines 497 to 519.\<close>

definition probe :: "(real list \<Rightarrow> real) \<Rightarrow> int \<Rightarrow> pstate \<Rightarrow> pstate \<times> real" where
  "probe criter n s =
    (let p0 = map (\<lambda>i. p_x s ! i - p_p0 s ! i) [0..<nat n];
         base = map (\<lambda>i. p_x s ! i + p0 ! i) [0..<nat n];
         fval = criter base;
         s1 = s\<lparr>p_p0 := p0, p_base := base, p_fval := fval, p_replaced := - 1\<rparr>;
         ftest = p_fbest s1
     in (if fval < p_fbest s1 then s1\<lparr>p_fbest := fval, p_x := vec n base\<rparr> else s1, ftest))"

text \<open>The two tests for the replacement of a direction, lines 521 to 524.\<close>

definition replace_test :: "real \<Rightarrow> pstate \<Rightarrow> bool" where
  "replace_test ftest s =
    (p_fval s < p_f0 s \<and>
     (let test = p_f0 s - ftest - p_delta s;
          test = 2 * (p_f0 s - 2 * ftest + p_fval s) * test * test
      in test < p_delta s * (p_f0 s - p_fval s) * (p_f0 s - p_fval s)))"

text \<open>\<^verbatim>\<open>len\<close>: the sum is taken in the order of the source.\<close>

definition length_of :: "int \<Rightarrow> real list \<Rightarrow> real" where
  "length_of n p0 = sqrt (fold (\<lambda>i len. len + p0 ! i * p0 ! i) [0..<nat n] 0)"

text \<open>\<^verbatim>\<open>direc[idelta*n+i] = p0[i]\<close> for all \<^verbatim>\<open>i\<close> below \<^verbatim>\<open>n\<close>.\<close>

definition put_row :: "int \<Rightarrow> int \<Rightarrow> real list \<Rightarrow> real list \<Rightarrow> real list" where
  "put_row n idelta p0 direc = fold (\<lambda>i d. d[nat (idelta * n + int i) := p0 ! i]) [0..<nat n] direc"

text \<open>
  The replacement, lines 525 to 567, taken when both tests have passed. The divisions by
  \<^verbatim>\<open>len\<close> and by \<^verbatim>\<open>n\<close> are faults of the model when the divisor is zero.
\<close>

definition replacement ::
  "nat \<Rightarrow> real \<Rightarrow> real \<Rightarrow> (real list \<Rightarrow> real) \<Rightarrow> int \<Rightarrow> pstate \<Rightarrow> pstate flow" where
  "replacement gfuel critlim tol criter n s =
    (let len = length_of n (p_p0 s)
     in if 0 < n \<and> len = 0 then Fault Not_finite
        else
          (let s1 = s\<lparr>p_replaced := p_idelta s,
                      p_p0 := map (\<lambda>i. p_p0 s ! i / len) [0..<nat n],
                      p_br := (p_br s)\<lparr>g_y2 := p_fbest s\<rparr>,
                      p_base := vec n (p_x s)\<rparr>;
               local_direc = p_p0 s1;
               crit = univar_crit criter n (p_base s1) local_direc
           in case bracket_tries gfuel critlim crit (p_scale s1) mults (p_br s1) of
                None \<Rightarrow> Fault Extension_unbounded
              | Some b \<Rightarrow>
                  (let s2 = s1\<lparr>p_br := b\<rparr>
                   in if g_y2 b < critlim
                      then (if g_y2 b < p_fbest s2
                            then Stop Replace_break
                                   (s2\<lparr>p_x := along n (p_base s2) local_direc (g_x2 b),
                                       p_fbest := g_y2 b\<rparr>)
                            else Stop Replace_break (s2\<lparr>p_x := vec n (p_base s2)\<rparr>))
                      else if n = 0 then Fault Not_finite
                      else
                        (let s3 = refine critlim tol crit s2;
                             s4 = s3\<lparr>p_scale := new_scale n (g_x2 (p_br s3)) (p_scale s3),
                                     p_x := along n (p_base s3) local_direc (g_x2 (p_br s3)),
                                     p_fbest := p_fval s3\<rparr>
                         in Go (s4\<lparr>p_direc := put_row n (p_idelta s4) (p_p0 s4) (p_direc s4)\<rparr>)))))"

text \<open>
  The head of a pass of the main loop, lines 407 to 443: the three stopping tests, then
  the start of a round over the directions. The counter \<^verbatim>\<open>iter\<close> is an unbounded integer
  here: with \<^verbatim>\<open>maxits > 0\<close> it stops at \<^verbatim>\<open>maxits + 1\<close>, and with \<^verbatim>\<open>maxits <= 0\<close> its
  value decides nothing.
\<close>

definition powell_head :: "int \<Rightarrow> real \<Rightarrow> real \<Rightarrow> int \<Rightarrow> pstate \<Rightarrow> pstate flow" where
  "powell_head maxits critlim tol n s =
    (let s1 = s\<lparr>p_iter := p_iter s + 1\<rparr>
     in if p_iter s \<ge> maxits \<and> maxits > 0 then Stop Cap_hit s1
        else if p_fbest s1 < critlim then Stop Crit_met s1
        else
          (let toler = (if \<bar>p_prev_best s1\<bar> \<le> 1 then tol else tol * \<bar>p_prev_best s1\<bar>);
               s2 = (if p_prev_best s1 - p_fbest s1 \<le> toler
                     then s1\<lparr>p_convergence_counter := p_convergence_counter s1 + 1\<rparr>
                     else s1\<lparr>p_convergence_counter := 0\<rparr>)
           in if p_prev_best s1 - p_fbest s1 \<le> toler \<and> p_convergence_counter s2 \<ge> 2
              then Stop Converged s2
              else Go (s2\<lparr>p_prev_best := p_fbest s2, p_p0 := vec n (p_x s2),
                          p_f0 := p_fbest s2, p_delta := - 1, p_idelta := 0\<rparr>)))"

text \<open>The rest of a pass, lines 445 to 569.\<close>

definition powell_round ::
  "nat \<Rightarrow> real \<Rightarrow> real \<Rightarrow> (real list \<Rightarrow> real) \<Rightarrow> int \<Rightarrow> pstate \<Rightarrow> pstate flow" where
  "powell_round gfuel critlim tol criter n s =
    (case directions gfuel critlim tol criter n [0..<nat n] s of
       Go s1 \<Rightarrow>
         (let (s2, ftest) = probe criter n s1
          in if replace_test ftest s2 then replacement gfuel critlim tol criter n s2
             else Go s2)
     | Stop e s1 \<Rightarrow> Stop e s1
     | Fault f \<Rightarrow> Fault f)"

text \<open>One pass of \<^verbatim>\<open>for (;;)\<close>.\<close>

definition powell_pass ::
  "nat \<Rightarrow> int \<Rightarrow> real \<Rightarrow> real \<Rightarrow> (real list \<Rightarrow> real) \<Rightarrow> int \<Rightarrow> pstate \<Rightarrow> pstate flow" where
  "powell_pass gfuel maxits critlim tol criter n s =
    (case powell_head maxits critlim tol n s of
       Go s1 \<Rightarrow> powell_round gfuel critlim tol criter n s1
     | Stop e s1 \<Rightarrow> Stop e s1
     | Fault f \<Rightarrow> Fault f)"

text \<open>
  The main loop. Its fuel is the number of rounds over the directions it may start;
  \<open>gfuel\<close> is the fuel given to every call of \<^verbatim>\<open>glob_min\<close>.
\<close>

fun powell_loop ::
  "nat \<Rightarrow> nat \<Rightarrow> int \<Rightarrow> real \<Rightarrow> real \<Rightarrow> (real list \<Rightarrow> real) \<Rightarrow> int \<Rightarrow> pstate \<Rightarrow> pstate flow" where
  "powell_loop fuel gfuel maxits critlim tol criter n s =
    (case powell_head maxits critlim tol n s of
       Go s1 \<Rightarrow>
         (case fuel of
            0 \<Rightarrow> Fault Out_of_fuel
          | Suc fuel' \<Rightarrow>
              (case powell_round gfuel critlim tol criter n s1 of
                 Go s2 \<Rightarrow> powell_loop fuel' gfuel maxits critlim tol criter n s2
               | Stop e s2 \<Rightarrow> Stop e s2
               | Fault f \<Rightarrow> Fault f))
     | Stop e s1 \<Rightarrow> Stop e s1
     | Fault f \<Rightarrow> Fault f)"

declare powell_loop.simps [simp del]

text \<open>\<^verbatim>\<open>direc[i*n+j] = (j == i) ? 1.0 : 0.0\<close> for all \<^verbatim>\<open>i\<close> and \<^verbatim>\<open>j\<close> below \<^verbatim>\<open>n\<close>.\<close>

definition identity_direc :: "int \<Rightarrow> real list \<Rightarrow> real list" where
  "identity_direc n direc =
    fold (\<lambda>i d. fold (\<lambda>j d. d[i * nat n + j := (if j = i then 1 else 0)]) [0..<nat n] d)
      [0..<nat n] direc"

text \<open>
  The state before the main loop, lines 390 to 403. The buffers hold what the caller's
  memory holds. The locals that the source leaves uninitialised are zero here; each of them
  is written before it is read.
\<close>

definition powell_init ::
  "int \<Rightarrow> real list \<Rightarrow> real \<Rightarrow> real list \<Rightarrow> real list \<Rightarrow> real list \<Rightarrow> pstate" where
  "powell_init n x ystart base p0 direc =
    \<lparr>p_x = x, p_base = base, p_p0 = p0, p_direc = identity_direc n direc,
     p_br = \<lparr>g_x1 = 0, g_y1 = 0, g_x2 = 0, g_y2 = 0, g_x3 = 0, g_y3 = 0\<rparr>,
     p_replaced = - 1, p_idelta = 0, p_iter = 0, p_convergence_counter = 0,
     p_fval = 0, p_fbest = ystart, p_f0 = 0, p_prev_best = 10 ^ 60, p_delta = 0,
     p_scale = 0.2\<rparr>"

text \<open>\<^verbatim>\<open>powell\<close>: the value returned and the final \<^verbatim>\<open>x\<close>, or the fault.\<close>

definition powell ::
  "nat \<Rightarrow> nat \<Rightarrow> int \<Rightarrow> real \<Rightarrow> real \<Rightarrow> (real list \<Rightarrow> real) \<Rightarrow> int \<Rightarrow> real list \<Rightarrow> real
     \<Rightarrow> real list \<Rightarrow> real list \<Rightarrow> real list \<Rightarrow> fault + real \<times> real list" where
  "powell fuel gfuel maxits critlim tol criter n x ystart base p0 direc =
    (case powell_loop fuel gfuel maxits critlim tol criter n
            (powell_init n x ystart base p0 direc) of
       Go s \<Rightarrow> Inl Out_of_fuel
     | Stop e s \<Rightarrow> Inr (p_fbest s, p_x s)
     | Fault f \<Rightarrow> Inl f)"

section \<open>Invariants and sample inputs\<close>

text \<open>The criterion value that a pass of the scan works with.\<close>

definition scan_y :: "bool \<Rightarrow> ('x \<Rightarrow> real) \<Rightarrow> int \<Rightarrow> 'x gstate \<Rightarrow> real" where
  "scan_y know_first_point criter i s =
    (if i \<noteq> 0 \<or> \<not> know_first_point then criter (g_x s) else g_y2 s)"

text \<open>What holds of the state of the scan once \<open>i\<close> points, at least one, are done.\<close>

definition scan_inv :: "int \<Rightarrow> 'x gstate \<Rightarrow> bool" where
  "scan_inv i s \<longleftrightarrow>
     0 \<le> g_ibest s \<and> g_ibest s < i \<and> g_y2 s \<le> g_previous s \<and>
     (0 < g_ibest s \<longrightarrow> g_y2 s < g_y1 s) \<and>
     (g_turned_up s \<longrightarrow> g_y2 s \<le> g_y3 s) \<and>
     (\<not> g_turned_up s \<longrightarrow> g_ibest s = i - 1)"

text \<open>Caller's memory for the out parameters of \<^verbatim>\<open>glob_min\<close>, all zero.\<close>

definition zero_mem :: "real bracket" where
  "zero_mem = \<lparr>g_x1 = 0, g_y1 = 0, g_x2 = 0, g_y2 = 0, g_x3 = 0, g_y3 = 0\<rparr>"

definition zero_xmem :: "xreal bracket" where
  "zero_xmem = \<lparr>g_x1 = Fin 0, g_y1 = 0, g_x2 = Fin 0, g_y2 = 0, g_x3 = Fin 0, g_y3 = 0\<rparr>"

text \<open>
  \<^verbatim>\<open>double hill (double x) { return 6.0 - 1.0 / (1.0 + x * x) ; }\<close>, which is 6 at both
  infinities. NaN is no real number; the value given for it here is never used.
\<close>

definition hill :: "xreal \<Rightarrow> real" where
  "hill t = (case t of Fin v \<Rightarrow> 6 - 1 / (1 + v * v) | PInf \<Rightarrow> 6 | NInf \<Rightarrow> 6 | NaN \<Rightarrow> 6)"

text \<open>Two criteria with their minimum at 0 and at 1.\<close>

definition parabola :: "real \<Rightarrow> real" where
  "parabola t = t * t"

definition well :: "real \<Rightarrow> real" where
  "well t = (t - 1) * (t - 1)"

text \<open>A criterion that falls to the left for ever.\<close>

definition slope :: "real \<Rightarrow> real" where
  "slope t = t"

text \<open>The far end of the bracket seen from the best point, as the source computes it.\<close>

definition far_end :: "bstate \<Rightarrow> real" where
  "far_end s =
    (if 0.5 * (b_xleft s + b_xright s) > b_x0 s then b_xright s - b_x0 s
     else b_xleft s - b_x0 s)"


text \<open>
  What holds of the state of the scan of a criterion that is \<open>c\<close> everywhere, once \<open>i\<close>
  points, at least one, are done.
\<close>

definition flat_inv :: "real \<Rightarrow> int \<Rightarrow> 'x gstate \<Rightarrow> bool" where
  "flat_inv c i s \<longleftrightarrow>
     g_ibest s = 0 \<and> g_y2 s = c \<and> (g_turned_up s \<longleftrightarrow> 2 \<le> i) \<and> (2 \<le> i \<longrightarrow> g_y3 s = c)"

text \<open>
  The states of \<^verbatim>\<open>brentmin\<close> after one and after two passes on the criterion
  \<open>parabola\<close> with the bracket from \<open>-2\<close> to 1 around 0 and \<^verbatim>\<open>tol = 0.2\<close>.
\<close>

definition sq_state1 :: bstate where
  "sq_state1 =
    \<lparr>b_x0 = 0, b_x1 = - 190983 / 250000, b_x2 = 0,
     b_y0 = 0, b_y1 = 36474506289 / 62500000000, b_y2 = 0,
     b_xleft = - 190983 / 250000, b_xright = 1,
     b_movement = - 2, b_trial = - 190983 / 250000\<rparr>"

definition sq_state2 :: bstate where
  "sq_state2 =
    \<lparr>b_x0 = 0, b_x1 = 190983 / 500000, b_x2 = - 190983 / 250000,
     b_y0 = 0, b_y1 = 36474506289 / 250000000000, b_y2 = 36474506289 / 62500000000,
     b_xleft = - 190983 / 250000, b_xright = 190983 / 500000,
     b_movement = 1, b_trial = 190983 / 500000\<rparr>"

text \<open>
  The state of \<^verbatim>\<open>brentmin\<close> after one pass on the criterion \<open>slope\<close> with the bracket
  from \<open>-10\<^sup>4\<^sup>2\<close> to \<open>10\<^sup>4\<^sup>2\<close> around 0.
\<close>

definition wide_state1 :: bstate where
  "wide_state1 =
    \<lparr>b_x0 = - 381966 * 10 ^ 36, b_x1 = 0, b_x2 = 0,
     b_y0 = - 381966 * 10 ^ 36, b_y1 = 0, b_y2 = 0,
     b_xleft = - (10 ^ 42), b_xright = 0,
     b_movement = - (10 ^ 42), b_trial = - 381966 * 10 ^ 36\<rparr>"



text \<open>The state in which a pass ends, if it ends in one.\<close>

fun state_of :: "'a flow \<Rightarrow> 'a option" where
  "state_of (Go s) = Some s"
| "state_of (Stop e s) = Some s"
| "state_of (Fault f) = None"

text \<open>
  A criterion of two variables with its minimum at \<open>(-3/175, 0)\<close>, the second point of the
  first grid that \<^verbatim>\<open>powell\<close> lays along the first axis around the origin, and the state in
  which \<^verbatim>\<open>powell\<close> starts on it at the origin.
\<close>

definition dip :: "real list \<Rightarrow> real" where
  "dip v = (v ! 0 + 3 / 175) * (v ! 0 + 3 / 175) + v ! 1 * v ! 1"

definition dip_start :: pstate where
  "dip_start = powell_init 2 [0, 0] (9 / 30625) [0, 0] [0, 0] [0, 0, 0, 0]"

text \<open>The state of a run of \<^verbatim>\<open>powell\<close> after \<open>k\<close> passes of its main loop.\<close>

fun powell_run ::
  "nat \<Rightarrow> nat \<Rightarrow> int \<Rightarrow> real \<Rightarrow> real \<Rightarrow> (real list \<Rightarrow> real) \<Rightarrow> int \<Rightarrow> pstate \<Rightarrow> pstate flow" where
  "powell_run 0 gfuel maxits critlim tol criter n s = Go s"
| "powell_run (Suc k) gfuel maxits critlim tol criter n s =
    (case powell_run k gfuel maxits critlim tol criter n s of
       Go s1 \<Rightarrow> powell_pass gfuel maxits critlim tol criter n s1
     | Stop e s1 \<Rightarrow> Stop e s1
     | Fault f \<Rightarrow> Fault f)"

text \<open>The states of \<^verbatim>\<open>powell\<close> on \<open>dip\<close> after the head of the first pass and at its end.\<close>

definition dip_round :: pstate where
  "dip_round = dip_start\<lparr>p_iter := 1, p_convergence_counter := 0, p_prev_best := 9 / 30625,
     p_p0 := [0, 0], p_f0 := 9 / 30625, p_delta := - 1, p_idelta := 0\<rparr>"

definition dip_end :: pstate where
  "dip_end = dip_round\<lparr>p_base := [0, 0],
     p_br := \<lparr>g_x1 = - (1 / 50), g_y1 = 1 / 122500, g_x2 = - (3 / 175), g_y2 = 0,
              g_x3 = - (1 / 70), g_y3 = 1 / 122500\<rparr>,
     p_x := [- (3 / 175), 0], p_fbest := 0\<rparr>"

text \<open>A criterion with a corner at its minimum.\<close>

definition vee :: "real \<Rightarrow> real" where
  "vee t = \<bar>t\<bar>"

text \<open>
  The states of \<^verbatim>\<open>brentmin\<close> after one, two and three passes on the criterion \<open>vee\<close>
  with the bracket from \<open>-4\<close> to 4 around 2 and \<^verbatim>\<open>tol = 0.25\<close>.
\<close>

definition vee_state1 :: bstate where
  "vee_state1 =
    \<lparr>b_x0 = - 72949 / 250000, b_x1 = 2, b_x2 = 2,
     b_y0 = 72949 / 250000, b_y1 = 2, b_y2 = 2,
     b_xleft = - 4, b_xright = 2,
     b_movement = - 6, b_trial = - 572949 / 250000\<rparr>"

definition vee_state2 :: bstate where
  "vee_state2 =
    \<lparr>b_x0 = - 72949 / 250000, b_x1 = - 213525481133 / 125000000000, b_x2 = 2,
     b_y0 = 72949 / 250000, b_y1 = 213525481133 / 125000000000, b_y2 = 2,
     b_xleft = - 213525481133 / 125000000000, b_xright = 2,
     b_movement = - 927051 / 250000, b_trial = - 177050981133 / 125000000000\<rparr>"

definition vee_state3 :: bstate where
  "vee_state3 =
    \<lparr>b_x0 = 15576479756671217 / 250000000000000000, b_x1 = - 72949 / 250000,
     b_x2 = - 213525481133 / 125000000000,
     b_y0 = 15576479756671217 / 250000000000000000, b_y1 = 72949 / 250000,
     b_y2 = 213525481133 / 125000000000,
     b_xleft = - 72949 / 250000, b_xright = 2,
     b_movement = - 177050981133 / 125000000000,
     b_trial = 88525479756671217 / 250000000000000000\<rparr>"

text \<open>
  The average direction of a round, \<^verbatim>\<open>p0[i] = x[i] - p0[i]\<close>: from the point \<open>x0\<close> where the
  round began to the point \<open>x\<close> that its line searches reached.
\<close>

definition average_direction :: "int \<Rightarrow> real list \<Rightarrow> real list \<Rightarrow> real list" where
  "average_direction n x x0 = map (\<lambda>i. x ! i - x0 ! i) [0..<nat n]"

text \<open>The point one more such step beyond \<open>x\<close>, \<^verbatim>\<open>base[i] = x[i] + p0[i]\<close>.\<close>

definition stepped_out :: "int \<Rightarrow> real list \<Rightarrow> real list \<Rightarrow> real list" where
  "stepped_out n x p = map (\<lambda>i. x ! i + p ! i) [0..<nat n]"

text \<open>A vector divided by its length, \<^verbatim>\<open>p0[i] /= len\<close>.\<close>

definition unit_vector :: "int \<Rightarrow> real list \<Rightarrow> real list" where
  "unit_vector n p = map (\<lambda>i. p ! i / length_of n p) [0..<nat n]"

text \<open>
  The two tests for the replacement of a direction, on the values that they read: \<open>f0\<close> the
  best value when the round began, \<open>ftest\<close> the best value that its line searches reached,
  \<open>fval\<close> the criterion at the point stepped out to, \<open>delta\<close> the largest improvement of a
  single direction.
\<close>

definition test_passes :: "real \<Rightarrow> real \<Rightarrow> real \<Rightarrow> real \<Rightarrow> bool" where
  "test_passes f0 ftest fval delta \<longleftrightarrow>
     fval < f0 \<and>
     2 * (f0 - 2 * ftest + fval) * (f0 - ftest - delta) * (f0 - ftest - delta)
       < delta * (f0 - fval) * (f0 - fval)"

text \<open>
  The improvements of a round: for every direction that is searched, in the order of the
  search, the direction and the amount \<^verbatim>\<open>fbest - fval\<close> by which its line search lowered
  the best value. A direction that is skipped has no entry.
\<close>

fun gains ::
  "nat \<Rightarrow> real \<Rightarrow> real \<Rightarrow> (real list \<Rightarrow> real) \<Rightarrow> int \<Rightarrow> nat list \<Rightarrow> pstate \<Rightarrow> (nat \<times> real) list" where
  "gains gfuel critlim tol criter n [] s = []"
| "gains gfuel critlim tol criter n (idir # idirs) s =
    (case direction_step gfuel critlim tol criter n idir s of
       Go s' \<Rightarrow>
         (if 1 < n \<and> idir = 0 \<and> p_replaced s = 0 then []
          else [(idir, p_fbest s - p_fbest s')]) @
         gains gfuel critlim tol criter n idirs s'
     | Stop e s' \<Rightarrow> []
     | Fault f \<Rightarrow> [])"

text \<open>
  \<^verbatim>\<open>if (fbest - fval > delta) { delta = fbest - fval ; idelta = idir ; }\<close> on a pair of
  \<^verbatim>\<open>delta\<close> and \<^verbatim>\<open>idelta\<close>.
\<close>

definition track :: "nat \<times> real \<Rightarrow> real \<times> int \<Rightarrow> real \<times> int" where
  "track ig di = (if snd ig > fst di then (snd ig, int (fst ig)) else di)"

text \<open>
  \<open>idelta\<close> is the direction of the largest improvement \<open>delta\<close> among \<open>gs\<close>, the first
  one if there are several; when no improvement is above \<open>-1\<close>, the two have the values
  that a round starts with.
\<close>

definition largest_gain :: "(nat \<times> real) list \<Rightarrow> int \<Rightarrow> real \<Rightarrow> bool" where
  "largest_gain gs idelta delta \<longleftrightarrow>
     (\<forall>(i, g) \<in> set gs. g \<le> delta \<and> (int i < idelta \<longrightarrow> g < delta)) \<and>
     ((delta = - 1 \<and> idelta = 0) \<or>
      (- 1 < delta \<and> 0 \<le> idelta \<and> (nat idelta, delta) \<in> set gs))"

text \<open>
  A criterion of two variables with its minimum at \<open>(0, -3/350)\<close>, steeper above the
  minimum than below it along the second axis, and the states of the first pass of
  \<^verbatim>\<open>powell\<close> on it from the origin with \<^verbatim>\<open>critlim = -1\<close> and \<^verbatim>\<open>tol = 0.001\<close>: at the
  start, after the head of the pass, after the line search along each axis, after the step
  beyond the point reached, and at the end of the pass.
\<close>

definition skew :: "real list \<Rightarrow> real" where
  "skew v =
    v ! 0 * v ! 0 +
    (if 0 \<le> v ! 1 + 3 / 350 then (v ! 1 + 3 / 350) * (v ! 1 + 3 / 350)
     else (v ! 1 + 3 / 350) * (v ! 1 + 3 / 350) / 4)"

definition skew_start :: pstate where
  "skew_start = powell_init 2 [0, 0] (9 / 122500) [0, 0] [0, 0] [0, 0, 0, 0]"

definition skew_round :: pstate where
  "skew_round =
    \<lparr>p_x = [0, 0], p_base = [0, 0], p_p0 = [0, 0], p_direc = [1, 0, 0, 1],
     p_br = \<lparr>g_x1 = 0, g_y1 = 0, g_x2 = 0, g_y2 = 0, g_x3 = 0, g_y3 = 0\<rparr>,
     p_replaced = - 1, p_idelta = 0, p_iter = 1, p_convergence_counter = 0, p_fval = 0,
     p_fbest = 9 / 122500, p_f0 = 9 / 122500, p_prev_best = 9 / 122500, p_delta = - 1,
     p_scale = 1 / 5\<rparr>"

definition skew_mid0 :: pstate where
  "skew_mid0 =
    \<lparr>p_x = [0, 0], p_base = [0, 0], p_p0 = [0, 0], p_direc = [1, 0, 0, 1],
     p_br = \<lparr>g_x1 = - 1 / 100000, g_y1 = 1 / 12250, g_x2 = 0, g_y2 = 9 / 122500,
             g_x3 = 1 / 100000, g_y3 = 1 / 12250\<rparr>,
     p_replaced = - 1, p_idelta = 0, p_iter = 1, p_convergence_counter = 0,
     p_fval = 9 / 122500, p_fbest = 9 / 122500, p_f0 = 9 / 122500, p_prev_best = 9 / 122500,
     p_delta = 0, p_scale = 1 / 10\<rparr>"

definition skew_mid1 :: pstate where
  "skew_mid1 =
    \<lparr>p_x = [0, - 3 / 350], p_base = [0, 0], p_p0 = [0, 0], p_direc = [1, 0, 0, 1],
     p_br = \<lparr>g_x1 = - 6007 / 700000, g_y1 = 1 / 1960000, g_x2 = - 3 / 350, g_y2 = 0,
             g_x3 = - 2809017 / 350000000, g_y3 = 1 / 490000\<rparr>,
     p_replaced = - 1, p_idelta = 1, p_iter = 1, p_convergence_counter = 0, p_fval = 0,
     p_fbest = 0, p_f0 = 9 / 122500, p_prev_best = 9 / 122500, p_delta = 9 / 122500,
     p_scale = 19 / 350\<rparr>"

definition skew_probe :: pstate where
  "skew_probe =
    \<lparr>p_x = [0, - 3 / 350], p_base = [0, - 3 / 175], p_p0 = [0, - 3 / 350],
     p_direc = [1, 0, 0, 1],
     p_br = \<lparr>g_x1 = - 6007 / 700000, g_y1 = 1 / 1960000, g_x2 = - 3 / 350, g_y2 = 0,
             g_x3 = - 2809017 / 350000000, g_y3 = 1 / 490000\<rparr>,
     p_replaced = - 1, p_idelta = 1, p_iter = 1, p_convergence_counter = 0,
     p_fval = 9 / 490000, p_fbest = 0, p_f0 = 9 / 122500, p_prev_best = 9 / 122500,
     p_delta = 9 / 122500, p_scale = 19 / 350\<rparr>"

definition skew_end :: pstate where
  "skew_end =
    \<lparr>p_x = [0, - 3 / 350], p_base = [0, - 3 / 350], p_p0 = [0, - 1],
     p_direc = [1, 0, 0, - 1],
     p_br = \<lparr>g_x1 = - 1 / 100000, g_y1 = 361 / 600250000, g_x2 = 0, g_y2 = 0,
             g_x3 = 10886031 / 122500000000, g_y3 = 361 / 2401000000\<rparr>,
     p_replaced = 1, p_idelta = 1, p_iter = 1, p_convergence_counter = 0, p_fval = 0,
     p_fbest = 0, p_f0 = 9 / 122500, p_prev_best = 9 / 122500, p_delta = 9 / 122500,
     p_scale = 19 / 700\<rparr>"

text \<open>
  The states of \<^verbatim>\<open>brentmin\<close> after each of its passes in the three line searches of that
  pass of \<^verbatim>\<open>powell\<close>: along the first axis (\<open>a\<close>), along the second axis (\<open>b\<close>) and
  along the average direction (\<open>c\<close>).
\<close>

definition skew_a1 :: bstate where
  "skew_a1 =
    \<lparr>b_x0 = 0, b_x1 = - 190983 / 175000000, b_x2 = 0, b_y0 = 9 / 122500,
     b_y1 = 2286474506289 / 30625000000000000, b_y2 = 9 / 122500,
     b_xleft = - 190983 / 175000000, b_xright = 1 / 350, b_movement = - 1 / 350,
     b_trial = - 190983 / 175000000\<rparr>"

definition skew_a2 :: bstate where
  "skew_a2 =
    \<lparr>b_x0 = 0, b_x1 = 190983 / 175000000, b_x2 = - 190983 / 175000000, b_y0 = 9 / 122500,
     b_y1 = 2286474506289 / 30625000000000000, b_y2 = 2286474506289 / 30625000000000000,
     b_xleft = - 190983 / 175000000, b_xright = 190983 / 175000000, b_movement = 1 / 350,
     b_trial = 190983 / 175000000\<rparr>"

definition skew_a3 :: bstate where
  "skew_a3 =
    \<lparr>b_x0 = 0, b_x1 = - 1 / 100000, b_x2 = 190983 / 175000000, b_y0 = 9 / 122500,
     b_y1 = 36000049 / 490000000000, b_y2 = 2286474506289 / 30625000000000000,
     b_xleft = - 1 / 100000, b_xright = 190983 / 175000000, b_movement = 190983 / 175000000,
     b_trial = 0\<rparr>"

definition skew_a4 :: bstate where
  "skew_a4 =
    \<lparr>b_x0 = 0, b_x1 = 1 / 100000, b_x2 = - 1 / 100000, b_y0 = 9 / 122500,
     b_y1 = 36000049 / 490000000000, b_y2 = 36000049 / 490000000000, b_xleft = - 1 / 100000,
     b_xright = 1 / 100000, b_movement = 0, b_trial = 1 / 100000\<rparr>"

definition skew_b1 :: bstate where
  "skew_b1 =
    \<lparr>b_x0 = - 3 / 350, b_x1 = - 3190983 / 350000000, b_x2 = - 3 / 350, b_y0 = 0,
     b_y1 = 36474506289 / 490000000000000000, b_y2 = 0, b_xleft = - 3190983 / 350000000,
     b_xright = - 1 / 140, b_movement = - 1 / 700, b_trial = - 190983 / 350000000\<rparr>"

definition skew_b2 :: bstate where
  "skew_b2 =
    \<lparr>b_x0 = - 3 / 350, b_x1 = - 3190983 / 350000000, b_x2 = - 2809017 / 350000000, b_y0 = 0,
     b_y1 = 36474506289 / 490000000000000000, b_y2 = 36474506289 / 122500000000000000,
     b_xleft = - 3190983 / 350000000, b_xright = - 2809017 / 350000000,
     b_movement = 1 / 700, b_trial = 190983 / 350000000\<rparr>"

definition skew_b3 :: bstate where
  "skew_b3 =
    \<lparr>b_x0 = - 3 / 350, b_x1 = - 30572949 / 3500000000, b_x2 = - 3190983 / 350000000,
     b_y0 = 0, b_y1 = 328270556601 / 49000000000000000000,
     b_y2 = 36474506289 / 490000000000000000, b_xleft = - 30572949 / 3500000000,
     b_xright = - 2809017 / 350000000, b_movement = 190983 / 350000000,
     b_trial = - 572949 / 3500000000\<rparr>"

definition skew_b4 :: bstate where
  "skew_b4 =
    \<lparr>b_x0 = - 3 / 350, b_x1 = - 6007 / 700000, b_x2 = - 30572949 / 3500000000, b_y0 = 0,
     b_y1 = 1 / 40000000000, b_y2 = 328270556601 / 49000000000000000000,
     b_xleft = - 6007 / 700000, b_xright = - 2809017 / 350000000,
     b_movement = - 572949 / 3500000000, b_trial = 0\<rparr>"

definition skew_c1 :: bstate where
  "skew_c1 =
    \<lparr>b_x0 = 0, b_x1 = - 3628677 / 12250000000, b_x2 = 0, b_y0 = 0,
     b_y1 = 13167296770329 / 150062500000000000000, b_y2 = 0,
     b_xleft = - 3628677 / 12250000000, b_xright = 19 / 24500, b_movement = - 19 / 24500,
     b_trial = - 3628677 / 12250000000\<rparr>"

definition skew_c2 :: bstate where
  "skew_c2 =
    \<lparr>b_x0 = 0, b_x1 = 3628677 / 12250000000, b_x2 = - 3628677 / 12250000000, b_y0 = 0,
     b_y1 = 13167296770329 / 600250000000000000000,
     b_y2 = 13167296770329 / 150062500000000000000, b_xleft = - 3628677 / 12250000000,
     b_xright = 3628677 / 12250000000, b_movement = 19 / 24500,
     b_trial = 3628677 / 12250000000\<rparr>"

definition skew_c3 :: bstate where
  "skew_c3 =
    \<lparr>b_x0 = 0, b_x1 = 10886031 / 122500000000, b_x2 = 3628677 / 12250000000, b_y0 = 0,
     b_y1 = 118505670932961 / 60025000000000000000000,
     b_y2 = 13167296770329 / 600250000000000000000, b_xleft = - 3628677 / 12250000000,
     b_xright = 10886031 / 122500000000, b_movement = 3628677 / 12250000000,
     b_trial = 10886031 / 122500000000\<rparr>"

definition skew_c4 :: bstate where
  "skew_c4 =
    \<lparr>b_x0 = 0, b_x1 = - 1 / 100000, b_x2 = 10886031 / 122500000000, b_y0 = 0,
     b_y1 = 1 / 10000000000, b_y2 = 118505670932961 / 60025000000000000000000,
     b_xleft = - 1 / 100000, b_xright = 10886031 / 122500000000,
     b_movement = 10886031 / 122500000000, b_trial = 0\<rparr>"
















text \<open>
  A criterion of one variable with its minimum, 0, at \<open>-0.00115\<close>, and the states of the
  first pass of \<^verbatim>\<open>powell\<close> on it from 0 with \<^verbatim>\<open>critlim = 1e-6\<close> and \<^verbatim>\<open>tol = 0.001\<close>:
  at the start, after the head of the pass, after the line search along the axis, after the
  step beyond the point reached, and at the end of the pass. The state of \<^verbatim>\<open>brentmin\<close>
  after its one pass in the line search along the axis.
\<close>

definition trough :: "real list \<Rightarrow> real" where
  "trough v = (v ! 0 + 23 / 20000) * (v ! 0 + 23 / 20000)"

definition trough_start :: pstate where
  "trough_start = powell_init 1 [0] (529 / 400000000) [0] [0] [0]"

definition trough_round :: pstate where
  "trough_round =
    \<lparr>p_x = [0], p_base = [0], p_p0 = [0], p_direc = [1],
     p_br = \<lparr>g_x1 = 0, g_y1 = 0, g_x2 = 0, g_y2 = 0, g_x3 = 0, g_y3 = 0\<rparr>,
     p_replaced = - 1, p_idelta = 0, p_iter = 1, p_convergence_counter = 0, p_fval = 0,
     p_fbest = 529 / 400000000, p_f0 = 529 / 400000000, p_prev_best = 529 / 400000000,
     p_delta = - 1, p_scale = 1 / 5\<rparr>"

definition trough_mid0 :: pstate where
  "trough_mid0 =
    \<lparr>p_x = [- 190983 / 175000000], p_base = [0], p_p0 = [0], p_direc = [1],
     p_br = \<lparr>g_x1 = - 1 / 350, g_y1 = 57121 / 19600000000, g_x2 = - 190983 / 175000000,
             g_y2 = 529 / 400000000, g_x3 = 0, g_y3 = 314721 / 19600000000\<rparr>,
     p_replaced = - 1, p_idelta = 0, p_iter = 1, p_convergence_counter = 0,
     p_fval = 105411289 / 30625000000000000, p_fbest = 105411289 / 30625000000000000,
     p_f0 = 529 / 400000000, p_prev_best = 529 / 400000000,
     p_delta = 40396151211 / 30625000000000000, p_scale = 190983 / 175000000\<rparr>"

definition trough_probe :: pstate where
  "trough_probe =
    \<lparr>p_x = [- 190983 / 175000000], p_base = [- 190983 / 87500000],
     p_p0 = [- 190983 / 175000000], p_direc = [1],
     p_br = \<lparr>g_x1 = - 1 / 350, g_y1 = 57121 / 19600000000, g_x2 = - 190983 / 175000000,
             g_y2 = 529 / 400000000, g_x3 = 0, g_y3 = 314721 / 19600000000\<rparr>,
     p_replaced = - 1, p_idelta = 0, p_iter = 1, p_convergence_counter = 0,
     p_fval = 2041142041 / 1914062500000000, p_fbest = 105411289 / 30625000000000000,
     p_f0 = 529 / 400000000, p_prev_best = 529 / 400000000,
     p_delta = 40396151211 / 30625000000000000, p_scale = 190983 / 175000000\<rparr>"

definition trough_end :: pstate where
  "trough_end =
    \<lparr>p_x = [- 7066371 / 6125000000], p_base = [- 190983 / 175000000], p_p0 = [- 1],
     p_direc = [1],
     p_br = \<lparr>g_x1 = 572949 / 12250000000, g_y1 = 21240439081 / 150062500000000000000,
             g_x2 = 190983 / 3062500000, g_y2 = 511709641 / 37515625000000000000,
             g_x3 = 190983 / 2450000000, g_y3 = 89283601 / 240100000000000000\<rparr>,
     p_replaced = 0, p_idelta = 0, p_iter = 1, p_convergence_counter = 0,
     p_fval = 2041142041 / 1914062500000000, p_fbest = 511709641 / 37515625000000000000,
     p_f0 = 529 / 400000000, p_prev_best = 529 / 400000000,
     p_delta = 40396151211 / 30625000000000000, p_scale = 190983 / 175000000\<rparr>"

definition trough_a1 :: bstate where
  "trough_a1 =
    \<lparr>b_x0 = - 190983 / 175000000, b_x1 = 0, b_x2 = 0, b_y0 = 105411289 / 30625000000000000,
     b_y1 = 529 / 400000000, b_y2 = 529 / 400000000, b_xleft = - 1 / 350, b_xright = 0,
     b_movement = - 1 / 350, b_trial = - 190983 / 175000000\<rparr>"

section \<open>Properties\<close>

subsection \<open>The scan of glob\_min\<close>

lemma scan_point_sel:
  "g_ibest (snd (scan_point A k l critlim criter i s)) =
     (if i = 0 \<or> scan_y k criter i s < g_y2 s then i else g_ibest s)"
  "g_y2 (snd (scan_point A k l critlim criter i s)) =
     (if i = 0 \<or> scan_y k criter i s < g_y2 s then scan_y k criter i s else g_y2 s)"
  "g_y1 (snd (scan_point A k l critlim criter i s)) =
     (if i = 0 \<or> scan_y k criter i s < g_y2 s then g_previous s else g_y1 s)"
  "g_y3 (snd (scan_point A k l critlim criter i s)) =
     (if i = 0 \<or> scan_y k criter i s < g_y2 s then g_y3 s
      else if i = g_ibest s + 1 then scan_y k criter i s else g_y3 s)"
  "g_turned_up (snd (scan_point A k l critlim criter i s)) =
     (if i = 0 \<or> scan_y k criter i s < g_y2 s then False
      else if i = g_ibest s + 1 then True else g_turned_up s)"
  "g_previous (snd (scan_point A k l critlim criter i s)) = scan_y k criter i s"
  "g_rate (snd (scan_point A k l critlim criter i s)) = g_rate s"
  by (simp_all add: scan_point_def scan_y_def Let_def)

lemma scan_point_flag:
  "fst (scan_point A k l critlim criter i s) =
     (g_y2 (snd (scan_point A k l critlim criter i s)) \<le> critlim \<and>
      0 < g_ibest (snd (scan_point A k l critlim criter i s)) \<and>
      g_turned_up (snd (scan_point A k l critlim criter i s)))"
  by (simp add: scan_point_def Let_def)

lemma scan_unfold:
  assumes "i0 < npts"
  shows "scan A k l critlim criter npts i0 s =
    (if fst (scan_point A k l critlim criter i0 s)
     then (i0, snd (scan_point A k l critlim criter i0 s))
     else scan A k l critlim criter npts (i0 + 1) (snd (scan_point A k l critlim criter i0 s)))"
  using assms by (subst scan.simps) (simp add: case_prod_beta)

lemma scan_done: "\<not> i0 < npts \<Longrightarrow> scan A k l critlim criter npts i0 s = (i0, s)"
  by (subst scan.simps) simp

lemma scan_exit_gen:
  "scan A k l critlim criter npts i0 s = (i, s') \<Longrightarrow>
   i0 < npts \<or> \<not> (g_y2 s \<le> critlim \<and> 0 < g_ibest s \<and> g_turned_up s) \<Longrightarrow>
   (i < npts) = (g_y2 s' \<le> critlim \<and> 0 < g_ibest s' \<and> g_turned_up s')"
proof (induction A k l critlim criter npts i0 s rule: scan.induct)
  case (1 A k l critlim criter npts i0 s)
  let ?p = "scan_point A k l critlim criter i0 s"
  show ?case
  proof (cases "i0 < npts")
    case False
    with "1.prems" show ?thesis by (simp add: scan_done)
  next
    case True
    show ?thesis
    proof (cases "fst ?p")
      case brk: True
      with True "1.prems"(1) have "i = i0" "s' = snd ?p" by (auto simp: scan_unfold)
      with scan_point_flag[of A k l critlim criter i0 s] brk True show ?thesis by simp
    next
      case go: False
      with True "1.prems"(1)
      have rec: "scan A k l critlim criter npts (i0 + 1) (snd ?p) = (i, s')"
        by (simp add: scan_unfold)
      from scan_point_flag[of A k l critlim criter i0 s] go
      have no: "\<not> (g_y2 (snd ?p) \<le> critlim \<and> 0 < g_ibest (snd ?p) \<and> g_turned_up (snd ?p))"
        by simp
      have eq: "(False, snd ?p) = ?p" using go by (cases ?p) simp
      from "1.IH"[OF True eq refl rec] no show ?thesis by simp
    qed
  qed
qed

lemma scan_point_inv:
  assumes "0 \<le> i" "i = 0 \<or> scan_inv i s"
  shows "scan_inv (i + 1) (snd (scan_point A k l critlim criter i s))"
  using assms unfolding scan_inv_def scan_point_sel by auto

lemma scan_inv_gen:
  "scan A k l critlim criter npts i0 s = (i, s') \<Longrightarrow> 0 \<le> i0 \<Longrightarrow>
   (i0 = 0 \<and> 0 < npts) \<or> scan_inv i0 s \<Longrightarrow>
   scan_inv (if i < npts then i + 1 else i) s'"
proof (induction A k l critlim criter npts i0 s rule: scan.induct)
  case (1 A k l critlim criter npts i0 s)
  let ?p = "scan_point A k l critlim criter i0 s"
  show ?case
  proof (cases "i0 < npts")
    case False
    with "1.prems" show ?thesis by (auto simp: scan_done)
  next
    case True
    from "1.prems" have "i0 = 0 \<or> scan_inv i0 s" by auto
    from scan_point_inv[OF \<open>0 \<le> i0\<close> this] have inv1: "scan_inv (i0 + 1) (snd ?p)" .
    show ?thesis
    proof (cases "fst ?p")
      case brk: True
      with True "1.prems"(1) have "i = i0" "s' = snd ?p" by (auto simp: scan_unfold)
      with inv1 True show ?thesis by simp
    next
      case go: False
      with True "1.prems"(1)
      have rec: "scan A k l critlim criter npts (i0 + 1) (snd ?p) = (i, s')"
        by (simp add: scan_unfold)
      have eq: "(False, snd ?p) = ?p" using go by (cases ?p) simp
      from "1.IH"[OF True eq refl rec] inv1 \<open>0 \<le> i0\<close> show ?thesis by simp
    qed
  qed
qed

lemma scan_passes_unfold:
  assumes "i0 < npts"
  shows "scan_passes A k l critlim criter npts i0 s =
    (if fst (scan_point A k l critlim criter i0 s) then 1
     else 1 + scan_passes A k l critlim criter npts (i0 + 1)
                (snd (scan_point A k l critlim criter i0 s)))"
  using assms by (subst scan_passes.simps) (simp add: case_prod_beta)

lemma scan_passes_done: "\<not> i0 < npts \<Longrightarrow> scan_passes A k l critlim criter npts i0 s = 0"
  by (subst scan_passes.simps) simp

lemma scan_passes_gen:
  "scan A k l critlim criter npts i0 s = (i, s') \<Longrightarrow>
   scan_passes A k l critlim criter npts i0 s =
     (if i < npts then i + 1 - i0 else max 0 (npts - i0))"
proof (induction A k l critlim criter npts i0 s rule: scan.induct)
  case (1 A k l critlim criter npts i0 s)
  let ?p = "scan_point A k l critlim criter i0 s"
  show ?case
  proof (cases "i0 < npts")
    case False
    with "1.prems" show ?thesis by (simp add: scan_done scan_passes_done)
  next
    case True
    show ?thesis
    proof (cases "fst ?p")
      case brk: True
      with True "1.prems"(1) have "i = i0" by (auto simp: scan_unfold)
      with brk True show ?thesis by (simp add: scan_passes_unfold)
    next
      case go: False
      with True "1.prems"(1)
      have rec: "scan A k l critlim criter npts (i0 + 1) (snd ?p) = (i, s')"
        by (simp add: scan_unfold)
      have eq: "(False, snd ?p) = ?p" using go by (cases ?p) simp
      from "1.IH"[OF True eq refl rec] go True show ?thesis
        by (simp add: scan_passes_unfold)
    qed
  qed
qed

text \<open>
  C5, as amended. The scan of \<^verbatim>\<open>glob_min\<close> is left through its \<^verbatim>\<open>break\<close>, after the pass
  for the point \<^verbatim>\<open>i\<close>, if and only if the best value found is then at or below
  \<^verbatim>\<open>critlim\<close>, the best point is not the first one scanned and \<^verbatim>\<open>turned_up\<close> is set. The
  test is made after every pass, the last one included: the scan gets to \<^verbatim>\<open>i + 1\<close> points
  when it is left through the \<^verbatim>\<open>break\<close> and to all \<^verbatim>\<open>npts\<close> points otherwise, so it gets
  to fewer than \<^verbatim>\<open>npts\<close> points if and only if the three conditions hold after a pass that
  is not the last.
\<close>

theorem scan_early_exit_iff:
  assumes "scan A know_first_point log_space critlim criter npts 0
             (glob_init A low high npts log_space mem) = (i, s')"
  shows "(i < npts) = (g_y2 s' \<le> critlim \<and> 0 < g_ibest s' \<and> g_turned_up s') \<and>
         scan_passes A know_first_point log_space critlim criter npts 0
             (glob_init A low high npts log_space mem) =
           (if g_y2 s' \<le> critlim \<and> 0 < g_ibest s' \<and> g_turned_up s' then i + 1
            else max 0 npts) \<and>
         (scan_passes A know_first_point log_space critlim criter npts 0
             (glob_init A low high npts log_space mem) < npts) =
           (g_y2 s' \<le> critlim \<and> 0 < g_ibest s' \<and> g_turned_up s' \<and> i + 1 < npts)"
proof -
  have e: "(i < npts) = (g_y2 s' \<le> critlim \<and> 0 < g_ibest s' \<and> g_turned_up s')"
    by (rule scan_exit_gen[OF assms]) (simp add: glob_init_def)
  from scan_passes_gen[OF assms] e show ?thesis by auto
qed


theorem scan_early_exit_iff_witness:
  "scan real_arith False False (1 / 2) well 5 0 (glob_init real_arith 0 4 5 False zero_mem) =
     (2, \<lparr>g_x1 = 0, g_y1 = 1, g_x2 = 1, g_y2 = 0, g_x3 = 0, g_y3 = 1,
          g_x = 2, g_rate = 1, g_ibest = 1, g_turned_up = True, g_previous = 1\<rparr>) \<and>
   scan_passes real_arith False False (1 / 2) well 5 0
     (glob_init real_arith 0 4 5 False zero_mem) = 3 \<and>
   (scan_passes real_arith False False (1 / 2) well 5 0
     (glob_init real_arith 0 4 5 False zero_mem) < 5) =
     (g_y2 \<lparr>g_x1 = 0, g_y1 = 1, g_x2 = 1, g_y2 = 0, g_x3 = 0, g_y3 = 1,
          g_x = 2::real, g_rate = 1::real, g_ibest = 1, g_turned_up = True, g_previous = 1\<rparr> \<le> 1 / 2 \<and>
      0 < g_ibest \<lparr>g_x1 = 0, g_y1 = 1, g_x2 = 1, g_y2 = 0, g_x3 = 0, g_y3 = 1,
          g_x = 2::real, g_rate = 1::real, g_ibest = 1, g_turned_up = True, g_previous = 1\<rparr> \<and>
      g_turned_up \<lparr>g_x1 = 0, g_y1 = 1, g_x2 = 1, g_y2 = 0, g_x3 = 0, g_y3 = 1,
          g_x = 2::real, g_rate = 1::real, g_ibest = 1, g_turned_up = True, g_previous = 1\<rparr> \<and>
      (2::int) + 1 < 5)"
proof -
  have run: "scan real_arith False False (1 / 2) well 5 0
      (glob_init real_arith 0 4 5 False zero_mem) =
     (2, \<lparr>g_x1 = 0, g_y1 = 1, g_x2 = 1, g_y2 = 0, g_x3 = 0, g_y3 = 1,
          g_x = 2, g_rate = 1, g_ibest = 1, g_turned_up = True, g_previous = 1\<rparr>)"
    by (simp add: scan.simps scan_point_def glob_init_def real_arith_def zero_mem_def
        well_def Let_def)
  from scan_early_exit_iff[OF run] run show ?thesis by simp
qed

text \<open>
  C5 as stated fails when the three conditions first hold after the last pass. With the
  three points 0, 1 and 2, the criterion \<open>well\<close> and \<^verbatim>\<open>critlim = 0.5\<close>, the scan is left at
  \<^verbatim>\<open>i = 2\<close> with the three conditions true, and it has got to all three points: the value
  in \<^verbatim>\<open>previous\<close> is the criterion at 2.
\<close>

theorem scan_break_at_last_point_counterexample:
  "scan real_arith False False (1 / 2) well 3 0 (glob_init real_arith 0 2 3 False zero_mem) =
     (2, \<lparr>g_x1 = 0, g_y1 = 1, g_x2 = 1, g_y2 = 0, g_x3 = 0, g_y3 = 1,
          g_x = 2, g_rate = 1, g_ibest = 1, g_turned_up = True, g_previous = 1\<rparr>) \<and>
   g_y2 \<lparr>g_x1 = 0, g_y1 = 1, g_x2 = 1, g_y2 = 0, g_x3 = 0, g_y3 = 1,
        g_x = 2::real, g_rate = 1::real, g_ibest = 1, g_turned_up = True, g_previous = 1\<rparr> \<le> 1 / 2 \<and>
   0 < g_ibest \<lparr>g_x1 = 0, g_y1 = 1, g_x2 = 1, g_y2 = 0, g_x3 = 0, g_y3 = 1,
        g_x = 2::real, g_rate = 1::real, g_ibest = 1, g_turned_up = True, g_previous = 1\<rparr> \<and>
   g_turned_up \<lparr>g_x1 = 0, g_y1 = 1, g_x2 = 1, g_y2 = 0, g_x3 = 0, g_y3 = 1,
        g_x = 2::real, g_rate = 1::real, g_ibest = 1, g_turned_up = True, g_previous = 1\<rparr> \<and>
   well 2 = 1 \<and>
   scan_passes real_arith False False (1 / 2) well 3 0
     (glob_init real_arith 0 2 3 False zero_mem) = 3 \<and>
   \<not> scan_passes real_arith False False (1 / 2) well 3 0
       (glob_init real_arith 0 2 3 False zero_mem) < 3"
  by (simp add: scan.simps scan_passes.simps scan_point_def glob_init_def real_arith_def
      zero_mem_def well_def Let_def)

subsection \<open>The result of glob\_min\<close>

lemma extend_right_ok:
  "extend_right fuel A l criter s = Some s' \<Longrightarrow> g_y2 s \<le> g_y1 s \<Longrightarrow>
   g_y2 s' \<le> g_y1 s' \<and> g_y2 s' \<le> g_y3 s'"
  by (induction fuel arbitrary: s) (auto simp: Let_def split: if_splits)

lemma extend_left_ok:
  "extend_left fuel A l criter s = Some s' \<Longrightarrow> g_y2 s \<le> g_y3 s \<Longrightarrow>
   g_y2 s' \<le> g_y1 s' \<and> g_y2 s' \<le> g_y3 s'"
  by (induction fuel arbitrary: s) (auto simp: Let_def split: if_splits)

lemma neighbors_sel:
  "g_y1 (neighbors A l s) = g_y1 s" "g_y2 (neighbors A l s) = g_y2 s"
  "g_y3 (neighbors A l s) = g_y3 s" "g_turned_up (neighbors A l s) = g_turned_up s"
  "g_ibest (neighbors A l s) = g_ibest s"
  by (simp_all add: neighbors_def)

lemma glob_run_unfold:
  "glob_run fuel A low high npts l critlim criter mem =
     extension fuel A l criter (neighbors A l
       (snd (scan A (npts < 0) l critlim criter \<bar>npts\<bar> 0 (glob_init A low high \<bar>npts\<bar> l mem))))"
  by (simp add: glob_run_def Let_def case_prod_beta abs_if)

lemma glob_run_ok:
  assumes "2 \<le> \<bar>npts\<bar>"
    and "glob_run fuel A low high npts l critlim criter mem = Some s'"
  shows "g_y2 s' \<le> g_y1 s' \<and> g_y2 s' \<le> g_y3 s'"
proof -
  define s0 where "s0 = glob_init A low high \<bar>npts\<bar> l mem"
  obtain i s where sc: "scan A (npts < 0) l critlim criter \<bar>npts\<bar> 0 s0 = (i, s)"
    by (cases "scan A (npts < 0) l critlim criter \<bar>npts\<bar> 0 s0")
  from assms(2) sc have ex: "extension fuel A l criter (neighbors A l s) = Some s'"
    by (simp add: glob_run_unfold s0_def)
  from assms(1) have pos: "(0::int) = 0 \<and> 0 < \<bar>npts\<bar> \<or> scan_inv 0 s0" by auto
  from scan_inv_gen[OF sc _ pos]
  have inv: "scan_inv (if i < \<bar>npts\<bar> then i + 1 else i) s" by simp
  from assms(1)
  have "0 < \<bar>npts\<bar> \<or> \<not> (g_y2 s0 \<le> critlim \<and> 0 < g_ibest s0 \<and> g_turned_up s0)" by auto
  from scan_exit_gen[OF sc this]
  have brk: "(i < \<bar>npts\<bar>) = (g_y2 s \<le> critlim \<and> 0 < g_ibest s \<and> g_turned_up s)" .
  let ?t = "neighbors A l s"
  show ?thesis
  proof (cases "g_turned_up s")
    case False
    with brk have "\<not> i < \<bar>npts\<bar>" by simp
    with inv False assms(1) have "g_y2 s < g_y1 s" by (auto simp: scan_inv_def)
    with ex False show ?thesis
      using extend_right_ok[of fuel A l criter ?t s'] by (simp add: extension_def neighbors_sel)
  next
    case True
    with inv have y3: "g_y2 s \<le> g_y3 s" by (simp add: scan_inv_def)
    show ?thesis
    proof (cases "g_ibest s = 0")
      case True
      with ex \<open>g_turned_up s\<close> y3 show ?thesis
        using extend_left_ok[of fuel A l criter ?t s'] by (simp add: extension_def neighbors_sel)
    next
      case False
      with inv have "g_y2 s < g_y1 s" by (simp add: scan_inv_def)
      with ex \<open>g_turned_up s\<close> False y3 show ?thesis
        by (auto simp: extension_def neighbors_sel)
    qed
  qed
qed

lemma truncate_sel:
  "g_y1 (bracket.truncate s) = g_y1 s" "g_y2 (bracket.truncate s) = g_y2 s"
  "g_y3 (bracket.truncate s) = g_y3 s" "g_x1 (bracket.truncate s) = g_x1 s"
  "g_x2 (bracket.truncate s) = g_x2 s" "g_x3 (bracket.truncate s) = g_x3 s"
  by (simp_all add: bracket.truncate_def)

text \<open>
  C1, as amended. With at least two points to scan, every call of \<^verbatim>\<open>glob_min\<close> that
  returns gives a triple with \<^verbatim>\<open>*y2\<close> no greater than \<^verbatim>\<open>*y1\<close> and \<^verbatim>\<open>*y3\<close>, for every
  criterion and for every arithmetic on the abscissas.
\<close>

theorem glob_min_center_least:
  "2 \<le> npts \<Longrightarrow>
   glob_min fuel A low high npts log_space critlim criter mem = Some b \<Longrightarrow>
   g_y2 b \<le> g_y1 b \<and> g_y2 b \<le> g_y3 b"
  using glob_run_ok[of npts fuel A low high log_space critlim criter mem]
  by (auto simp: glob_min_def truncate_sel)

theorem glob_min_center_least_witness:
  "(2::int) \<le> 3 \<and>
   glob_min (Suc (Suc 0)) real_arith 2 4 3 False (- 1) well zero_mem =
     Some \<lparr>g_x1 = - 1, g_y1 = 4, g_x2 = 1, g_y2 = 0, g_x3 = 2, g_y3 = 1\<rparr> \<and>
   g_y2 \<lparr>g_x1 = - 1 :: real, g_y1 = 4, g_x2 = 1 :: real, g_y2 = 0, g_x3 = 2 :: real, g_y3 = 1\<rparr>
     \<le> g_y1 \<lparr>g_x1 = - 1 :: real, g_y1 = 4, g_x2 = 1 :: real, g_y2 = 0, g_x3 = 2 :: real, g_y3 = 1\<rparr> \<and>
   g_y2 \<lparr>g_x1 = - 1 :: real, g_y1 = 4, g_x2 = 1 :: real, g_y2 = 0, g_x3 = 2 :: real, g_y3 = 1\<rparr>
     \<le> g_y3 \<lparr>g_x1 = - 1 :: real, g_y1 = 4, g_x2 = 1 :: real, g_y2 = 0, g_x3 = 2 :: real, g_y3 = 1\<rparr>"
proof -
  have two: "(2::int) \<le> 3" by simp
  have run: "glob_min (Suc (Suc 0)) real_arith 2 4 3 False (- 1) well zero_mem =
     Some \<lparr>g_x1 = - 1, g_y1 = 4, g_x2 = 1, g_y2 = 0, g_x3 = 2, g_y3 = 1\<rparr>"
    by (simp add: glob_min_def glob_run_def glob_init_def scan.simps scan_point_def
        neighbors_def extension_def real_arith_def zero_mem_def well_def Let_def
        bracket.truncate_def)
  from glob_min_center_least[OF two run] two run show ?thesis by simp
qed

text \<open>
  C1 as stated fails for \<^verbatim>\<open>npts = 1\<close>: the step \<^verbatim>\<open>(high - low) / (npts - 1)\<close> is infinite,
  \<^verbatim>\<open>*y1\<close> is still the initial value 0.0 of \<^verbatim>\<open>previous\<close>, and the extension to the right
  stops at once because the criterion is larger at infinity.
\<close>

theorem glob_min_one_point_counterexample:
  "glob_min (Suc 0) ieee_arith (Fin 1) (Fin 2) 1 False 0 hill zero_xmem =
     Some \<lparr>g_x1 = NInf, g_y1 = 0, g_x2 = Fin 1, g_y2 = 11 / 2, g_x3 = PInf, g_y3 = 6\<rparr> \<and>
   \<not> g_y2 \<lparr>g_x1 = NInf, g_y1 = 0, g_x2 = Fin 1, g_y2 = 11 / 2, g_x3 = PInf, g_y3 = 6\<rparr>
     \<le> g_y1 \<lparr>g_x1 = NInf, g_y1 = 0, g_x2 = Fin 1, g_y2 = 11 / 2, g_x3 = PInf, g_y3 = 6\<rparr>"
  by (simp add: glob_min_def glob_run_def glob_init_def scan.simps scan_point_def
      neighbors_def extension_def ieee_arith_def zero_xmem_def hill_def xsub_def xsign_def
      Let_def bracket.truncate_def)

subsection \<open>A criterion that is constant\<close>

lemma flat_point:
  assumes "0 \<le> i" "i = 0 \<and> (k \<longrightarrow> g_y2 s = c) \<or> flat_inv c i s"
  shows "flat_inv c (i + 1) (snd (scan_point A k l critlim (\<lambda>x. c) i s))"
    and "\<not> fst (scan_point A k l critlim (\<lambda>x. c) i s)"
proof -
  have y: "scan_y k (\<lambda>x. c) i s = c"
    using assms by (auto simp: scan_y_def flat_inv_def)
  show "flat_inv c (i + 1) (snd (scan_point A k l critlim (\<lambda>x. c) i s))"
    using assms unfolding flat_inv_def scan_point_sel y by auto
  then show "\<not> fst (scan_point A k l critlim (\<lambda>x. c) i s)"
    unfolding scan_point_flag by (simp add: flat_inv_def)
qed

lemma flat_scan:
  "scan A k l critlim (\<lambda>x. c) npts i0 s = (i, s') \<Longrightarrow> 0 \<le> i0 \<Longrightarrow> i0 < npts \<Longrightarrow>
   i0 = 0 \<and> (k \<longrightarrow> g_y2 s = c) \<or> flat_inv c i0 s \<Longrightarrow>
   flat_inv c npts s'"
proof (induction A k l critlim "\<lambda>x::'a. c" npts i0 s rule: scan.induct)
  case (1 A k l critlim npts i0 s)
  let ?p = "scan_point A k l critlim (\<lambda>x. c) i0 s"
  from flat_point[OF "1.prems"(2,4)]
  have inv1: "flat_inv c (i0 + 1) (snd ?p)" and go: "\<not> fst ?p" by simp_all
  from go "1.prems"(1,3)
  have rec: "scan A k l critlim (\<lambda>x. c) npts (i0 + 1) (snd ?p) = (i, s')"
    by (simp add: scan_unfold)
  have eq: "(False, snd ?p) = ?p" using go by (cases ?p) simp
  show ?case
  proof (cases "i0 + 1 < npts")
    case True
    from "1.hyps"[OF "1.prems"(3) eq refl rec _ True] inv1 "1.prems"(2)
    show ?thesis by simp
  next
    case False
    with "1.prems"(3) have "npts = i0 + 1" by simp
    with rec inv1 show ?thesis by (simp add: scan_done)
  qed
qed

lemma flat_glob_run:
  assumes "npts \<noteq> 0" "npts < 0 \<longrightarrow> g_y2 mem = c"
  shows "\<exists>s. glob_run (Suc (Suc fuel)) A low high npts l critlim (\<lambda>x. c) mem = Some s \<and>
             g_y1 s = c \<and> g_y2 s = c \<and> g_y3 s = c"
proof -
  define s0 where "s0 = glob_init A low high \<bar>npts\<bar> l mem"
  obtain i s where sc: "scan A (npts < 0) l critlim (\<lambda>x. c) \<bar>npts\<bar> 0 s0 = (i, s)"
    by (cases "scan A (npts < 0) l critlim (\<lambda>x. c) \<bar>npts\<bar> 0 s0")
  have run: "glob_run (Suc (Suc fuel)) A low high npts l critlim (\<lambda>x. c) mem =
      extension (Suc (Suc fuel)) A l (\<lambda>x. c) (neighbors A l s)"
    using sc by (simp add: glob_run_unfold s0_def)
  from assms have start: "(0::int) = 0 \<and> (npts < 0 \<longrightarrow> g_y2 s0 = c) \<or> flat_inv c 0 s0"
    by (simp add: s0_def glob_init_def)
  from assms(1) have pos: "0 < \<bar>npts\<bar>" by simp
  from flat_scan[OF sc _ pos start] have inv: "flat_inv c \<bar>npts\<bar> s" by simp
  let ?t = "neighbors A l s"
  show ?thesis
  proof (cases "2 \<le> \<bar>npts\<bar>")
    case True
    with inv have "g_turned_up ?t" "g_ibest ?t = 0" "g_y2 ?t = c" "g_y3 ?t = c"
      by (simp_all add: flat_inv_def neighbors_sel)
    then show ?thesis unfolding run by (simp add: extension_def Let_def)
  next
    case False
    with inv have "\<not> g_turned_up ?t" "g_y2 ?t = c"
      by (simp_all add: flat_inv_def neighbors_sel)
    then show ?thesis unfolding run by (simp add: extension_def Let_def)
  qed
qed

lemma brent_loop_iter:
  "brent_loop itmax critlim eps tol criter i0 s = (e, i, s') \<Longrightarrow> i0 \<le> i \<and> i \<le> max i0 itmax"
proof (induction itmax critlim eps tol criter i0 s rule: brent_loop.induct)
  case (1 itmax critlim eps tol criter i0 s)
  show ?case
  proof (cases "i0 < itmax")
    case False
    with "1.prems" show ?thesis by (subst (asm) brent_loop.simps) simp
  next
    case True
    show ?thesis
    proof (cases "brent_body critlim eps tol criter i0 s")
      case (Inl x)
      with True "1.prems" show ?thesis by (subst (asm) brent_loop.simps) simp
    next
      case (Inr s1)
      with True "1.prems"
      have "brent_loop itmax critlim eps tol criter (i0 + 1) s1 = (e, i, s')"
        by (subst (asm) brent_loop.simps) simp
      from "1.IH"[OF True Inr this] True show ?thesis by simp
    qed
  qed
qed

lemma extend_right_flat:
  "extend_right (Suc (Suc (Suc f))) A l (\<lambda>x. c) s \<noteq> None"
  by (simp add: Let_def)

lemma extend_left_flat:
  "extend_left (Suc (Suc (Suc f))) A l (\<lambda>x. c) s \<noteq> None"
  by (simp add: Let_def)

lemma flat_glob_run_any:
  "glob_run (Suc (Suc (Suc f))) A low high npts l critlim (\<lambda>x. c) mem \<noteq> None"
proof -
  let ?s = "neighbors A l (snd (scan A (npts < 0) l critlim (\<lambda>x. c) \<bar>npts\<bar> 0
    (glob_init A low high \<bar>npts\<bar> l mem)))"
  have "extension (Suc (Suc (Suc f))) A l (\<lambda>x. c) ?s \<noteq> None"
  proof (cases "g_turned_up ?s")
    case False
    with extend_right_flat[of f A l c ?s] show ?thesis unfolding extension_def by metis
  next
    case True
    show ?thesis
    proof (cases "g_ibest ?s = 0")
      case z: True
      with True extend_left_flat[of f A l c ?s] show ?thesis unfolding extension_def by metis
    next
      case False
      with True show ?thesis unfolding extension_def by simp
    qed
  qed
  then show ?thesis unfolding glob_run_unfold .
qed

text \<open>
  C7. For a criterion that is \<open>c\<close> everywhere, every call of \<^verbatim>\<open>glob_min\<close> returns once a
  boundary extension has made three passes at most. In a call with at least one point to
  scan (a negative \<^verbatim>\<open>npts\<close> means that \<^verbatim>\<open>*y2\<close> holds the value of the criterion at
  \<^verbatim>\<open>low\<close>) two passes are enough, and \<^verbatim>\<open>glob_min\<close> returns with the three values equal,
  which is the test for a flat function that ends the extension. \<^verbatim>\<open>brentmin\<close> leaves its
  loop with \<^verbatim>\<open>iter\<close>, the number of evaluations of the criterion, at \<^verbatim>\<open>itmax\<close> at most.
\<close>

theorem flat_criterion_terminates:
  "(3 \<le> fuel \<longrightarrow>
      glob_min fuel A low high npts log_space critlim (\<lambda>x. c) mem \<noteq> None) \<and>
   (npts \<noteq> 0 \<and> (npts < 0 \<longrightarrow> g_y2 mem = c) \<and> 2 \<le> fuel \<longrightarrow>
      (\<exists>b. glob_min fuel A low high npts log_space critlim (\<lambda>x. c) mem = Some b \<and>
           g_y1 b = c \<and> g_y2 b = c \<and> g_y3 b = c)) \<and>
   fst (snd (brent_loop itmax critlim' eps tol (\<lambda>x. c) 0 (brent_init xa xb xc y))) \<le> max 0 itmax"
proof (intro conjI impI)
  assume "3 \<le> fuel"
  then obtain f where f: "fuel = Suc (Suc (Suc f))"
    by (metis add_2_eq_Suc le_Suc_ex numeral_3_eq_3 add_Suc)
  from flat_glob_run_any[of f A low high npts log_space critlim c mem]
  show "glob_min fuel A low high npts log_space critlim (\<lambda>x. c) mem \<noteq> None"
    by (simp add: glob_min_def f)
next
  assume a: "npts \<noteq> 0 \<and> (npts < 0 \<longrightarrow> g_y2 mem = c) \<and> 2 \<le> fuel"
  then obtain f where f: "fuel = Suc (Suc f)" by (metis add_2_eq_Suc le_Suc_ex)
  from a have a1: "npts \<noteq> 0" and a2: "npts < 0 \<longrightarrow> g_y2 mem = c" by simp_all
  from flat_glob_run[OF a1 a2, of f A low high log_space critlim]
  obtain s where "glob_run fuel A low high npts log_space critlim (\<lambda>x. c) mem = Some s"
    "g_y1 s = c" "g_y2 s = c" "g_y3 s = c" unfolding f by blast
  then show "\<exists>b. glob_min fuel A low high npts log_space critlim (\<lambda>x. c) mem = Some b \<and>
        g_y1 b = c \<and> g_y2 b = c \<and> g_y3 b = c"
    by (simp add: glob_min_def truncate_sel)
next
  obtain e i s' where
    "brent_loop itmax critlim' eps tol (\<lambda>x. c) 0 (brent_init xa xb xc y) = (e, i, s')"
    by (cases "brent_loop itmax critlim' eps tol (\<lambda>x. c) 0 (brent_init xa xb xc y)")
  with brent_loop_iter[OF this]
  show "fst (snd (brent_loop itmax critlim' eps tol (\<lambda>x. c) 0 (brent_init xa xb xc y)))
      \<le> max 0 itmax" by simp
qed

theorem flat_criterion_terminates_witness:
  "(3::nat) \<le> 3 \<and> glob_min 3 real_arith (- 1) 1 15 False 0 (\<lambda>x. 3) zero_mem \<noteq> None \<and>
   (15::int) \<noteq> 0 \<and> \<not> (15::int) < 0 \<and> (2::nat) \<le> 3 \<and>
   (\<exists>b. glob_min 3 real_arith (- 1) 1 15 False 0 (\<lambda>x. 3) zero_mem = Some b \<and>
        g_y1 b = 3 \<and> g_y2 b = 3 \<and> g_y3 b = 3) \<and>
   fst (snd (brent_loop 20 0 (1 / 10 ^ 5) (1 / 10 ^ 5) (\<lambda>x. 3) 0 (brent_init (- 1) 0 1 3)))
     \<le> max 0 20"
proof -
  have a: "(3::nat) \<le> 3" "(15::int) \<noteq> 0" "\<not> (15::int) < 0" "(2::nat) \<le> 3" by simp_all
  from flat_criterion_terminates[of 3 real_arith "- 1" 1 15 False 0 3 zero_mem 20 0
      "1 / 10 ^ 5" "1 / 10 ^ 5" "- 1" 0 1 3] a
  show ?thesis by blast
qed

subsection \<open>The tests against critlim\<close>

lemma brent_one_pass:
  "brent_loop 1 critlim eps tol criter 0 s =
    (case brent_body critlim eps tol criter 0 s of
       Inl e \<Rightarrow> (e, 0, s) | Inr s' \<Rightarrow> (Itmax_reached, 1, s'))"
  by (subst brent_loop.simps, simp split: sum.splits) (subst brent_loop.simps, simp)

text \<open>
  C3. The stops at \<^verbatim>\<open>critlim\<close> are strict in \<^verbatim>\<open>brentmin\<close> and in \<^verbatim>\<open>powell\<close>. With the
  best value equal to \<^verbatim>\<open>critlim\<close> (both 0 here), \<^verbatim>\<open>brentmin\<close> does not stop at its test:
  it makes its golden-section step, evaluates the criterion and moves \<^verbatim>\<open>*xa\<close>; and the head
  of the main loop of \<^verbatim>\<open>powell\<close> goes on to the round over the directions.
\<close>

theorem critlim_equal_goes_on:
  "brentmin 1 0 (1 / 10 ^ 5) (1 / 10 ^ 5) parabola (- 1) 0 1 0 = (- 0.3819660, 0, 1, 0) \<and>
   powell_head 5 0 (1 / 1000) 1 (powell_init 1 [0] 0 [0] [0] [0]) =
     Go ((powell_init 1 [0] 0 [0] [0] [0])
          \<lparr>p_iter := 1, p_convergence_counter := 0, p_prev_best := 0, p_p0 := [0],
           p_f0 := 0, p_delta := - 1, p_idelta := 0\<rparr>)"
  by (simp add: brentmin_def brent_one_pass brent_body_def brent_checks_def brent_init_def
      small_step_of_def choose_trial_def golden_def this_x_of_def insert_point_def
      parabola_def powell_head_def powell_init_def vec_def Let_def)

subsection \<open>The choice of the step in brentmin\<close>

lemma golden_sel:
  "b_movement (golden s) = far_end s" "b_trial (golden s) = 0.3819660 * far_end s"
  "b_x0 (golden s) = b_x0 s" "b_xleft (golden s) = b_xleft s" "b_xright (golden s) = b_xright s"
  "b_x1 (golden s) = b_x1 s" "b_x2 (golden s) = b_x2 s"
  "b_y0 (golden s) = b_y0 s" "b_y1 (golden s) = b_y1 s" "b_y2 (golden s) = b_y2 s"
  by (simp_all add: golden_def far_end_def Let_def)

lemma far_end_moved [simp]:
  "far_end (s\<lparr>b_movement := m, b_trial := t\<rparr>) = far_end s"
  by (simp add: far_end_def)

lemma far_end_larger_half:
  "b_xleft s \<le> b_x0 s \<Longrightarrow> b_x0 s \<le> b_xright s \<Longrightarrow>
   \<bar>far_end s\<bar> = max (b_xright s - b_x0 s) (b_x0 s - b_xleft s) \<and>
   (0 < far_end s \<longleftrightarrow> b_x0 s - b_xleft s < b_xright s - b_x0 s)"
  by (auto simp: far_end_def)

lemma choose_trial_rejected:
  assumes "\<bar>b_movement s\<bar> > small_step_of tol (b_x0 s)"
    and "\<not> (2 * \<bar>parabolic_trial s\<bar> < \<bar>b_movement s\<bar> \<and>
            b_xleft s < parabolic_trial s + b_x0 s \<and> parabolic_trial s + b_x0 s < b_xright s)"
  shows "choose_trial tol s = golden (s\<lparr>b_movement := b_trial s, b_trial := parabolic_trial s\<rparr>)"
  using assms by (auto simp: choose_trial_def Let_def)

lemma choose_trial_close:
  assumes "\<bar>b_movement s\<bar> > small_step_of tol (b_x0 s)"
    and "2 * \<bar>parabolic_trial s\<bar> < \<bar>b_movement s\<bar>"
    and "b_xleft s < parabolic_trial s + b_x0 s" "parabolic_trial s + b_x0 s < b_xright s"
    and "parabolic_trial s + b_x0 s - b_xleft s < 2 * small_step_of tol (b_x0 s) \<or>
         b_xright s - (parabolic_trial s + b_x0 s) < 2 * small_step_of tol (b_x0 s)"
  shows "b_trial (choose_trial tol s) =
           (if b_x0 s < 0.5 * (b_xleft s + b_xright s) then small_step_of tol (b_x0 s)
            else - small_step_of tol (b_x0 s))"
  using assms by (auto simp: choose_trial_def Let_def)

lemma choose_trial_accepted:
  assumes "\<bar>b_movement s\<bar> > small_step_of tol (b_x0 s)"
    and "2 * \<bar>parabolic_trial s\<bar> < \<bar>b_movement s\<bar>"
    and "b_xleft s < parabolic_trial s + b_x0 s" "parabolic_trial s + b_x0 s < b_xright s"
    and "\<not> parabolic_trial s + b_x0 s - b_xleft s < 2 * small_step_of tol (b_x0 s)"
    and "\<not> b_xright s - (parabolic_trial s + b_x0 s) < 2 * small_step_of tol (b_x0 s)"
  shows "choose_trial tol s = s\<lparr>b_movement := b_trial s, b_trial := parabolic_trial s\<rparr>"
  using assms by (simp add: choose_trial_def Let_def)

text \<open>
  C4, as amended. In a pass of \<^verbatim>\<open>brentmin\<close> that tries the parabolic step (the step
  before the last was larger than \<^verbatim>\<open>small_step\<close>), the step is chosen as follows. If
  twice the size of the parabolic step is not below the size of the step before the last, or
  the parabolic point is not strictly inside the bracket, then \<^verbatim>\<open>trial\<close> is the
  golden-section step: 0.3819660 times the distance to the far end of the bracket, which is
  the end of the larger half; this is so whether or not the parabolic point is close to an
  end. If the parabolic step passes both tests and its point is nearer than
  \<^verbatim>\<open>small_dist\<close> to an end of the bracket, then \<^verbatim>\<open>trial\<close> is not the golden-section
  step but \<^verbatim>\<open>small_step\<close>, with the sign that leads from \<^verbatim>\<open>x0\<close> to the middle of the
  bracket. Otherwise \<^verbatim>\<open>trial\<close> is the parabolic step.
\<close>

theorem unaccepted_parabola_step:
  assumes "\<bar>b_movement s\<bar> > small_step_of tol (b_x0 s)"
    and "b_xleft s \<le> b_x0 s" "b_x0 s \<le> b_xright s"
  shows "(\<not> 2 * \<bar>parabolic_trial s\<bar> < \<bar>b_movement s\<bar> \<or>
          \<not> (b_xleft s < parabolic_trial s + b_x0 s \<and>
             parabolic_trial s + b_x0 s < b_xright s) \<longrightarrow>
            b_trial (choose_trial tol s) = 0.3819660 * far_end s \<and>
            b_movement (choose_trial tol s) = far_end s) \<and>
         (2 * \<bar>parabolic_trial s\<bar> < \<bar>b_movement s\<bar> \<and>
          b_xleft s < parabolic_trial s + b_x0 s \<and> parabolic_trial s + b_x0 s < b_xright s \<and>
          (parabolic_trial s + b_x0 s - b_xleft s < 2 * small_step_of tol (b_x0 s) \<or>
           b_xright s - (parabolic_trial s + b_x0 s) < 2 * small_step_of tol (b_x0 s)) \<longrightarrow>
            b_trial (choose_trial tol s) =
              (if b_x0 s < 0.5 * (b_xleft s + b_xright s) then small_step_of tol (b_x0 s)
               else - small_step_of tol (b_x0 s))) \<and>
         (2 * \<bar>parabolic_trial s\<bar> < \<bar>b_movement s\<bar> \<and>
          b_xleft s < parabolic_trial s + b_x0 s \<and> parabolic_trial s + b_x0 s < b_xright s \<and>
          \<not> parabolic_trial s + b_x0 s - b_xleft s < 2 * small_step_of tol (b_x0 s) \<and>
          \<not> b_xright s - (parabolic_trial s + b_x0 s) < 2 * small_step_of tol (b_x0 s) \<longrightarrow>
            b_trial (choose_trial tol s) = parabolic_trial s) \<and>
         \<bar>far_end s\<bar> = max (b_xright s - b_x0 s) (b_x0 s - b_xleft s) \<and>
         (0 < far_end s \<longleftrightarrow> b_x0 s - b_xleft s < b_xright s - b_x0 s)"
proof (intro conjI impI)
  assume "\<not> 2 * \<bar>parabolic_trial s\<bar> < \<bar>b_movement s\<bar> \<or>
          \<not> (b_xleft s < parabolic_trial s + b_x0 s \<and> parabolic_trial s + b_x0 s < b_xright s)"
  then have r: "\<not> (2 * \<bar>parabolic_trial s\<bar> < \<bar>b_movement s\<bar> \<and>
            b_xleft s < parabolic_trial s + b_x0 s \<and> parabolic_trial s + b_x0 s < b_xright s)"
    by blast
  from choose_trial_rejected[OF assms(1) r]
  show "b_trial (choose_trial tol s) = 0.3819660 * far_end s"
    and "b_movement (choose_trial tol s) = far_end s"
    by (simp_all add: golden_sel)
next
  assume "2 * \<bar>parabolic_trial s\<bar> < \<bar>b_movement s\<bar> \<and>
          b_xleft s < parabolic_trial s + b_x0 s \<and> parabolic_trial s + b_x0 s < b_xright s \<and>
          (parabolic_trial s + b_x0 s - b_xleft s < 2 * small_step_of tol (b_x0 s) \<or>
           b_xright s - (parabolic_trial s + b_x0 s) < 2 * small_step_of tol (b_x0 s))"
  then have a: "2 * \<bar>parabolic_trial s\<bar> < \<bar>b_movement s\<bar>"
    and b: "b_xleft s < parabolic_trial s + b_x0 s"
    and c: "parabolic_trial s + b_x0 s < b_xright s"
    and d: "parabolic_trial s + b_x0 s - b_xleft s < 2 * small_step_of tol (b_x0 s) \<or>
            b_xright s - (parabolic_trial s + b_x0 s) < 2 * small_step_of tol (b_x0 s)"
    by blast+
  from choose_trial_close[OF assms(1) a b c d]
  show "b_trial (choose_trial tol s) =
          (if b_x0 s < 0.5 * (b_xleft s + b_xright s) then small_step_of tol (b_x0 s)
           else - small_step_of tol (b_x0 s))" .
next
  assume "2 * \<bar>parabolic_trial s\<bar> < \<bar>b_movement s\<bar> \<and>
          b_xleft s < parabolic_trial s + b_x0 s \<and> parabolic_trial s + b_x0 s < b_xright s \<and>
          \<not> parabolic_trial s + b_x0 s - b_xleft s < 2 * small_step_of tol (b_x0 s) \<and>
          \<not> b_xright s - (parabolic_trial s + b_x0 s) < 2 * small_step_of tol (b_x0 s)"
  then have a: "2 * \<bar>parabolic_trial s\<bar> < \<bar>b_movement s\<bar>"
    and b: "b_xleft s < parabolic_trial s + b_x0 s"
    and c: "parabolic_trial s + b_x0 s < b_xright s"
    and d: "\<not> parabolic_trial s + b_x0 s - b_xleft s < 2 * small_step_of tol (b_x0 s)"
    and e: "\<not> b_xright s - (parabolic_trial s + b_x0 s) < 2 * small_step_of tol (b_x0 s)"
    by blast+
  from choose_trial_accepted[OF assms(1) a b c d e]
  show "b_trial (choose_trial tol s) = parabolic_trial s" by simp
next
  from far_end_larger_half[OF assms(2,3)]
  show "\<bar>far_end s\<bar> = max (b_xright s - b_x0 s) (b_x0 s - b_xleft s)"
    and "(0 < far_end s) = (b_x0 s - b_xleft s < b_xright s - b_x0 s)"
    by simp_all
qed

lemmas brent_eval =
  brent_body_def brent_checks_def brent_init_def small_step_of_def quot_less_def
  choose_trial_def golden_def this_x_of_def insert_point_def parabolic_trial_def
  parabolic_numer_def parabolic_denom_def far_end_def Let_def

lemma sq_pass0:
  "brent_body (- (10 ^ 6)) (1 / 10 ^ 5) (1 / 5) parabola 0 (brent_init (- 2) 0 1 0) = Inr sq_state1"
  by (simp add: brent_eval parabola_def sq_state1_def)

lemma sq_pass1:
  "brent_body (- (10 ^ 6)) (1 / 10 ^ 5) (1 / 5) parabola 1 sq_state1 = Inr sq_state2"
  by (simp add: brent_eval parabola_def sq_state1_def sq_state2_def)

lemma vee_pass0:
  "brent_body (- (10 ^ 6)) (1 / 10 ^ 5) (1 / 4) vee 0 (brent_init (- 4) 2 4 2) = Inr vee_state1"
  by (simp add: brent_eval vee_def vee_state1_def)

lemma vee_pass1:
  "brent_body (- (10 ^ 6)) (1 / 10 ^ 5) (1 / 4) vee 1 vee_state1 = Inr vee_state2"
  by (simp add: brent_eval vee_def vee_state1_def vee_state2_def)

lemma vee_pass2:
  "brent_body (- (10 ^ 6)) (1 / 10 ^ 5) (1 / 4) vee 2 vee_state2 = Inr vee_state3"
  by (simp add: brent_eval vee_def vee_state2_def vee_state3_def)

lemma vee_trial3:
  "parabolic_trial vee_state3 =
     22636821190939747991548052369216733 / 15576479756671217000000000000000000"
  by (simp add: parabolic_trial_def parabolic_numer_def parabolic_denom_def vee_state3_def
      Let_def)

lemma vee_moving3: "\<bar>b_movement vee_state3\<bar> > small_step_of (1 / 4) (b_x0 vee_state3)"
  by (simp add: small_step_of_def vee_state3_def)

lemma vee_inside3:
  "b_xleft vee_state3 < parabolic_trial vee_state3 + b_x0 vee_state3"
  "parabolic_trial vee_state3 + b_x0 vee_state3 < b_xright vee_state3"
  unfolding vee_trial3 by (simp_all add: vee_state3_def)

lemma vee_close3:
  "b_xright vee_state3 - (parabolic_trial vee_state3 + b_x0 vee_state3)
     < 2 * small_step_of (1 / 4) (b_x0 vee_state3)"
  unfolding vee_trial3 by (simp add: small_step_of_def vee_state3_def)

lemma vee_large3: "\<not> 2 * \<bar>parabolic_trial vee_state3\<bar> < \<bar>b_movement vee_state3\<bar>"
  unfolding vee_trial3 by (simp add: vee_state3_def)

lemma vee_far3: "far_end vee_state3 = 484423520243328783 / 250000000000000000"
  by (simp add: far_end_def vee_state3_def)

theorem unaccepted_parabola_step_witness:
  "brent_body (- (10 ^ 6)) (1 / 10 ^ 5) (1 / 4) vee 0 (brent_init (- 4) 2 4 2) = Inr vee_state1 \<and>
   brent_body (- (10 ^ 6)) (1 / 10 ^ 5) (1 / 4) vee 1 vee_state1 = Inr vee_state2 \<and>
   brent_body (- (10 ^ 6)) (1 / 10 ^ 5) (1 / 4) vee 2 vee_state2 = Inr vee_state3 \<and>
   \<bar>b_movement vee_state3\<bar> > small_step_of (1 / 4) (b_x0 vee_state3) \<and>
   b_xleft vee_state3 \<le> b_x0 vee_state3 \<and> b_x0 vee_state3 \<le> b_xright vee_state3 \<and>
   b_xleft vee_state3 < parabolic_trial vee_state3 + b_x0 vee_state3 \<and>
   parabolic_trial vee_state3 + b_x0 vee_state3 < b_xright vee_state3 \<and>
   b_xright vee_state3 - (parabolic_trial vee_state3 + b_x0 vee_state3)
     < 2 * small_step_of (1 / 4) (b_x0 vee_state3) \<and>
   \<not> 2 * \<bar>parabolic_trial vee_state3\<bar> < \<bar>b_movement vee_state3\<bar> \<and>
   b_trial (choose_trial (1 / 4) vee_state3) = 0.3819660 * far_end vee_state3 \<and>
   b_movement (choose_trial (1 / 4) vee_state3) = far_end vee_state3 \<and>
   far_end vee_state3 = 484423520243328783 / 250000000000000000 \<and>
   \<bar>far_end vee_state3\<bar> =
     max (b_xright vee_state3 - b_x0 vee_state3) (b_x0 vee_state3 - b_xleft vee_state3) \<and>
   (0 < far_end vee_state3 \<longleftrightarrow>
     b_x0 vee_state3 - b_xleft vee_state3 < b_xright vee_state3 - b_x0 vee_state3)"
proof -
  have b: "b_xleft vee_state3 \<le> b_x0 vee_state3" and c: "b_x0 vee_state3 \<le> b_xright vee_state3"
    by (simp_all add: vee_state3_def)
  note t = unaccepted_parabola_step[OF vee_moving3 b c]
  from t vee_large3
  have g: "b_trial (choose_trial (1 / 4) vee_state3) = 0.3819660 * far_end vee_state3"
    "b_movement (choose_trial (1 / 4) vee_state3) = far_end vee_state3"
    by blast+
  from t have h: "\<bar>far_end vee_state3\<bar> =
     max (b_xright vee_state3 - b_x0 vee_state3) (b_x0 vee_state3 - b_xleft vee_state3)"
    "(0 < far_end vee_state3 \<longleftrightarrow>
     b_x0 vee_state3 - b_xleft vee_state3 < b_xright vee_state3 - b_x0 vee_state3)"
    by blast+
  from vee_pass0 vee_pass1 vee_pass2 vee_moving3 b c vee_inside3 vee_close3 vee_large3 g h
    vee_far3
  show ?thesis by blast
qed

lemma sq_checks2: "brent_checks (- (10 ^ 6)) (1 / 10 ^ 5) (1 / 5) 2 sq_state2 = None"
  by (simp add: brent_checks_def small_step_of_def sq_state2_def Let_def)

lemma sq_moving2: "\<bar>b_movement sq_state2\<bar> > small_step_of (1 / 5) (b_x0 sq_state2)"
  by (simp add: small_step_of_def sq_state2_def)

lemma sq_numer2: "parabolic_numer sq_state2 = 0"
  by (simp add: parabolic_numer_def sq_state2_def Let_def)

lemma sq_denom2: "\<bar>parabolic_denom sq_state2\<bar> > 1 / 10 ^ 40"
  by (simp add: parabolic_denom_def sq_state2_def Let_def)

lemma sq_trial2: "parabolic_trial sq_state2 = 0"
  using sq_denom2 by (simp add: parabolic_trial_def sq_numer2)

lemma sq_golden2: "0.3819660 * far_end sq_state2 = - 36474506289 / 125000000000"
  by (simp add: far_end_def sq_state2_def)

lemma sq_close2:
  "b_xright sq_state2 - (parabolic_trial sq_state2 + b_x0 sq_state2)
     < 2 * small_step_of (1 / 5) (b_x0 sq_state2)"
  unfolding sq_trial2 by (simp add: small_step_of_def sq_state2_def)

lemma sq_inside2:
  "2 * \<bar>parabolic_trial sq_state2\<bar> < \<bar>b_movement sq_state2\<bar>"
  "b_xleft sq_state2 < parabolic_trial sq_state2 + b_x0 sq_state2"
  "parabolic_trial sq_state2 + b_x0 sq_state2 < b_xright sq_state2"
  unfolding sq_trial2 by (simp_all add: sq_state2_def)

lemma sq_step2: "b_trial (choose_trial (1 / 5) sq_state2) = - 1 / 5"
proof -
  from choose_trial_close[OF sq_moving2 sq_inside2 disjI2, OF sq_close2]
  show ?thesis by (simp add: small_step_of_def sq_state2_def)
qed

text \<open>
  C4 as stated fails where the parabolic step passes both tests and its point lies too
  close to an end of the bracket. The third pass on \<open>parabola\<close> is such a pass: the
  parabolic step is 0, the point is nearer to \<^verbatim>\<open>xright\<close> than \<^verbatim>\<open>small_dist\<close>, and
  \<^verbatim>\<open>trial\<close> becomes \<^verbatim>\<open>-small_step\<close>, which is not the golden-section step.
\<close>

theorem too_close_not_golden_counterexample:
  "brent_body (- (10 ^ 6)) (1 / 10 ^ 5) (1 / 5) parabola 0 (brent_init (- 2) 0 1 0) = Inr sq_state1 \<and>
   brent_body (- (10 ^ 6)) (1 / 10 ^ 5) (1 / 5) parabola 1 sq_state1 = Inr sq_state2 \<and>
   brent_checks (- (10 ^ 6)) (1 / 10 ^ 5) (1 / 5) 2 sq_state2 = None \<and>
   \<bar>b_movement sq_state2\<bar> > small_step_of (1 / 5) (b_x0 sq_state2) \<and>
   parabolic_trial sq_state2 = 0 \<and>
   2 * \<bar>parabolic_trial sq_state2\<bar> < \<bar>b_movement sq_state2\<bar> \<and>
   b_xleft sq_state2 < parabolic_trial sq_state2 + b_x0 sq_state2 \<and>
   parabolic_trial sq_state2 + b_x0 sq_state2 < b_xright sq_state2 \<and>
   b_xright sq_state2 - (parabolic_trial sq_state2 + b_x0 sq_state2)
     < 2 * small_step_of (1 / 5) (b_x0 sq_state2) \<and>
   b_trial (choose_trial (1 / 5) sq_state2) = - 1 / 5 \<and>
   0.3819660 * far_end sq_state2 = - 36474506289 / 125000000000 \<and>
   b_trial (choose_trial (1 / 5) sq_state2) \<noteq> 0.3819660 * far_end sq_state2"
  using sq_pass0 sq_pass1 sq_checks2 sq_moving2 sq_trial2 sq_inside2 sq_close2 sq_step2
    sq_golden2
  by simp

subsection \<open>The guard of the parabolic division\<close>

lemma sentinel: "\<bar>parabolic_denom s\<bar> \<le> 1 / 10 ^ 40 \<Longrightarrow> parabolic_trial s = 10 ^ 40"
  by (simp add: parabolic_trial_def)

text \<open>
  C6, as amended. When the size of \<^verbatim>\<open>denom\<close> is at most \<^verbatim>\<open>1e-40\<close>, the parabolic estimate
  is the finite sentinel \<^verbatim>\<open>1e40\<close> and not a quotient; the pass then takes the
  golden-section step unless the step before the last was longer than \<^verbatim>\<open>2e40\<close> and the
  point \<^verbatim>\<open>x0 + 1e40\<close> lies strictly inside the bracket.
\<close>

theorem small_denom_golden:
  assumes "\<bar>b_movement s\<bar> > small_step_of tol (b_x0 s)"
    and "\<bar>parabolic_denom s\<bar> \<le> 1 / 10 ^ 40"
    and "\<not> (2 * 10 ^ 40 < \<bar>b_movement s\<bar> \<and>
            b_xleft s < b_x0 s + 10 ^ 40 \<and> b_x0 s + 10 ^ 40 < b_xright s)"
  shows "parabolic_trial s = 10 ^ 40 \<and>
         b_trial (choose_trial tol s) = 0.3819660 * far_end s \<and>
         b_movement (choose_trial tol s) = far_end s"
proof -
  from assms(2) have t: "parabolic_trial s = 10 ^ 40" by (rule sentinel)
  from assms(3)
  have "\<not> (2 * \<bar>parabolic_trial s\<bar> < \<bar>b_movement s\<bar> \<and>
            b_xleft s < parabolic_trial s + b_x0 s \<and> parabolic_trial s + b_x0 s < b_xright s)"
    unfolding t by (simp add: add.commute)
  from choose_trial_rejected[OF assms(1) this] t show ?thesis by (simp add: golden_sel)
qed

theorem small_denom_golden_witness:
  "\<bar>b_movement sq_state1\<bar> > small_step_of (1 / 5) (b_x0 sq_state1) \<and>
   \<bar>parabolic_denom sq_state1\<bar> \<le> 1 / 10 ^ 40 \<and>
   \<not> (2 * 10 ^ 40 < \<bar>b_movement sq_state1\<bar> \<and>
      b_xleft sq_state1 < b_x0 sq_state1 + 10 ^ 40 \<and>
      b_x0 sq_state1 + 10 ^ 40 < b_xright sq_state1) \<and>
   parabolic_trial sq_state1 = 10 ^ 40 \<and>
   b_trial (choose_trial (1 / 5) sq_state1) = 0.3819660 * far_end sq_state1 \<and>
   b_movement (choose_trial (1 / 5) sq_state1) = far_end sq_state1"
proof -
  have a: "\<bar>b_movement sq_state1\<bar> > small_step_of (1 / 5) (b_x0 sq_state1)"
    by (simp add: sq_state1_def small_step_of_def)
  have b: "\<bar>parabolic_denom sq_state1\<bar> \<le> 1 / 10 ^ 40"
    by (simp add: sq_state1_def parabolic_denom_def)
  have c: "\<not> (2 * 10 ^ 40 < \<bar>b_movement sq_state1\<bar> \<and>
      b_xleft sq_state1 < b_x0 sq_state1 + 10 ^ 40 \<and>
      b_x0 sq_state1 + 10 ^ 40 < b_xright sq_state1)"
    by (simp add: sq_state1_def)
  from small_denom_golden[OF a b c] a b c show ?thesis by blast
qed

lemma wide_pass0:
  "brent_body (- (10 ^ 60)) (1 / 10 ^ 5) (1 / 10 ^ 5) slope 0
     (brent_init (- (10 ^ 42)) 0 (10 ^ 42) 0) = Inr wide_state1"
  by (simp add: brent_eval slope_def wide_state1_def)

lemma wide_checks1:
  "brent_checks (- (10 ^ 60)) (1 / 10 ^ 5) (1 / 10 ^ 5) 1 wide_state1 = None"
  by (simp add: brent_checks_def small_step_of_def wide_state1_def Let_def)

lemma wide_moving1: "\<bar>b_movement wide_state1\<bar> > small_step_of (1 / 10 ^ 5) (b_x0 wide_state1)"
  by (simp add: small_step_of_def wide_state1_def)

lemma wide_denom1: "parabolic_denom wide_state1 = 0"
  by (simp add: parabolic_denom_def wide_state1_def)

lemma wide_trial1: "parabolic_trial wide_state1 = 10 ^ 40"
  by (simp add: parabolic_trial_def wide_denom1)

lemma wide_step1:
  "choose_trial (1 / 10 ^ 5) wide_state1 =
     wide_state1\<lparr>b_movement := - 381966 * 10 ^ 36, b_trial := 10 ^ 40\<rparr>"
proof -
  have a: "2 * \<bar>parabolic_trial wide_state1\<bar> < \<bar>b_movement wide_state1\<bar>"
    and b: "b_xleft wide_state1 < parabolic_trial wide_state1 + b_x0 wide_state1"
    and c: "parabolic_trial wide_state1 + b_x0 wide_state1 < b_xright wide_state1"
    and d: "\<not> parabolic_trial wide_state1 + b_x0 wide_state1 - b_xleft wide_state1
              < 2 * small_step_of (1 / 10 ^ 5) (b_x0 wide_state1)"
    and e: "\<not> b_xright wide_state1 - (parabolic_trial wide_state1 + b_x0 wide_state1)
              < 2 * small_step_of (1 / 10 ^ 5) (b_x0 wide_state1)"
    unfolding wide_trial1 by (simp_all add: wide_state1_def small_step_of_def)
  have f: "b_trial wide_state1 = - 381966 * 10 ^ 36" by (simp add: wide_state1_def)
  from choose_trial_accepted[OF wide_moving1 a b c d e] show ?thesis
    unfolding wide_trial1 f .
qed

lemma wide_this_x1:
  "this_x_of (1 / 10 ^ 5) (wide_state1\<lparr>b_movement := - 381966 * 10 ^ 36, b_trial := 10 ^ 40\<rparr>) =
     - 381966 * 10 ^ 36 + 10 ^ 40"
  by (simp add: this_x_of_def small_step_of_def wide_state1_def)

lemma wide_golden1: "0.3819660 * far_end wide_state1 = - 0.3819660 * (618034 * 10 ^ 36)"
  by (simp add: far_end_def wide_state1_def)

text \<open>
  C6 as stated fails on a wide bracket. In the second pass on \<open>slope\<close> the denominator is
  zero, the estimate is the sentinel, the step before the last was \<open>10\<^sup>4\<^sup>2\<close> long and
  \<^verbatim>\<open>x0 + 1e40\<close> lies inside the bracket: the sentinel is accepted as the parabolic step and the
  criterion is evaluated at \<^verbatim>\<open>x0 + 1e40\<close>, not at the golden-section point.
\<close>

theorem sentinel_accepted_counterexample:
  "brent_body (- (10 ^ 60)) (1 / 10 ^ 5) (1 / 10 ^ 5) slope 0
     (brent_init (- (10 ^ 42)) 0 (10 ^ 42) 0) = Inr wide_state1 \<and>
   brent_checks (- (10 ^ 60)) (1 / 10 ^ 5) (1 / 10 ^ 5) 1 wide_state1 = None \<and>
   \<bar>b_movement wide_state1\<bar> > small_step_of (1 / 10 ^ 5) (b_x0 wide_state1) \<and>
   parabolic_denom wide_state1 = 0 \<and>
   b_trial (choose_trial (1 / 10 ^ 5) wide_state1) = 10 ^ 40 \<and>
   this_x_of (1 / 10 ^ 5) (choose_trial (1 / 10 ^ 5) wide_state1) = b_x0 wide_state1 + 10 ^ 40 \<and>
   b_trial (choose_trial (1 / 10 ^ 5) wide_state1) \<noteq> 0.3819660 * far_end wide_state1"
proof -
  have a: "b_trial (choose_trial (1 / 10 ^ 5) wide_state1) = 10 ^ 40"
    unfolding wide_step1 by simp
  have b: "this_x_of (1 / 10 ^ 5) (choose_trial (1 / 10 ^ 5) wide_state1) =
      b_x0 wide_state1 + 10 ^ 40"
    unfolding wide_step1 wide_this_x1 by (simp add: wide_state1_def)
  have c: "b_trial (choose_trial (1 / 10 ^ 5) wide_state1) \<noteq> 0.3819660 * far_end wide_state1"
    unfolding a wide_golden1 by simp
  from wide_pass0 wide_checks1 wide_moving1 wide_denom1 a b c show ?thesis by blast
qed

subsection \<open>The bracket of brentmin\<close>














lemma brent_loop_unfold:
  "brent_loop itmax critlim eps tol criter iter s =
    (if iter < itmax
     then (case brent_body critlim eps tol criter iter s of
             Inl e \<Rightarrow> (e, iter, s)
           | Inr s' \<Rightarrow> brent_loop itmax critlim eps tol criter (iter + 1) s')
     else (Itmax_reached, iter, s))"
  by (rule brent_loop.simps)





subsection \<open>glob\_min in exact real arithmetic\<close>












subsection \<open>The value returned by brentmin\<close>






subsection \<open>The best value of powell\<close>

lemma refine_sel:
  "p_x (refine critlim tol crit s) = p_x s" "p_base (refine critlim tol crit s) = p_base s"
  "p_p0 (refine critlim tol crit s) = p_p0 s" "p_direc (refine critlim tol crit s) = p_direc s"
  "p_fbest (refine critlim tol crit s) = p_fbest s" "p_f0 (refine critlim tol crit s) = p_f0 s"
  "p_delta (refine critlim tol crit s) = p_delta s" "p_idelta (refine critlim tol crit s) = p_idelta s"
  "p_scale (refine critlim tol crit s) = p_scale s" "p_replaced (refine critlim tol crit s) = p_replaced s"
  "p_iter (refine critlim tol crit s) = p_iter s"
  "p_convergence_counter (refine critlim tol crit s) = p_convergence_counter s"
  by (simp_all add: refine_def Let_def case_prod_beta)


lemma vec_vec [simp]: "vec n (vec n x) = vec n x"
  by (simp add: vec_def)

lemma vec_along [simp]: "vec n (along n base d t) = along n base d t"
  by (simp add: vec_def along_def)

lemma along_zero [simp]: "along n (vec n x) d 0 = vec n x"
  by (simp add: vec_def along_def)



lemma direction_step_run:
  assumes "\<not> (1 < n \<and> idir = 0 \<and> p_replaced s = 0)"
  shows "direction_step gfuel critlim tol criter n idir s =
       (let s1 = s\<lparr>p_base := vec n (p_x s), p_br := (p_br s)\<lparr>g_y2 := p_fbest s\<rparr>\<rparr>;
            local_direc = row n (p_direc s1) idir;
            crit = univar_crit criter n (p_base s1) local_direc
        in case bracket_tries gfuel critlim crit (p_scale s1) mults (p_br s1) of
             None \<Rightarrow> Fault Extension_unbounded
           | Some b \<Rightarrow>
               (let s2 = s1\<lparr>p_br := b\<rparr>
                in if g_y2 b < critlim
                   then (if g_y2 b < p_fbest s2
                         then Stop Finish (s2\<lparr>p_x := along n (p_base s2) local_direc (g_x2 b),
                                               p_fbest := g_y2 b\<rparr>)
                         else Stop Finish (s2\<lparr>p_x := vec n (p_base s2)\<rparr>))
                   else if n = 0 then Fault Not_finite
                   else
                     (let s3 = refine critlim tol crit s2;
                          s4 = s3\<lparr>p_scale := new_scale n (g_x2 (p_br s3)) (p_scale s3),
                                  p_x := along n (p_base s3) local_direc (g_x2 (p_br s3))\<rparr>;
                          s5 = (if p_fbest s4 - p_fval s4 > p_delta s4
                                then s4\<lparr>p_delta := p_fbest s4 - p_fval s4, p_idelta := int idir\<rparr>
                                else s4)
                      in Go (s5\<lparr>p_fbest := p_fval s5\<rparr>))))"
  unfolding direction_step_def using assms by (rule if_not_P)



lemma vec_map [simp]: "vec n (map f [0..<nat n]) = map f [0..<nat n]"
  by (simp add: vec_def)


lemma replacement_run:
  assumes "\<not> (0 < n \<and> length_of n (p_p0 s) = 0)"
  shows "replacement gfuel critlim tol criter n s =
          (let len = length_of n (p_p0 s);
               s1 = s\<lparr>p_replaced := p_idelta s,
                      p_p0 := map (\<lambda>i. p_p0 s ! i / len) [0..<nat n],
                      p_br := (p_br s)\<lparr>g_y2 := p_fbest s\<rparr>,
                      p_base := vec n (p_x s)\<rparr>;
               local_direc = p_p0 s1;
               crit = univar_crit criter n (p_base s1) local_direc
           in case bracket_tries gfuel critlim crit (p_scale s1) mults (p_br s1) of
                None \<Rightarrow> Fault Extension_unbounded
              | Some b \<Rightarrow>
                  (let s2 = s1\<lparr>p_br := b\<rparr>
                   in if g_y2 b < critlim
                      then (if g_y2 b < p_fbest s2
                            then Stop Replace_break
                                   (s2\<lparr>p_x := along n (p_base s2) local_direc (g_x2 b),
                                       p_fbest := g_y2 b\<rparr>)
                            else Stop Replace_break (s2\<lparr>p_x := vec n (p_base s2)\<rparr>))
                      else if n = 0 then Fault Not_finite
                      else
                        (let s3 = refine critlim tol crit s2;
                             s4 = s3\<lparr>p_scale := new_scale n (g_x2 (p_br s3)) (p_scale s3),
                                     p_x := along n (p_base s3) local_direc (g_x2 (p_br s3)),
                                     p_fbest := p_fval s3\<rparr>
                         in Go (s4\<lparr>p_direc := put_row n (p_idelta s4) (p_p0 s4) (p_direc s4)\<rparr>))))"
  unfolding replacement_def Let_def using assms by (rule if_not_P)




lemma powell_head_stop:
  assumes "powell_head maxits critlim tol n s = Stop e s1"
  shows "p_fbest s1 = p_fbest s \<and> p_x s1 = p_x s \<and> p_direc s1 = p_direc s"
  using assms by (auto simp: powell_head_def Let_def split: if_splits)

lemma powell_head_no_fault: "powell_head maxits critlim tol n s \<noteq> Fault f"
  by (simp add: powell_head_def Let_def)


lemma powell_loop_Suc:
  "powell_loop (Suc fuel) gfuel maxits critlim tol criter n s =
    (case powell_pass gfuel maxits critlim tol criter n s of
       Go s' \<Rightarrow> powell_loop fuel gfuel maxits critlim tol criter n s'
     | Stop e s' \<Rightarrow> Stop e s'
     | Fault f \<Rightarrow> Fault f)"
  by (subst powell_loop.simps) (simp add: powell_pass_def split: flow.splits)




lemma upt_two: "[0..<nat 2] = [0, 1]" "[0..<2] = [0, 1]"
  by (simp_all add: numeral_2_eq_2)

lemma dip_glob:
  "glob_min (Suc 0) real_arith (- (1 / 50)) (1 / 50) 15 False (1 / 10000)
     (univar_crit dip 2 [0, 0] [1, 0]) \<lparr>g_x1 = 0, g_y1 = 0, g_x2 = 0, g_y2 = 9 / 30625, g_x3 = 0, g_y3 = 0\<rparr> =
   Some \<lparr>g_x1 = - (1 / 50), g_y1 = 1 / 122500, g_x2 = - (3 / 175), g_y2 = 0,
         g_x3 = - (1 / 70), g_y3 = 1 / 122500\<rparr>"
  by (simp add: glob_min_def glob_run_def glob_init_def scan.simps scan_point_def
        neighbors_def extension_def real_arith_def univar_crit_def along_def dip_def Let_def
        bracket.truncate_def upt_two)

lemma dip_fields:
  "p_x dip_round = [0, 0]" "p_direc dip_round = [1, 0, 0, 1]" "p_fbest dip_round = 9 / 30625"
  "p_scale dip_round = 1 / 5" "p_replaced dip_round = - 1"
  "p_br dip_round = \<lparr>g_x1 = 0, g_y1 = 0, g_x2 = 0, g_y2 = 0, g_x3 = 0, g_y3 = 0\<rparr>"
  by (simp_all add: dip_round_def dip_start_def powell_init_def identity_direc_def upt_two)

lemma dip_head: "powell_head 5 (1 / 10000) (1 / 1000) 2 dip_start = Go dip_round"
  by (simp add: powell_head_def dip_round_def dip_start_def powell_init_def vec_def Let_def
      upt_two)

lemma dip_tries:
  "bracket_tries (Suc 0) (1 / 10000) (univar_crit dip 2 [0, 0] [1, 0]) (1 / 5) mults
     \<lparr>g_x1 = 0, g_y1 = 0, g_x2 = 0, g_y2 = 9 / 30625, g_x3 = 0, g_y3 = 0\<rparr> =
   Some \<lparr>g_x1 = - (1 / 50), g_y1 = 1 / 122500, g_x2 = - (3 / 175), g_y2 = 0,
         g_x3 = - (1 / 70), g_y3 = 1 / 122500\<rparr>"
  using dip_glob by (simp add: mults_def)

lemma dip_direction:
  "direction_step (Suc 0) (1 / 10000) (1 / 1000) dip 2 0 dip_round = Stop Finish dip_end"
proof -
  have "\<not> ((1::int) < 2 \<and> (0::nat) = 0 \<and> p_replaced dip_round = 0)"
    by (simp add: dip_fields)
  note run = direction_step_run[OF this]
  have v: "vec 2 [0::real, 0] = [0, 0]" "row 2 [1::real, 0, 0, 1] 0 = [1, 0]"
    by (simp_all add: vec_def row_def upt_two)
  show ?thesis unfolding run
    by (simp add: Let_def dip_fields v dip_tries)
       (simp add: dip_end_def along_def upt_two)
qed

lemma skew_a_glob0:
  "glob_min (Suc 0) real_arith (- 1 / 50) (1 / 50) 15 False (- 1)
     (univar_crit skew 2 [0, 0] [1, 0])
     \<lparr>g_x1 = 0, g_y1 = 0, g_x2 = 0, g_y2 = 9 / 122500, g_x3 = 0, g_y3 = 0\<rparr> =
   Some
     \<lparr>g_x1 = - 1 / 350, g_y1 = 1 / 12250, g_x2 = 0, g_y2 = 9 / 122500, g_x3 = 1 / 350,
      g_y3 = 1 / 12250\<rparr>"
  by (simp add: glob_min_def glob_run_def glob_init_def scan.simps scan_point_def neighbors_def
      extension_def real_arith_def Let_def bracket.truncate_def univar_crit_def along_def
      skew_def upt_two)

lemma skew_a_tries:
  "bracket_tries (Suc 0) (- 1) (univar_crit skew 2 [0, 0] [1, 0]) (1 / 5) mults
     \<lparr>g_x1 = 0, g_y1 = 0, g_x2 = 0, g_y2 = 9 / 122500, g_x3 = 0, g_y3 = 0\<rparr> =
   Some
     \<lparr>g_x1 = - 1 / 350, g_y1 = 1 / 12250, g_x2 = 0, g_y2 = 9 / 122500, g_x3 = 1 / 350,
      g_y3 = 1 / 12250\<rparr>"
  using skew_a_glob0 by (simp add: mults_def)

lemma skew_a_pass0:
  "brent_body (- 1) (1 / 100) (1 / 100000)
     (univar_crit skew 2 [0, 0] [1, 0]) 0
     (brent_init (- 1 / 350) 0 (1 / 350) (9 / 122500)) =
   Inr skew_a1"
  by (simp add: brent_eval univar_crit_def along_def skew_def upt_two skew_a1_def)

lemma skew_a_pass1:
  "brent_body (- 1) (1 / 100) (1 / 100000)
     (univar_crit skew 2 [0, 0] [1, 0]) 1
     skew_a1 =
   Inr skew_a2"
  by (simp add: brent_eval univar_crit_def along_def skew_def upt_two skew_a1_def skew_a2_def)

lemma skew_a_pass2:
  "brent_body (- 1) (1 / 100) (1 / 100000)
     (univar_crit skew 2 [0, 0] [1, 0]) 2
     skew_a2 =
   Inr skew_a3"
  by (simp add: brent_eval univar_crit_def along_def skew_def upt_two skew_a2_def skew_a3_def)

lemma skew_a_pass3:
  "brent_body (- 1) (1 / 100) (1 / 100000)
     (univar_crit skew 2 [0, 0] [1, 0]) 3
     skew_a3 =
   Inr skew_a4"
  by (simp add: brent_eval univar_crit_def along_def skew_def upt_two skew_a3_def skew_a4_def)

lemma skew_a_pass4:
  "brent_body (- 1) (1 / 100) (1 / 100000)
     (univar_crit skew 2 [0, 0] [1, 0]) 4
     skew_a4 =
   Inl X_converged"
  by (simp add: brent_eval univar_crit_def along_def skew_def upt_two skew_a4_def)

lemma skew_a_brentmin:
  "brentmin 20 (- 1) (1 / 100) (1 / 100000)
     (univar_crit skew 2 [0, 0] [1, 0])
     (- 1 / 350) 0 (1 / 350) (9 / 122500) =
   (- 1 / 100000, 0, 1 / 100000, 9 / 122500)"
proof -
  have "brent_loop 20 (- 1) (1 / 100) (1 / 100000)
          (univar_crit skew 2 [0, 0] [1, 0]) 0
          (brent_init (- 1 / 350) 0 (1 / 350) (9 / 122500)) =
        (X_converged, 4, skew_a4)"
    by (simp add: brent_loop_unfold skew_a_pass0[simplified] skew_a_pass1[simplified]
        skew_a_pass2[simplified] skew_a_pass3[simplified] skew_a_pass4[simplified])
  then show ?thesis by (simp add: brentmin_def skew_a4_def)
qed

lemma skew_b_glob0:
  "glob_min (Suc 0) real_arith (- 1 / 100) (1 / 100) 15 False (- 1)
     (univar_crit skew 2 [0, 0] [0, 1])
     \<lparr>g_x1 = - 1 / 100000, g_y1 = 1 / 12250, g_x2 = 0, g_y2 = 9 / 122500, g_x3 = 1 / 100000,
      g_y3 = 1 / 12250\<rparr> =
   Some
     \<lparr>g_x1 = - 1 / 100, g_y1 = 1 / 1960000, g_x2 = - 3 / 350, g_y2 = 0, g_x3 = - 1 / 140,
      g_y3 = 1 / 490000\<rparr>"
  by (simp add: glob_min_def glob_run_def glob_init_def scan.simps scan_point_def neighbors_def
      extension_def real_arith_def Let_def bracket.truncate_def univar_crit_def along_def
      skew_def upt_two)

lemma skew_b_tries:
  "bracket_tries (Suc 0) (- 1) (univar_crit skew 2 [0, 0] [0, 1]) (1 / 10) mults
     \<lparr>g_x1 = - 1 / 100000, g_y1 = 1 / 12250, g_x2 = 0, g_y2 = 9 / 122500, g_x3 = 1 / 100000,
      g_y3 = 1 / 12250\<rparr> =
   Some
     \<lparr>g_x1 = - 1 / 100, g_y1 = 1 / 1960000, g_x2 = - 3 / 350, g_y2 = 0, g_x3 = - 1 / 140,
      g_y3 = 1 / 490000\<rparr>"
  using skew_b_glob0 by (simp add: mults_def)

lemma skew_b_pass0:
  "brent_body (- 1) (1 / 100) (1 / 100000)
     (univar_crit skew 2 [0, 0] [0, 1]) 0
     (brent_init (- 1 / 100) (- 3 / 350) (- 1 / 140) 0) =
   Inr skew_b1"
  by (simp add: brent_eval univar_crit_def along_def skew_def upt_two skew_b1_def)

lemma skew_b_pass1:
  "brent_body (- 1) (1 / 100) (1 / 100000)
     (univar_crit skew 2 [0, 0] [0, 1]) 1
     skew_b1 =
   Inr skew_b2"
  by (simp add: brent_eval univar_crit_def along_def skew_def upt_two skew_b1_def skew_b2_def)

lemma skew_b_pass2:
  "brent_body (- 1) (1 / 100) (1 / 100000)
     (univar_crit skew 2 [0, 0] [0, 1]) 2
     skew_b2 =
   Inr skew_b3"
  by (simp add: brent_eval univar_crit_def along_def skew_def upt_two skew_b2_def skew_b3_def)

lemma skew_b_pass3:
  "brent_body (- 1) (1 / 100) (1 / 100000)
     (univar_crit skew 2 [0, 0] [0, 1]) 3
     skew_b3 =
   Inr skew_b4"
  by (simp add: brent_eval univar_crit_def along_def skew_def upt_two skew_b3_def skew_b4_def)

lemma skew_b_pass4:
  "brent_body (- 1) (1 / 100) (1 / 100000)
     (univar_crit skew 2 [0, 0] [0, 1]) 4
     skew_b4 =
   Inl F_converged"
  by (simp add: brent_eval univar_crit_def along_def skew_def upt_two skew_b4_def)

lemma skew_b_brentmin:
  "brentmin 20 (- 1) (1 / 100) (1 / 100000)
     (univar_crit skew 2 [0, 0] [0, 1])
     (- 1 / 100) (- 3 / 350) (- 1 / 140) 0 =
   (- 6007 / 700000, - 3 / 350, - 2809017 / 350000000, 0)"
proof -
  have "brent_loop 20 (- 1) (1 / 100) (1 / 100000)
          (univar_crit skew 2 [0, 0] [0, 1]) 0
          (brent_init (- 1 / 100) (- 3 / 350) (- 1 / 140) 0) =
        (F_converged, 4, skew_b4)"
    by (simp add: brent_loop_unfold skew_b_pass0[simplified] skew_b_pass1[simplified]
        skew_b_pass2[simplified] skew_b_pass3[simplified] skew_b_pass4[simplified])
  then show ?thesis by (simp add: brentmin_def skew_b4_def)
qed

lemma skew_c_glob0:
  "glob_min (Suc 0) real_arith (- 19 / 3500) (19 / 3500) 15 False (- 1)
     (univar_crit skew 2 [0, - 3 / 350] [0, - 1])
     \<lparr>g_x1 = - 6007 / 700000, g_y1 = 1 / 1960000, g_x2 = - 3 / 350, g_y2 = 0,
      g_x3 = - 2809017 / 350000000, g_y3 = 1 / 490000\<rparr> =
   Some
     \<lparr>g_x1 = - 19 / 24500, g_y1 = 361 / 600250000, g_x2 = 0, g_y2 = 0, g_x3 = 19 / 24500,
      g_y3 = 361 / 2401000000\<rparr>"
  by (simp add: glob_min_def glob_run_def glob_init_def scan.simps scan_point_def neighbors_def
      extension_def real_arith_def Let_def bracket.truncate_def univar_crit_def along_def
      skew_def upt_two)

lemma skew_c_tries:
  "bracket_tries (Suc 0) (- 1) (univar_crit skew 2 [0, - 3 / 350] [0, - 1]) (19 / 350) mults
     \<lparr>g_x1 = - 6007 / 700000, g_y1 = 1 / 1960000, g_x2 = - 3 / 350, g_y2 = 0,
      g_x3 = - 2809017 / 350000000, g_y3 = 1 / 490000\<rparr> =
   Some
     \<lparr>g_x1 = - 19 / 24500, g_y1 = 361 / 600250000, g_x2 = 0, g_y2 = 0, g_x3 = 19 / 24500,
      g_y3 = 361 / 2401000000\<rparr>"
  using skew_c_glob0 by (simp add: mults_def)

lemma skew_c_pass0:
  "brent_body (- 1) (1 / 100) (1 / 100000)
     (univar_crit skew 2 [0, - 3 / 350] [0, - 1]) 0
     (brent_init (- 19 / 24500) 0 (19 / 24500) 0) =
   Inr skew_c1"
  by (simp add: brent_eval univar_crit_def along_def skew_def upt_two skew_c1_def)

lemma skew_c_pass1:
  "brent_body (- 1) (1 / 100) (1 / 100000)
     (univar_crit skew 2 [0, - 3 / 350] [0, - 1]) 1
     skew_c1 =
   Inr skew_c2"
  by (simp add: brent_eval univar_crit_def along_def skew_def upt_two skew_c1_def skew_c2_def)

lemma skew_c_pass2:
  "brent_body (- 1) (1 / 100) (1 / 100000)
     (univar_crit skew 2 [0, - 3 / 350] [0, - 1]) 2
     skew_c2 =
   Inr skew_c3"
  by (simp add: brent_eval univar_crit_def along_def skew_def upt_two skew_c2_def skew_c3_def)

lemma skew_c_pass3:
  "brent_body (- 1) (1 / 100) (1 / 100000)
     (univar_crit skew 2 [0, - 3 / 350] [0, - 1]) 3
     skew_c3 =
   Inr skew_c4"
  by (simp add: brent_eval univar_crit_def along_def skew_def upt_two skew_c3_def skew_c4_def)

lemma skew_c_pass4:
  "brent_body (- 1) (1 / 100) (1 / 100000)
     (univar_crit skew 2 [0, - 3 / 350] [0, - 1]) 4
     skew_c4 =
   Inl F_converged"
  by (simp add: brent_eval univar_crit_def along_def skew_def upt_two skew_c4_def)

lemma skew_c_brentmin:
  "brentmin 20 (- 1) (1 / 100) (1 / 100000)
     (univar_crit skew 2 [0, - 3 / 350] [0, - 1])
     (- 19 / 24500) 0 (19 / 24500) 0 =
   (- 1 / 100000, 0, 10886031 / 122500000000, 0)"
proof -
  have "brent_loop 20 (- 1) (1 / 100) (1 / 100000)
          (univar_crit skew 2 [0, - 3 / 350] [0, - 1]) 0
          (brent_init (- 19 / 24500) 0 (19 / 24500) 0) =
        (F_converged, 4, skew_c4)"
    by (simp add: brent_loop_unfold skew_c_pass0[simplified] skew_c_pass1[simplified]
        skew_c_pass2[simplified] skew_c_pass3[simplified] skew_c_pass4[simplified])
  then show ?thesis by (simp add: brentmin_def skew_c4_def)
qed

lemma skew_head:
  "powell_head 5 (- 1) (1 / 1000) 2 skew_start = Go skew_round"
  by (simp add: powell_head_def skew_start_def skew_round_def powell_init_def identity_direc_def
      vec_def Let_def upt_two)

lemma skew_direction0:
  "direction_step (Suc 0) (- 1) (1 / 1000) skew 2 0 skew_round = Go skew_mid0"
proof -
  have "\<not> ((1::int) < 2 \<and> (0::nat) = 0 \<and> p_replaced skew_round = 0)"
    by (simp add: skew_round_def)
  note run = direction_step_run[OF this]
  have v: "vec 2 [0::real, 0] = [0, 0]" "row 2 [1::real, 0, 0, 1] 0 = [1, 0]"
    by (simp_all add: vec_def row_def upt_two)
  show ?thesis unfolding run
    by (simp add: Let_def skew_round_def v[simplified] skew_a_tries[simplified]
          refine_def skew_a_brentmin[simplified] new_scale_def)
       (simp add: skew_mid0_def along_def upt_two)
qed

lemma skew_direction1:
  "direction_step (Suc 0) (- 1) (1 / 1000) skew 2 1 skew_mid0 = Go skew_mid1"
proof -
  have "\<not> ((1::int) < 2 \<and> (1::nat) = 0 \<and> p_replaced skew_mid0 = 0)"
    by (simp add: skew_mid0_def)
  note run = direction_step_run[OF this]
  have v: "vec 2 [0::real, 0] = [0, 0]" "row 2 [1::real, 0, 0, 1] (Suc 0) = [0, 1]"
    by (simp_all add: vec_def row_def upt_two)
  show ?thesis unfolding run
    by (simp add: Let_def skew_mid0_def v[simplified] skew_b_tries[simplified]
          refine_def skew_b_brentmin[simplified] new_scale_def)
       (simp add: skew_mid1_def along_def upt_two)
qed

lemma skew_directions:
  "directions (Suc 0) (- 1) (1 / 1000) skew 2 [0..<nat 2] skew_round = Go skew_mid1"
  by (simp add: upt_two skew_direction0 skew_direction1[simplified])

lemma skew_probed: "probe skew 2 skew_mid1 = (skew_probe, 0)"
  by (simp add: probe_def Let_def skew_mid1_def skew_probe_def skew_def vec_def upt_two)

lemma skew_test: "replace_test 0 skew_probe"
  by (simp add: replace_test_def skew_probe_def Let_def)

lemma length_second_axis: "length_of 2 [0, a] = \<bar>a\<bar>"
  by (simp add: length_of_def upt_two)

lemma skew_length: "length_of 2 [0, - (3 / 350)] = 3 / 350"
  by (simp add: length_second_axis)

lemma skew_replacement:
  "replacement (Suc 0) (- 1) (1 / 1000) skew 2 skew_probe = Go skew_end"
proof -
  have "\<not> ((0::int) < 2 \<and> length_of 2 (p_p0 skew_probe) = 0)"
    by (simp add: skew_probe_def skew_length)
  note run = replacement_run[OF this]
  have v: "vec 2 [0::real, - (3 / 350)] = [0, - (3 / 350)]"
    by (simp add: vec_def upt_two)
  show ?thesis unfolding run
    by (simp add: Let_def skew_probe_def skew_length v upt_two skew_c_tries[simplified] refine_def
          skew_c_brentmin[simplified] new_scale_def)
       (simp add: skew_end_def along_def upt_two put_row_def)
qed

lemma skew_pass:
  "powell_pass (Suc 0) 5 (- 1) (1 / 1000) skew 2 skew_start = Go skew_end"
  by (simp add: powell_pass_def skew_head powell_round_def skew_directions[simplified]
      skew_probed skew_test skew_replacement)




























subsection \<open>What a round leaves alone\<close>

lemma direction_step_frame:
  assumes "state_of (direction_step gfuel critlim tol criter n idir s) = Some s'"
  shows "p_iter s' = p_iter s \<and> p_direc s' = p_direc s \<and> p_p0 s' = p_p0 s \<and>
         p_f0 s' = p_f0 s \<and> p_replaced s' = p_replaced s \<and>
         p_convergence_counter s' = p_convergence_counter s \<and>
         (p_idelta s' = p_idelta s \<or> p_idelta s' = int idir)"
proof (cases "1 < n \<and> idir = 0 \<and> p_replaced s = 0")
  case True
  with assms show ?thesis by (simp add: direction_step_def)
next
  case False
  note r = assms[unfolded direction_step_run[OF False]]
  then show ?thesis
    by (auto simp: Let_def refine_sel split: option.splits if_splits)
qed

lemma directions_frame:
  "state_of (directions gfuel critlim tol criter n idirs s) = Some s' \<Longrightarrow>
   p_iter s' = p_iter s \<and> p_direc s' = p_direc s \<and> p_p0 s' = p_p0 s \<and>
   p_f0 s' = p_f0 s \<and> p_convergence_counter s' = p_convergence_counter s \<and>
   (p_idelta s' = p_idelta s \<or> p_idelta s' \<in> int ` set idirs)"
proof (induction idirs arbitrary: s)
  case Nil
  then show ?case by simp
next
  case (Cons idir idirs)
  show ?case
  proof (cases "direction_step gfuel critlim tol criter n idir s")
    case (Go s1)
    then have "state_of (direction_step gfuel critlim tol criter n idir s) = Some s1" by simp
    note f1 = direction_step_frame[OF this]
    from Cons.prems Go
    have "state_of (directions gfuel critlim tol criter n idirs s1) = Some s'" by simp
    from Cons.IH[OF this] f1 show ?thesis by auto
  next
    case (Stop e s1)
    then have "state_of (direction_step gfuel critlim tol criter n idir s) = Some s1" by simp
    note f1 = direction_step_frame[OF this]
    from Cons.prems Stop have "s' = s1" by simp
    with f1 show ?thesis by auto
  next
    case (Fault f)
    with Cons.prems show ?thesis by simp
  qed
qed

lemma probe_frame:
  "p_iter (fst (probe criter n s)) = p_iter s" "p_direc (fst (probe criter n s)) = p_direc s"
  "p_idelta (fst (probe criter n s)) = p_idelta s"
  "p_convergence_counter (fst (probe criter n s)) = p_convergence_counter s"
  by (simp_all add: probe_def Let_def)

lemma replacement_frame:
  assumes "state_of (replacement gfuel critlim tol criter n s) = Some s'"
  shows "p_iter s' = p_iter s \<and> p_idelta s' = p_idelta s \<and>
         p_convergence_counter s' = p_convergence_counter s \<and>
         \<not> (0 < n \<and> length_of n (p_p0 s) = 0) \<and>
         p_p0 s' = map (\<lambda>i. p_p0 s ! i / length_of n (p_p0 s)) [0..<nat n] \<and>
         (p_direc s' = p_direc s \<or>
          p_direc s' = put_row n (p_idelta s') (p_p0 s') (p_direc s))"
proof (cases "0 < n \<and> length_of n (p_p0 s) = 0")
  case True
  with assms show ?thesis by (simp add: replacement_def)
next
  case False
  note r = assms[unfolded replacement_run[OF False]]
  with False show ?thesis
    by (auto simp: Let_def refine_sel split: option.splits if_splits)
qed

lemma direction_step_exit:
  assumes "direction_step gfuel critlim tol criter n idir s = Stop e s'"
  shows "e = Finish"
proof (cases "1 < n \<and> idir = 0 \<and> p_replaced s = 0")
  case True
  with assms show ?thesis by (simp add: direction_step_def)
next
  case False
  note r = assms[unfolded direction_step_run[OF False]]
  then show ?thesis by (auto simp: Let_def split: option.splits if_splits)
qed

lemma directions_exit:
  "directions gfuel critlim tol criter n idirs s = Stop e s' \<Longrightarrow> e = Finish"
proof (induction idirs arbitrary: s)
  case Nil
  then show ?case by simp
next
  case (Cons idir idirs)
  then show ?case
    by (auto split: flow.splits dest: direction_step_exit)
qed

lemma replacement_exit:
  assumes "replacement gfuel critlim tol criter n s = Stop e s'"
  shows "e = Replace_break"
proof (cases "0 < n \<and> length_of n (p_p0 s) = 0")
  case True
  with assms show ?thesis by (simp add: replacement_def)
next
  case False
  note r = assms[unfolded replacement_run[OF False]]
  then show ?thesis by (auto simp: Let_def split: option.splits if_splits)
qed

lemma direction_step_fault:
  assumes "direction_step gfuel critlim tol criter n idir s = Fault f"
  shows "f \<noteq> Out_of_fuel"
proof (cases "1 < n \<and> idir = 0 \<and> p_replaced s = 0")
  case True
  with assms show ?thesis by (simp add: direction_step_def)
next
  case False
  note r = assms[unfolded direction_step_run[OF False]]
  then show ?thesis by (auto simp: Let_def split: option.splits if_splits)
qed

lemma directions_fault:
  "directions gfuel critlim tol criter n idirs s = Fault f \<Longrightarrow> f \<noteq> Out_of_fuel"
proof (induction idirs arbitrary: s)
  case Nil
  then show ?case by simp
next
  case (Cons idir idirs)
  then show ?case
    by (auto split: flow.splits dest: direction_step_fault)
qed

lemma replacement_fault:
  assumes "replacement gfuel critlim tol criter n s = Fault f"
  shows "f \<noteq> Out_of_fuel"
proof (cases "0 < n \<and> length_of n (p_p0 s) = 0")
  case True
  with assms show ?thesis by (auto simp: replacement_def)
next
  case False
  note r = assms[unfolded replacement_run[OF False]]
  then show ?thesis by (auto simp: Let_def split: option.splits if_splits)
qed

lemma powell_round_fault:
  assumes "powell_round gfuel critlim tol criter n s = Fault f"
  shows "f \<noteq> Out_of_fuel"
  using assms
  by (auto simp: powell_round_def case_prod_beta split: flow.splits if_splits
      dest: directions_fault replacement_fault)

lemma powell_round_exit:
  assumes "powell_round gfuel critlim tol criter n s = Stop e s'"
  shows "e = Finish \<or> e = Replace_break"
  using assms
  by (auto simp: powell_round_def case_prod_beta split: flow.splits if_splits
      dest: directions_exit replacement_exit)

lemma powell_round_iter:
  assumes "state_of (powell_round gfuel critlim tol criter n s) = Some s'"
  shows "p_iter s' = p_iter s"
proof (cases "directions gfuel critlim tol criter n [0..<nat n] s")
  case (Go s1)
  then have "state_of (directions gfuel critlim tol criter n [0..<nat n] s) = Some s1" by simp
  note f1 = directions_frame[OF this]
  show ?thesis
  proof (cases "replace_test (snd (probe criter n s1)) (fst (probe criter n s1))")
    case True
    with assms Go
    have "state_of (replacement gfuel critlim tol criter n (fst (probe criter n s1))) = Some s'"
      by (simp add: powell_round_def case_prod_beta)
    from replacement_frame[OF this] f1 show ?thesis by (simp add: probe_frame)
  next
    case False
    with assms Go have "s' = fst (probe criter n s1)"
      by (simp add: powell_round_def case_prod_beta)
    with f1 show ?thesis by (simp add: probe_frame)
  qed
next
  case (Stop e s1)
  then have "state_of (directions gfuel critlim tol criter n [0..<nat n] s) = Some s1" by simp
  note f1 = directions_frame[OF this]
  from assms Stop have "s' = s1" by (simp add: powell_round_def)
  with f1 show ?thesis by simp
next
  case (Fault f)
  with assms show ?thesis by (simp add: powell_round_def)
qed

lemma powell_head_cap:
  "powell_head maxits critlim tol n s = Stop Cap_hit s' \<Longrightarrow> 0 < maxits \<and> maxits \<le> p_iter s"
  by (auto simp: powell_head_def Let_def split: if_splits)

lemma powell_head_go:
  "powell_head maxits critlim tol n s = Go s1 \<Longrightarrow>
   p_iter s1 = p_iter s + 1 \<and> (0 < maxits \<longrightarrow> p_iter s < maxits)"
  by (auto simp: powell_head_def Let_def split: if_splits)

lemma no_cap_without_limit:
  "maxits \<le> 0 \<Longrightarrow> powell_loop fuel gfuel maxits critlim tol criter n s \<noteq> Stop Cap_hit s'"
proof (induction fuel arbitrary: s)
  case 0
  show ?case
  proof
    assume a: "powell_loop 0 gfuel maxits critlim tol criter n s = Stop Cap_hit s'"
    then have "powell_head maxits critlim tol n s = Stop Cap_hit s'"
      by (subst (asm) powell_loop.simps) (simp split: flow.splits)
    from powell_head_cap[OF this] 0 show False by simp
  qed
next
  case (Suc fuel)
  show ?case
  proof
    assume a: "powell_loop (Suc fuel) gfuel maxits critlim tol criter n s = Stop Cap_hit s'"
    show False
    proof (cases "powell_head maxits critlim tol n s")
      case (Go s1)
      show ?thesis
      proof (cases "powell_round gfuel critlim tol criter n s1")
        case g2: (Go s2)
        with Go a have "powell_loop fuel gfuel maxits critlim tol criter n s2 = Stop Cap_hit s'"
          by (subst (asm) powell_loop.simps) simp
        with Suc.IH[OF Suc.prems] show False by simp
      next
        case (Stop e s2)
        with Go a have "e = Cap_hit" by (subst (asm) powell_loop.simps) simp
        with powell_round_exit[OF Stop] show False by simp
      next
        case (Fault f)
        with Go a show False by (subst (asm) powell_loop.simps) simp
      qed
    next
      case (Stop e s1)
      with a have "powell_head maxits critlim tol n s = Stop Cap_hit s'"
        by (subst (asm) powell_loop.simps) simp
      from powell_head_cap[OF this] Suc.prems show False by simp
    next
      case (Fault f)
      with a show False by (subst (asm) powell_loop.simps) simp
    qed
  qed
qed

lemma fuel_within_cap:
  "0 < maxits \<Longrightarrow> nat (maxits - p_iter s) \<le> fuel \<Longrightarrow>
   powell_loop fuel gfuel maxits critlim tol criter n s \<noteq> Fault Out_of_fuel"
proof (induction fuel arbitrary: s)
  case 0
  then have cap: "maxits \<le> p_iter s" by simp
  show ?case
  proof (cases "powell_head maxits critlim tol n s")
    case (Go s1)
    from powell_head_go[OF this] 0(1) cap show ?thesis by simp
  next
    case (Stop e s1)
    then show ?thesis by (subst powell_loop.simps) simp
  next
    case (Fault f)
    with powell_head_no_fault show ?thesis by blast
  qed
next
  case (Suc fuel)
  show ?case
  proof (cases "powell_head maxits critlim tol n s")
    case (Go s1)
    note h = powell_head_go[OF Go]
    show ?thesis
    proof (cases "powell_round gfuel critlim tol criter n s1")
      case g2: (Go s2)
      then have "state_of (powell_round gfuel critlim tol criter n s1) = Some s2" by simp
      from powell_round_iter[OF this] h have "p_iter s2 = p_iter s + 1" by simp
      with Suc.prems have "nat (maxits - p_iter s2) \<le> fuel" by simp
      from Suc.IH[OF Suc.prems(1) this] Go g2 show ?thesis
        by (subst powell_loop.simps) simp
    next
      case (Stop e s2)
      with Go show ?thesis by (subst powell_loop.simps) simp
    next
      case (Fault f)
      from powell_round_fault[OF Fault] Go Fault show ?thesis
        by (subst powell_loop.simps) simp
    qed
  next
    case (Stop e s1)
    then show ?thesis by (subst powell_loop.simps) simp
  next
    case (Fault f)
    with powell_head_no_fault show ?thesis by blast
  qed
qed

lemma powell_loop_stops: "powell_loop fuel gfuel maxits critlim tol criter n s \<noteq> Go s'"
proof (induction fuel arbitrary: s)
  case 0
  show ?case by (subst powell_loop.simps) (simp split: flow.splits)
next
  case (Suc fuel)
  then show ?case by (subst powell_loop.simps) (simp split: flow.splits)
qed

text \<open>
  C10. The cap on the passes works only for a positive \<^verbatim>\<open>maxits\<close>. With \<^verbatim>\<open>maxits <= 0\<close> the
  main loop of \<^verbatim>\<open>powell\<close> is never left through the test of the cap: it is left through the
  test against \<^verbatim>\<open>critlim\<close>, the convergence counter, or one of the two exits on \<^verbatim>\<open>critlim\<close>
  inside a round. With \<^verbatim>\<open>maxits > 0\<close> the loop starts at most \<^verbatim>\<open>maxits\<close> rounds: fuel for
  \<^verbatim>\<open>maxits\<close> rounds is never used up.
\<close>

theorem cap_only_for_positive_maxits:
  "(maxits \<le> 0 \<and>
    powell_loop fuel gfuel maxits critlim tol criter n (powell_init n x ystart base p0 direc)
      = Stop e s' \<longrightarrow>
    e = Crit_met \<or> e = Converged \<or> e = Finish \<or> e = Replace_break) \<and>
   (0 < maxits \<and> nat maxits \<le> fuel \<longrightarrow>
    powell fuel gfuel maxits critlim tol criter n x ystart base p0 direc \<noteq> Inl Out_of_fuel)"
proof (intro conjI impI)
  assume a: "maxits \<le> 0 \<and>
    powell_loop fuel gfuel maxits critlim tol criter n (powell_init n x ystart base p0 direc)
      = Stop e s'"
  with no_cap_without_limit[of maxits fuel gfuel critlim tol criter n
      "powell_init n x ystart base p0 direc" s']
  have "e \<noteq> Cap_hit" by auto
  then show "e = Crit_met \<or> e = Converged \<or> e = Finish \<or> e = Replace_break"
    by (cases e) simp_all
next
  assume a: "0 < maxits \<and> nat maxits \<le> fuel"
  then have "nat (maxits - p_iter (powell_init n x ystart base p0 direc)) \<le> fuel"
    by (simp add: powell_init_def)
  with a have "powell_loop fuel gfuel maxits critlim tol criter n
      (powell_init n x ystart base p0 direc) \<noteq> Fault Out_of_fuel"
    by (intro fuel_within_cap) simp_all
  with powell_loop_stops[of fuel gfuel maxits critlim tol criter n
      "powell_init n x ystart base p0 direc"]
  show "powell fuel gfuel maxits critlim tol criter n x ystart base p0 direc \<noteq> Inl Out_of_fuel"
    by (auto simp: powell_def split: flow.splits)
qed

lemma dip_head0: "powell_head 0 (1 / 10000) (1 / 1000) 2 dip_start = Go dip_round"
  by (simp add: powell_head_def dip_round_def dip_start_def powell_init_def vec_def Let_def
      upt_two)

lemma dip_round_stop:
  "powell_round (Suc 0) (1 / 10000) (1 / 1000) dip 2 dip_round = Stop Finish dip_end"
  by (simp add: powell_round_def dip_direction upt_two)

lemma dip_loop0:
  "powell_loop (Suc 0) (Suc 0) 0 (1 / 10000) (1 / 1000) dip 2 dip_start = Stop Finish dip_end"
  by (subst powell_loop.simps) (simp add: dip_head0 dip_round_stop)

lemma dip_loop5:
  "powell_loop 5 (Suc 0) 5 (1 / 10000) (1 / 1000) dip 2 dip_start = Stop Finish dip_end"
  by (subst powell_loop.simps) (simp add: dip_head dip_round_stop)

lemma dip_powell:
  "powell 5 (Suc 0) 5 (1 / 10000) (1 / 1000) dip 2 [0, 0] (9 / 30625) [0, 0] [0, 0] [0, 0, 0, 0] =
     Inr (0, [- (3 / 175), 0])"
  using dip_loop5 by (simp add: powell_def dip_start_def[symmetric]) (simp add: dip_end_def)

theorem cap_only_for_positive_maxits_witness:
  "(0::int) \<le> 0 \<and>
   powell_loop (Suc 0) (Suc 0) 0 (1 / 10000) (1 / 1000) dip 2
      (powell_init 2 [0, 0] (9 / 30625) [0, 0] [0, 0] [0, 0, 0, 0]) = Stop Finish dip_end \<and>
   (Finish = Crit_met \<or> Finish = Converged \<or> Finish = Finish \<or> Finish = Replace_break) \<and>
   (0::int) < 5 \<and> nat 5 \<le> 5 \<and>
   powell 5 (Suc 0) 5 (1 / 10000) (1 / 1000) dip 2 [0, 0] (9 / 30625) [0, 0] [0, 0] [0, 0, 0, 0] =
     Inr (0, [- (3 / 175), 0]) \<and>
   powell 5 (Suc 0) 5 (1 / 10000) (1 / 1000) dip 2 [0, 0] (9 / 30625) [0, 0] [0, 0] [0, 0, 0, 0] \<noteq> Inl Out_of_fuel"
proof -
  have a: "(0::int) \<le> 0" and b: "(0::int) < 5 \<and> nat 5 \<le> 5" by simp_all
  have l: "powell_loop (Suc 0) (Suc 0) 0 (1 / 10000) (1 / 1000) dip 2
      (powell_init 2 [0, 0] (9 / 30625) [0, 0] [0, 0] [0, 0, 0, 0]) = Stop Finish dip_end"
    using dip_loop0 by (simp add: dip_start_def)
  from cap_only_for_positive_maxits[of 0 "Suc 0" "Suc 0" "1 / 10000" "1 / 1000" dip 2
      "[0, 0]" "9 / 30625" "[0, 0]" "[0, 0]" "[0, 0, 0, 0]" Finish dip_end] a l
  have c: "Finish = Crit_met \<or> Finish = Converged \<or> Finish = Finish \<or> Finish = Replace_break"
    by blast
  from cap_only_for_positive_maxits[of 5 5 "Suc 0" "1 / 10000" "1 / 1000" dip 2
      "[0, 0]" "9 / 30625" "[0, 0]" "[0, 0]" "[0, 0, 0, 0]"] b
  have d: "powell 5 (Suc 0) 5 (1 / 10000) (1 / 1000) dip 2 [0, 0] (9 / 30625) [0, 0] [0, 0] [0, 0, 0, 0]
      \<noteq> Inl Out_of_fuel" by blast
  from a l c b d dip_powell show ?thesis by blast
qed

subsection \<open>The direction matrix\<close>

lemma fold_update_other:
  "j \<notin> f ` set xs \<Longrightarrow> fold (\<lambda>i d. d[f i := g i]) xs d ! j = d ! j"
  by (induction xs arbitrary: d) auto

lemma fold_update_length [simp]:
  "length (fold (\<lambda>i d. d[f i := g i]) xs d) = length d"
  by (induction xs arbitrary: d) auto

lemma fold_update_at:
  "i \<in> set xs \<Longrightarrow> inj_on f (set xs) \<Longrightarrow> f i < length d \<Longrightarrow>
   fold (\<lambda>i d. d[f i := g i]) xs d ! (f i) = g i"
proof (induction xs arbitrary: d)
  case Nil
  then show ?case by simp
next
  case (Cons a xs)
  show ?case
  proof (cases "i \<in> set xs")
    case True
    with Cons show ?thesis by simp
  next
    case False
    with Cons.prems have ia: "i = a" by simp
    with False Cons.prems(2) have "f i \<notin> f ` set xs" by (auto simp: inj_on_def)
    from fold_update_other[OF this, of g "d[f a := g a]"] ia Cons.prems(3)
    show ?thesis by simp
  qed
qed

lemma put_row_other:
  assumes "int k \<noteq> idelta" "0 \<le> idelta" "j < nat n"
  shows "put_row n idelta p d ! (k * nat n + j) = d ! (k * nat n + j)"
proof -
  have "k * nat n + j \<notin> (\<lambda>i. nat (idelta * n + int i)) ` set [0..<nat n]"
  proof
    assume "k * nat n + j \<in> (\<lambda>i. nat (idelta * n + int i)) ` set [0..<nat n]"
    then obtain i where i: "i < nat n" and e: "k * nat n + j = nat (idelta * n + int i)" by auto
    from assms(2) i have "nat (idelta * n + int i) = nat idelta * nat n + i"
      by (simp add: nat_add_distrib nat_mult_distrib)
    with e have eq: "k * nat n + j = nat idelta * nat n + i" by simp
    from assms(1,2) have ne: "k \<noteq> nat idelta" by auto
    from eq i assms(3) have "k = nat idelta"
      by (metis add.commute div_mult_self3 div_less add.right_neutral less_nat_zero_code
          not_gr_zero)
    with ne show False by simp
  qed
  from fold_update_other[OF this] show ?thesis by (simp add: put_row_def)
qed

lemma put_row_other_row:
  assumes "int k \<noteq> idelta" "0 \<le> idelta"
  shows "row n (put_row n idelta p d) k = row n d k"
  using put_row_other[OF assms] by (simp add: row_def)

lemma row_index_unique:
  fixes k a m :: nat
  assumes "j < m" "i < m" "k * m + j = a * m + i"
  shows "k = a"
  using assms
  by (metis add.commute div_mult_self3 div_less add.right_neutral less_nat_zero_code
      not_gr_zero)

lemma sum_list_div:
  fixes c :: real
  shows "sum_list (map (\<lambda>i. h i / c) xs) = sum_list (map h xs) / c"
  by (induction xs) (simp_all add: add_divide_distrib)

lemma identity_rows:
  assumes "distinct is" "j < m" "\<forall>i \<in> set is. i * m + m \<le> length d" "(k * m + m \<le> length d)"
  shows "fold (\<lambda>i d. fold (\<lambda>j d. d[i * m + j := (if j = i then 1 else 0 :: real)]) [0..<m] d) is d
           ! (k * m + j) =
         (if k \<in> set is then (if j = k then 1 else 0) else d ! (k * m + j))"
  using assms
proof (induction "is" arbitrary: d)
  case Nil
  then show ?case by simp
next
  case (Cons a "is")
  let ?inner = "fold (\<lambda>j d. d[a * m + j := (if j = a then 1 else 0 :: real)]) [0..<m] d"
  have len: "length ?inner = length d" by simp
  from Cons.prems have ih: "fold (\<lambda>i d. fold (\<lambda>j d. d[i * m + j := (if j = i then 1 else 0 :: real)]) [0..<m] d) is ?inner
           ! (k * m + j) =
         (if k \<in> set is then (if j = k then 1 else 0) else ?inner ! (k * m + j))"
    by (intro Cons.IH) (simp_all add: len)
  show ?case
  proof (cases "k \<in> set is")
    case True
    with ih show ?thesis by simp
  next
    case False
    show ?thesis
    proof (cases "k = a")
      case True
      have inj: "inj_on (\<lambda>j. a * m + j) (set [0..<m])" by (simp add: inj_on_def)
      from Cons.prems(2,4) True have "a * m + j < length d" by simp
      with Cons.prems(2)
      have "?inner ! (a * m + j) = (if j = a then 1 else 0)"
        using fold_update_at[where f = "\<lambda>j. a * m + j" and g = "\<lambda>j. if j = a then 1 else 0"
            and xs = "[0..<m]" and i = j and d = d, OF _ inj]
        by simp
      with ih False True show ?thesis by simp
    next
      case ne: False
      have "k * m + j \<notin> (\<lambda>j. a * m + j) ` set [0..<m]"
      proof
        assume "k * m + j \<in> (\<lambda>j. a * m + j) ` set [0..<m]"
        then show False
        proof (rule imageE)
          fix i assume e: "k * m + j = a * m + i" and "i \<in> set [0..<m]"
          then have "i < m" by simp
          from row_index_unique[OF Cons.prems(2) this e] ne show False by simp
        qed
      qed
      from fold_update_other[OF this, of "\<lambda>j. if j = a then 1 else 0" d]
      have "?inner ! (k * m + j) = d ! (k * m + j)" .
      with ih False ne show ?thesis by simp
    qed
  qed
qed

lemma identity_direc_entries:
  assumes "nat n * nat n \<le> length direc" "i < nat n" "j < nat n"
  shows "identity_direc n direc ! (i * nat n + j) = (if j = i then 1 else 0)"
proof -
  have bound: "k * nat n + nat n \<le> length direc" if "k < nat n" for k
  proof -
    from that have "Suc k \<le> nat n" by simp
    then have "Suc k * nat n \<le> nat n * nat n" by (rule mult_le_mono1)
    with assms(1) show ?thesis by (simp add: add.commute)
  qed
  have "distinct [0..<nat n]" by simp
  from identity_rows[OF this assms(3), of direc i] bound assms(2)
  show ?thesis by (simp add: identity_direc_def)
qed

lemma fold_sum: "fold (\<lambda>i l. l + h i) xs a = a + sum_list (map h xs)"
  by (induction xs arbitrary: a) (simp_all add: add.assoc)

lemma unit_length:
  assumes "0 < n" "length_of n p \<noteq> 0"
  shows "length_of n (map (\<lambda>i. p ! i / length_of n p) [0..<nat n]) = 1"
proof -
  let ?S = "sum_list (map (\<lambda>i. p ! i * p ! i) [0..<nat n])"
  let ?len = "length_of n p"
  have len: "?len = sqrt ?S" by (simp add: length_of_def fold_sum)
  have "0 \<le> ?S" by (rule sum_list_nonneg) auto
  with len have sq: "?len * ?len = ?S" by simp
  have "sum_list (map (\<lambda>i. map (\<lambda>i. p ! i / ?len) [0..<nat n] ! i *
                            map (\<lambda>i. p ! i / ?len) [0..<nat n] ! i) [0..<nat n]) =
        sum_list (map (\<lambda>i. (p ! i * p ! i) / (?len * ?len)) [0..<nat n])"
    by (rule arg_cong[where f = sum_list]) (simp cong: map_cong)
  also have "\<dots> = ?S / (?len * ?len)"
    by (rule sum_list_div)
  also have "\<dots> = 1" unfolding sq[symmetric] using assms(2) by simp
  finally show ?thesis by (simp add: length_of_def fold_sum)
qed

lemma put_row_none: "n \<le> 0 \<Longrightarrow> put_row n idelta p d = d"
  by (simp add: put_row_def)

lemma powell_round_direc:
  assumes r: "state_of (powell_round gfuel critlim tol criter n s) = Some s'"
    and z: "p_idelta s = 0"
  shows "0 \<le> p_idelta s' \<and>
         (p_direc s' = p_direc s \<or>
          (p_direc s' = put_row n (p_idelta s') (p_p0 s') (p_direc s) \<and> 0 < n \<and>
           length_of n (p_p0 s') = 1))"
proof (cases "directions gfuel critlim tol criter n [0..<nat n] s")
  case (Go s1)
  then have "state_of (directions gfuel critlim tol criter n [0..<nat n] s) = Some s1" by simp
  from directions_frame[OF this] z
  have d1: "p_direc s1 = p_direc s" and i1: "0 \<le> p_idelta s1" by auto
  let ?s2 = "fst (probe criter n s1)"
  show ?thesis
  proof (cases "replace_test (snd (probe criter n s1)) ?s2")
    case True
    with r Go
    have "state_of (replacement gfuel critlim tol criter n ?s2) = Some s'"
      by (simp add: powell_round_def case_prod_beta)
    note f = replacement_frame[OF this]
    from f i1 have id: "0 \<le> p_idelta s'" by (simp add: probe_frame)
    from f have p0: "p_p0 s' = map (\<lambda>i. p_p0 ?s2 ! i / length_of n (p_p0 ?s2)) [0..<nat n]"
      and nz: "\<not> (0 < n \<and> length_of n (p_p0 ?s2) = 0)" by simp_all
    have ds: "p_direc ?s2 = p_direc s" by (simp add: probe_frame d1)
    from f
    have "p_direc s' = p_direc ?s2 \<or> p_direc s' = put_row n (p_idelta s') (p_p0 s') (p_direc ?s2)"
      by blast
    then have "p_direc s' = p_direc s \<or> p_direc s' = put_row n (p_idelta s') (p_p0 s') (p_direc s)"
      unfolding ds .
    then show ?thesis
    proof
      assume "p_direc s' = p_direc s"
      with id show ?thesis by simp
    next
      assume put: "p_direc s' = put_row n (p_idelta s') (p_p0 s') (p_direc s)"
      show ?thesis
      proof (cases "0 < n")
        case True
        with nz have "length_of n (p_p0 ?s2) \<noteq> 0" by simp
        from unit_length[OF True this] p0 have "length_of n (p_p0 s') = 1" by simp
        with put True id show ?thesis by simp
      next
        case False
        with put have "p_direc s' = p_direc s" by (simp add: put_row_none)
        with id show ?thesis by simp
      qed
    qed
  next
    case False
    with r Go have "s' = ?s2" by (simp add: powell_round_def case_prod_beta)
    with d1 i1 show ?thesis by (simp add: probe_frame)
  qed
next
  case (Stop e s1)
  then have "state_of (directions gfuel critlim tol criter n [0..<nat n] s) = Some s1" by simp
  from directions_frame[OF this] z
  have "p_direc s1 = p_direc s" "0 \<le> p_idelta s1" by auto
  moreover from r Stop have "s' = s1" by (simp add: powell_round_def)
  ultimately show ?thesis by simp
next
  case (Fault f)
  with r show ?thesis by (simp add: powell_round_def)
qed

lemma powell_head_direc:
  "powell_head maxits critlim tol n s = Go s1 \<Longrightarrow> p_direc s1 = p_direc s \<and> p_idelta s1 = 0"
  by (auto simp: powell_head_def Let_def split: if_splits)

lemma powell_pass_direc:
  assumes "state_of (powell_pass gfuel maxits critlim tol criter n s) = Some s'"
  shows "p_direc s' = p_direc s \<or>
         (p_direc s' = put_row n (p_idelta s') (p_p0 s') (p_direc s) \<and> 0 \<le> p_idelta s' \<and>
          0 < n \<and> length_of n (p_p0 s') = 1)"
proof (cases "powell_head maxits critlim tol n s")
  case (Go s1)
  with assms have "state_of (powell_round gfuel critlim tol criter n s1) = Some s'"
    by (simp add: powell_pass_def)
  from powell_round_direc[OF this] powell_head_direc[OF Go] show ?thesis by auto
next
  case (Stop e s1)
  with assms have "s' = s1" by (simp add: powell_pass_def)
  with powell_head_stop[OF Stop] show ?thesis by simp
next
  case (Fault f)
  with assms show ?thesis by (simp add: powell_pass_def)
qed

lemma track_pair:
  "track (i, g) (d, k) = (if g > d then (g, int i) else (d, k))"
  by (simp add: track_def)

lemma track_fold:
  "sorted_wrt (<) (map fst gs) \<Longrightarrow> fold track gs (d, k) = (d', k') \<Longrightarrow>
   d \<le> d' \<and> (\<forall>(i, g) \<in> set gs. g \<le> d') \<and>
   ((d', k') = (d, k) \<or>
    (d < d' \<and> 0 \<le> k' \<and> (nat k', d') \<in> set gs \<and> (\<forall>(i, g) \<in> set gs. int i < k' \<longrightarrow> g < d')))"
proof (induction gs arbitrary: d k)
  case Nil
  then show ?case by simp
next
  case (Cons a gs)
  obtain i g where a: "a = (i, g)" by (cases a)
  from Cons.prems(1) a have srt: "sorted_wrt (<) (map fst gs)"
    and above: "\<forall>(j, h) \<in> set gs. i < j" by auto
  show ?case
  proof (cases "g > d")
    case True
    with Cons.prems(2) a have "fold track gs (g, int i) = (d', k')" by (simp add: track_pair)
    from Cons.IH[OF srt this]
    have le: "g \<le> d'" and all: "\<forall>(i, g) \<in> set gs. g \<le> d'"
      and c: "(d', k') = (g, int i) \<or>
        (g < d' \<and> 0 \<le> k' \<and> (nat k', d') \<in> set gs \<and>
         (\<forall>(i, g) \<in> set gs. int i < k' \<longrightarrow> g < d'))"
      by blast+
    from c show ?thesis
    proof
      assume "(d', k') = (g, int i)"
      with True a all above show ?thesis by auto
    next
      assume "g < d' \<and> 0 \<le> k' \<and> (nat k', d') \<in> set gs \<and>
         (\<forall>(i, g) \<in> set gs. int i < k' \<longrightarrow> g < d')"
      with True a all show ?thesis by auto
    qed
  next
    case False
    with Cons.prems(2) a have "fold track gs (d, k) = (d', k')" by (simp add: track_pair)
    from Cons.IH[OF srt this]
    have le: "d \<le> d'" and all: "\<forall>(i, g) \<in> set gs. g \<le> d'"
      and c: "(d', k') = (d, k) \<or>
        (d < d' \<and> 0 \<le> k' \<and> (nat k', d') \<in> set gs \<and>
         (\<forall>(i, g) \<in> set gs. int i < k' \<longrightarrow> g < d'))"
      by blast+
    from c show ?thesis
    proof
      assume "(d', k') = (d, k)"
      with False a all le show ?thesis by auto
    next
      assume "d < d' \<and> 0 \<le> k' \<and> (nat k', d') \<in> set gs \<and>
         (\<forall>(i, g) \<in> set gs. int i < k' \<longrightarrow> g < d')"
      with False a all le show ?thesis by auto
    qed
  qed
qed

lemma direction_step_track:
  assumes "direction_step gfuel critlim tol criter n idir s = Go s'"
  shows "(p_delta s', p_idelta s') =
           (if 1 < n \<and> idir = 0 \<and> p_replaced s = 0 then (p_delta s, p_idelta s)
            else track (idir, p_fbest s - p_fbest s') (p_delta s, p_idelta s))"
proof (cases "1 < n \<and> idir = 0 \<and> p_replaced s = 0")
  case True
  with assms show ?thesis by (simp add: direction_step_def)
next
  case False
  note r = assms[unfolded direction_step_run[OF False]]
  with False show ?thesis
    by (auto simp: Let_def refine_sel track_pair split: option.splits if_splits)
qed

lemma directions_track:
  "directions gfuel critlim tol criter n idirs s = Go s' \<Longrightarrow>
   (p_delta s', p_idelta s') =
     fold track (gains gfuel critlim tol criter n idirs s) (p_delta s, p_idelta s)"
proof (induction idirs arbitrary: s)
  case Nil
  then show ?case by simp
next
  case (Cons idir idirs)
  from Cons.prems obtain s1 where
    d: "direction_step gfuel critlim tol criter n idir s = Go s1"
    and r: "directions gfuel critlim tol criter n idirs s1 = Go s'"
    by (auto split: flow.splits)
  from Cons.IH[OF r] direction_step_track[OF d] d show ?case
    by simp
qed

lemma gains_indices:
  "fst ` set (gains gfuel critlim tol criter n idirs s) \<subseteq> set idirs"
proof (induction idirs arbitrary: s)
  case Nil
  then show ?case by simp
next
  case (Cons idir idirs)
  show ?case
  proof (cases "direction_step gfuel critlim tol criter n idir s")
    case (Go s1)
    with Cons.IH[of s1] show ?thesis by auto
  qed simp_all
qed

lemma gains_sorted:
  "sorted_wrt (<) idirs \<Longrightarrow>
   sorted_wrt (<) (map fst (gains gfuel critlim tol criter n idirs s))"
proof (induction idirs arbitrary: s)
  case Nil
  then show ?case by simp
next
  case (Cons idir idirs)
  show ?case
  proof (cases "direction_step gfuel critlim tol criter n idir s")
    case (Go s1)
    from Cons.prems have srt: "sorted_wrt (<) idirs" and ab: "\<forall>j \<in> set idirs. idir < j"
      by auto
    from gains_indices[of gfuel critlim tol criter n idirs s1] ab
    have "\<forall>j \<in> fst ` set (gains gfuel critlim tol criter n idirs s1). idir < j" by blast
    with Cons.IH[OF srt, of s1] Go show ?thesis by (auto simp: sorted_wrt_append)
  qed simp_all
qed

lemma directions_largest:
  assumes d: "directions gfuel critlim tol criter n [0..<m] s = Go s'"
    and "p_delta s = - 1" "p_idelta s = 0"
  shows "largest_gain (gains gfuel critlim tol criter n [0..<m] s) (p_idelta s') (p_delta s')"
proof -
  let ?gs = "gains gfuel critlim tol criter n [0..<m] s"
  have "sorted_wrt (<) [0..<m]" by (simp add: sorted_wrt_upt)
  then have srt: "sorted_wrt (<) (map fst ?gs)" by (rule gains_sorted)
  from directions_track[OF d] assms(2,3)
  have "fold track ?gs (- 1, 0) = (p_delta s', p_idelta s')" by simp
  from track_fold[OF srt this] show ?thesis
    unfolding largest_gain_def by auto
qed


lemma identity_direc_length [simp]: "length (identity_direc n direc) = length direc"
proof -
  have inner: "length (fold (\<lambda>j d. d[i * m + j := (if j = i then 1 else 0 :: real)]) js d) = length d"
    for i m js and d :: "real list"
    by (induction js arbitrary: d) auto
  have "length (fold (\<lambda>i d. fold (\<lambda>j d. d[i * m + j := (if j = i then 1 else 0 :: real)]) js d)
          is d) = length d" for m js "is" and d :: "real list"
    by (induction "is" arbitrary: d) (simp_all add: inner)
  then show ?thesis by (simp add: identity_direc_def)
qed

lemma put_row_length [simp]: "length (put_row n idelta p d) = length d"
  by (simp add: put_row_def)

lemma powell_run_length:
  "powell_run k gfuel maxits critlim tol criter n (powell_init n x ystart base p0 direc) = Go s \<Longrightarrow>
   length (p_direc s) = length direc"
proof (induction k arbitrary: s)
  case 0
  then show ?case by (auto simp: powell_init_def)
next
  case (Suc k)
  from Suc.prems obtain s1 where
    k: "powell_run k gfuel maxits critlim tol criter n (powell_init n x ystart base p0 direc) = Go s1"
    and p: "powell_pass gfuel maxits critlim tol criter n s1 = Go s"
    by (auto split: flow.splits)
  from p have "state_of (powell_pass gfuel maxits critlim tol criter n s1) = Some s" by simp
  from powell_pass_direc[OF this] have "length (p_direc s) = length (p_direc s1)" by auto
  with Suc.IH[OF k] show ?case by simp
qed

lemma put_row_row:
  assumes "0 \<le> idelta" "(nat idelta + 1) * nat n \<le> length d"
  shows "row n (put_row n idelta p d) (nat idelta) = map (\<lambda>i. p ! i) [0..<nat n]"
proof -
  have idx: "nat (idelta * n + int i) = nat idelta * nat n + i" if "i < nat n" for i
    using assms(1) that by (simp add: nat_add_distrib nat_mult_distrib)
  have inj: "inj_on (\<lambda>i. nat (idelta * n + int i)) (set [0..<nat n])"
    by (rule inj_onI) (simp add: idx)
  have "put_row n idelta p d ! (nat idelta * nat n + i) = p ! i" if i: "i < nat n" for i
  proof -
    from i have "nat idelta * nat n + i < (nat idelta + 1) * nat n" by simp
    with assms(2) have "nat (idelta * n + int i) < length d" by (simp add: idx[OF i])
    from fold_update_at[where f = "\<lambda>i. nat (idelta * n + int i)" and g = "\<lambda>i. p ! i"
        and xs = "[0..<nat n]" and i = i and d = d, OF _ inj this] i
    show ?thesis by (simp add: put_row_def idx[OF i])
  qed
  then show ?thesis by (simp add: row_def)
qed

lemma replacement_stop_direc:
  assumes "replacement gfuel critlim tol criter n s = Stop e s'"
  shows "p_direc s' = p_direc s"
proof (cases "0 < n \<and> length_of n (p_p0 s) = 0")
  case True
  with assms show ?thesis by (simp add: replacement_def)
next
  case False
  note r = assms[unfolded replacement_run[OF False]]
  then show ?thesis by (auto simp: Let_def split: option.splits if_splits)
qed

lemma replacement_go:
  assumes "replacement gfuel critlim tol criter n s = Go s'"
  shows "p_direc s' = put_row n (p_idelta s) (unit_vector n (p_p0 s)) (p_direc s) \<and>
         p_idelta s' = p_idelta s \<and> n \<noteq> 0 \<and> (0 < n \<longrightarrow> length_of n (p_p0 s) \<noteq> 0)"
proof (cases "0 < n \<and> length_of n (p_p0 s) = 0")
  case True
  with assms show ?thesis by (simp add: replacement_def)
next
  case False
  note r = assms[unfolded replacement_run[OF False]]
  with False show ?thesis
    by (auto simp: Let_def refine_sel unit_vector_def split: option.splits if_splits)
qed

lemma probe_sel:
  "p_p0 (fst (probe criter n s)) = map (\<lambda>i. p_x s ! i - p_p0 s ! i) [0..<nat n]"
  "p_fval (fst (probe criter n s)) =
     criter (stepped_out n (p_x s) (map (\<lambda>i. p_x s ! i - p_p0 s ! i) [0..<nat n]))"
  "p_f0 (fst (probe criter n s)) = p_f0 s" "p_delta (fst (probe criter n s)) = p_delta s"
  "snd (probe criter n s) = p_fbest s"
  by (simp_all add: probe_def Let_def stepped_out_def)

lemma replace_test_passes:
  "replace_test ftest s = test_passes (p_f0 s) ftest (p_fval s) (p_delta s)"
  by (simp add: replace_test_def test_passes_def Let_def)

lemma average_vec:
  "map (\<lambda>i. x ! i - vec n x0 ! i) [0..<nat n] = average_direction n x x0"
  by (simp add: average_direction_def vec_def)

lemma powell_head_start:
  assumes "powell_head maxits critlim tol n s = Go s0"
  shows "p_x s0 = p_x s" "p_p0 s0 = vec n (p_x s)" "p_f0 s0 = p_fbest s" "p_delta s0 = - 1"
    "p_idelta s0 = 0" "p_direc s0 = p_direc s" "p_fbest s0 = p_fbest s"
  using assms by (auto simp: powell_head_def Let_def split: if_splits)

lemma directions_x_only:
  "directions gfuel critlim tol criter n idirs s = Go s' \<Longrightarrow>
   p_p0 s' = p_p0 s \<and> p_f0 s' = p_f0 s \<and> p_direc s' = p_direc s \<and>
   (p_idelta s' = p_idelta s \<or> p_idelta s' \<in> int ` set idirs)"
proof -
  assume "directions gfuel critlim tol criter n idirs s = Go s'"
  then have "state_of (directions gfuel critlim tol criter n idirs s) = Some s'" by simp
  from directions_frame[OF this] show ?thesis by blast
qed


lemma powell_pass_stop_direc:
  assumes "powell_pass gfuel maxits critlim tol criter n s = Stop e s'"
  shows "p_direc s' = p_direc s"
proof (cases "powell_head maxits critlim tol n s")
  case (Go s0)
  note h = powell_head_start[OF Go]
  from assms Go have r: "powell_round gfuel critlim tol criter n s0 = Stop e s'"
    by (simp add: powell_pass_def)
  show ?thesis
  proof (cases "directions gfuel critlim tol criter n [0..<nat n] s0")
    case g: (Go s1)
    from directions_x_only[OF g] have d1: "p_direc s1 = p_direc s0" by simp
    from r g have "replacement gfuel critlim tol criter n (fst (probe criter n s1)) = Stop e s'"
      by (auto simp: powell_round_def case_prod_beta split: if_splits)
    from replacement_stop_direc[OF this] d1 h(6) show ?thesis by (simp add: probe_frame)
  next
    case st: (Stop e1 s1)
    then have "state_of (directions gfuel critlim tol criter n [0..<nat n] s0) = Some s1" by simp
    from directions_frame[OF this] have "p_direc s1 = p_direc s0" by simp
    moreover from r st have "s' = s1" by (simp add: powell_round_def)
    ultimately show ?thesis using h(6) by simp
  next
    case (Fault f)
    with r show ?thesis by (simp add: powell_round_def)
  qed
next
  case (Stop e1 s1)
  with assms have "s' = s1" by (simp add: powell_pass_def)
  with powell_head_stop[OF Stop] show ?thesis by simp
next
  case (Fault f)
  with assms show ?thesis by (simp add: powell_pass_def)
qed

lemma powell_pass_go:
  assumes "powell_pass gfuel maxits critlim tol criter n s = Go s'"
  shows "\<exists>s0 s1. powell_head maxits critlim tol n s = Go s0 \<and>
           directions gfuel critlim tol criter n [0..<nat n] s0 = Go s1 \<and>
           (if replace_test (snd (probe criter n s1)) (fst (probe criter n s1))
            then replacement gfuel critlim tol criter n (fst (probe criter n s1)) = Go s'
            else s' = fst (probe criter n s1))"
proof (cases "powell_head maxits critlim tol n s")
  case (Go s0)
  from assms Go have r: "powell_round gfuel critlim tol criter n s0 = Go s'"
    by (simp add: powell_pass_def)
  show ?thesis
  proof (cases "directions gfuel critlim tol criter n [0..<nat n] s0")
    case g: (Go s1)
    from r g
    have "if replace_test (snd (probe criter n s1)) (fst (probe criter n s1))
          then replacement gfuel critlim tol criter n (fst (probe criter n s1)) = Go s'
          else s' = fst (probe criter n s1)"
      by (auto simp: powell_round_def case_prod_beta split: if_splits)
    with Go g show ?thesis by blast
  next
    case (Stop e1 s1)
    with r show ?thesis by (simp add: powell_round_def)
  next
    case (Fault f)
    with r show ?thesis by (simp add: powell_round_def)
  qed
next
  case (Stop e1 s1)
  with assms show ?thesis by (simp add: powell_pass_def)
next
  case (Fault f)
  with assms show ?thesis by (simp add: powell_pass_def)
qed

lemma round_replaces:
  assumes len: "nat n * nat n \<le> length (p_direc s)"
    and h: "powell_head maxits critlim tol n s = Go s0"
    and d: "directions gfuel critlim tol criter n [0..<nat n] s0 = Go s1"
    and r: "replacement gfuel critlim tol criter n (fst (probe criter n s1)) = Go s'"
  shows "p_idelta s' = p_idelta s1 \<and>
         (0 < n \<longrightarrow>
            0 \<le> p_idelta s1 \<and> p_idelta s1 < n \<and>
            row n (p_direc s') (nat (p_idelta s1)) =
              unit_vector n (average_direction n (p_x s1) (p_x s)) \<and>
            length_of n (unit_vector n (average_direction n (p_x s1) (p_x s))) = 1) \<and>
         (\<forall>k<nat n. int k \<noteq> p_idelta s1 \<longrightarrow> row n (p_direc s') k = row n (p_direc s) k) \<and>
         largest_gain (gains gfuel critlim tol criter n [0..<nat n] s0) (p_idelta s1) (p_delta s1)"
proof -
  let ?s2 = "fst (probe criter n s1)"
  let ?avg = "average_direction n (p_x s1) (p_x s)"
  note hg = powell_head_start[OF h]
  note dx = directions_x_only[OF d]
  from dx hg have p0: "p_p0 ?s2 = ?avg"
    by (simp add: probe_sel average_vec)
  from dx hg have dir2: "p_direc ?s2 = p_direc s" by (simp add: probe_frame)
  have id2: "p_idelta ?s2 = p_idelta s1" by (simp add: probe_frame)
  from dx hg have range: "0 \<le> p_idelta s1" "0 < n \<longrightarrow> p_idelta s1 < n" by auto
  note g = replacement_go[OF r]
  from g have put: "p_direc s' = put_row n (p_idelta s1) (unit_vector n ?avg) (p_direc s)"
    and ids: "p_idelta s' = p_idelta s1"
    and nz: "0 < n \<longrightarrow> length_of n ?avg \<noteq> 0"
    by (simp_all add: p0 dir2 id2)
  have rows: "0 < n \<longrightarrow>
      row n (p_direc s') (nat (p_idelta s1)) = unit_vector n ?avg \<and>
      length_of n (unit_vector n ?avg) = 1"
  proof
    assume pos: "0 < n"
    with range have "nat (p_idelta s1) + 1 \<le> nat n" by simp
    then have "(nat (p_idelta s1) + 1) * nat n \<le> nat n * nat n" by (rule mult_le_mono1)
    with len have "(nat (p_idelta s1) + 1) * nat n \<le> length (p_direc s)" by simp
    from put_row_row[OF range(1) this, of "unit_vector n ?avg"]
    have "row n (p_direc s') (nat (p_idelta s1)) = unit_vector n ?avg"
      unfolding put by (simp add: unit_vector_def cong: map_cong)
    moreover from nz pos have "length_of n ?avg \<noteq> 0" by simp
    from unit_length[OF pos this] have "length_of n (unit_vector n ?avg) = 1"
      by (simp add: unit_vector_def)
    ultimately show "row n (p_direc s') (nat (p_idelta s1)) = unit_vector n ?avg \<and>
      length_of n (unit_vector n ?avg) = 1" by simp
  qed
  have others: "\<forall>k<nat n. int k \<noteq> p_idelta s1 \<longrightarrow> row n (p_direc s') k = row n (p_direc s) k"
    unfolding put using put_row_other_row[OF _ range(1)] by blast
  from hg have "p_delta s0 = - 1" "p_idelta s0 = 0" by simp_all
  from directions_largest[OF d this]
  have "largest_gain (gains gfuel critlim tol criter n [0..<nat n] s0) (p_idelta s1) (p_delta s1)" .
  with ids rows others range show ?thesis by simp
qed

lemma round_test:
  assumes h: "powell_head maxits critlim tol n s = Go s0"
    and d: "directions gfuel critlim tol criter n [0..<nat n] s0 = Go s1"
  shows "replace_test (snd (probe criter n s1)) (fst (probe criter n s1)) =
           test_passes (p_fbest s) (p_fbest s1)
             (criter (stepped_out n (p_x s1) (average_direction n (p_x s1) (p_x s))))
             (p_delta s1)"
proof -
  note hg = powell_head_start[OF h]
  note dx = directions_x_only[OF d]
  from dx hg show ?thesis
    by (simp add: replace_test_passes probe_sel average_vec)
qed

text \<open>
  C9, as amended. \<^verbatim>\<open>powell\<close> starts with the identity in \<^verbatim>\<open>direc\<close> (a buffer of at least
  \<^verbatim>\<open>n*n\<close> entries). A pass of its main loop that leaves the loop leaves \<^verbatim>\<open>direc\<close> as it
  was, also when it leaves through the \<^verbatim>\<open>break\<close> in the replacement. A pass that goes on
  to the next one has run the line searches of all directions, from the point where it
  began to a point \<open>x\<close>; it leaves \<^verbatim>\<open>direc\<close> as it was unless the two tests for the
  replacement pass, on the best value at its start, the best value that the line searches
  reached, the criterion at the point stepped out to from \<open>x\<close> by the average direction,
  and the largest improvement of a single direction. If they pass, then the row
  \<^verbatim>\<open>idelta\<close> holds the average direction divided by its length, a vector of length 1,
  every other row is as it was, and \<^verbatim>\<open>idelta\<close> is the first direction whose line search
  gave the largest improvement of the round (direction 0 with \<^verbatim>\<open>delta = -1\<close> if no
  improvement was above \<open>-1\<close>).
\<close>

theorem direc_identity_then_one_row:
  assumes "nat n * nat n \<le> length direc"
    and "powell_run k gfuel maxits critlim tol criter n
           (powell_init n x ystart base p0 direc) = Go s"
  shows "(\<forall>i<nat n. \<forall>j<nat n.
            p_direc (powell_init n x ystart base p0 direc) ! (i * nat n + j) =
              (if j = i then 1 else 0)) \<and>
         (\<forall>e s'. powell_pass gfuel maxits critlim tol criter n s = Stop e s' \<longrightarrow>
            p_direc s' = p_direc s) \<and>
         (\<forall>s'. powell_pass gfuel maxits critlim tol criter n s = Go s' \<longrightarrow>
            (\<exists>s0 s1.
               powell_head maxits critlim tol n s = Go s0 \<and>
               directions gfuel critlim tol criter n [0..<nat n] s0 = Go s1 \<and>
               (if test_passes (p_fbest s) (p_fbest s1)
                     (criter (stepped_out n (p_x s1) (average_direction n (p_x s1) (p_x s))))
                     (p_delta s1)
                then p_idelta s' = p_idelta s1 \<and>
                     (0 < n \<longrightarrow>
                        0 \<le> p_idelta s1 \<and> p_idelta s1 < n \<and>
                        row n (p_direc s') (nat (p_idelta s1)) =
                          unit_vector n (average_direction n (p_x s1) (p_x s)) \<and>
                        length_of n (unit_vector n (average_direction n (p_x s1) (p_x s))) = 1) \<and>
                     (\<forall>k<nat n. int k \<noteq> p_idelta s1 \<longrightarrow>
                        row n (p_direc s') k = row n (p_direc s) k) \<and>
                     largest_gain (gains gfuel critlim tol criter n [0..<nat n] s0)
                       (p_idelta s1) (p_delta s1)
                else p_direc s' = p_direc s)))"
proof (intro conjI allI impI)
  fix i j assume "i < nat n" "j < nat n"
  from identity_direc_entries[OF assms(1) this]
  show "p_direc (powell_init n x ystart base p0 direc) ! (i * nat n + j) =
          (if j = i then 1 else 0)"
    by (simp add: powell_init_def)
next
  fix e s' assume "powell_pass gfuel maxits critlim tol criter n s = Stop e s'"
  then show "p_direc s' = p_direc s" by (rule powell_pass_stop_direc)
next
  fix s' assume "powell_pass gfuel maxits critlim tol criter n s = Go s'"
  from powell_pass_go[OF this] obtain s0 s1 where
    h: "powell_head maxits critlim tol n s = Go s0"
    and d: "directions gfuel critlim tol criter n [0..<nat n] s0 = Go s1"
    and c: "if replace_test (snd (probe criter n s1)) (fst (probe criter n s1))
            then replacement gfuel critlim tol criter n (fst (probe criter n s1)) = Go s'
            else s' = fst (probe criter n s1)"
    by blast
  from powell_run_length[OF assms(2)] assms(1)
  have len: "nat n * nat n \<le> length (p_direc s)" by simp
  note t = round_test[OF h d]
  have "if test_passes (p_fbest s) (p_fbest s1)
             (criter (stepped_out n (p_x s1) (average_direction n (p_x s1) (p_x s))))
             (p_delta s1)
        then p_idelta s' = p_idelta s1 \<and>
             (0 < n \<longrightarrow>
                0 \<le> p_idelta s1 \<and> p_idelta s1 < n \<and>
                row n (p_direc s') (nat (p_idelta s1)) =
                  unit_vector n (average_direction n (p_x s1) (p_x s)) \<and>
                length_of n (unit_vector n (average_direction n (p_x s1) (p_x s))) = 1) \<and>
             (\<forall>k<nat n. int k \<noteq> p_idelta s1 \<longrightarrow>
                row n (p_direc s') k = row n (p_direc s) k) \<and>
             largest_gain (gains gfuel critlim tol criter n [0..<nat n] s0)
               (p_idelta s1) (p_delta s1)
        else p_direc s' = p_direc s"
  proof (cases "replace_test (snd (probe criter n s1)) (fst (probe criter n s1))")
    case True
    with c have "replacement gfuel critlim tol criter n (fst (probe criter n s1)) = Go s'"
      by simp
    from round_replaces[OF len h d this] True t show ?thesis by simp
  next
    case False
    with c have "s' = fst (probe criter n s1)" by simp
    with directions_x_only[OF d] powell_head_start(6)[OF h] False t show ?thesis
      by (simp add: probe_frame)
  qed
  with h d show "\<exists>s0 s1.
               powell_head maxits critlim tol n s = Go s0 \<and>
               directions gfuel critlim tol criter n [0..<nat n] s0 = Go s1 \<and>
               (if test_passes (p_fbest s) (p_fbest s1)
                     (criter (stepped_out n (p_x s1) (average_direction n (p_x s1) (p_x s))))
                     (p_delta s1)
                then p_idelta s' = p_idelta s1 \<and>
                     (0 < n \<longrightarrow>
                        0 \<le> p_idelta s1 \<and> p_idelta s1 < n \<and>
                        row n (p_direc s') (nat (p_idelta s1)) =
                          unit_vector n (average_direction n (p_x s1) (p_x s)) \<and>
                        length_of n (unit_vector n (average_direction n (p_x s1) (p_x s))) = 1) \<and>
                     (\<forall>k<nat n. int k \<noteq> p_idelta s1 \<longrightarrow>
                        row n (p_direc s') k = row n (p_direc s) k) \<and>
                     largest_gain (gains gfuel critlim tol criter n [0..<nat n] s0)
                       (p_idelta s1) (p_delta s1)
                else p_direc s' = p_direc s)"
    by blast
qed

lemma skew_gains:
  "gains (Suc 0) (- 1) (1 / 1000) skew 2 [0..<nat 2] skew_round = [(0, 0), (Suc 0, 9 / 122500)]"
  by (simp add: upt_two skew_direction0 skew_direction1[simplified])
     (simp add: skew_round_def skew_mid0_def skew_mid1_def)

lemma skew_average:
  "average_direction 2 (p_x skew_mid1) (p_x skew_start) = [0, - (3 / 350)]"
  by (simp add: average_direction_def skew_mid1_def skew_start_def powell_init_def upt_two)

lemma skew_unit: "unit_vector 2 [0, - (3 / 350)] = [0, - 1]"
  by (simp add: unit_vector_def skew_length upt_two)

lemma skew_tested:
  "test_passes (p_fbest skew_start) (p_fbest skew_mid1)
     (skew (stepped_out 2 (p_x skew_mid1) [0, - (3 / 350)])) (p_delta skew_mid1)"
  by (simp add: test_passes_def stepped_out_def skew_def skew_start_def powell_init_def
      skew_mid1_def upt_two)

theorem direc_identity_then_one_row_witness:
  "nat 2 * nat 2 \<le> length [0, 0, 0, 0 :: real] \<and>
   powell_run 0 (Suc 0) 5 (- 1) (1 / 1000) skew 2
     (powell_init 2 [0, 0] (9 / 122500) [0, 0] [0, 0] [0, 0, 0, 0]) = Go skew_start \<and>
   p_direc (powell_init 2 [0, 0] (9 / 122500) [0, 0] [0, 0] [0, 0, 0, 0]) ! (0 * nat 2 + 0) = 1 \<and>
   p_direc (powell_init 2 [0, 0] (9 / 122500) [0, 0] [0, 0] [0, 0, 0, 0]) ! (0 * nat 2 + 1) = 0 \<and>
   p_direc (powell_init 2 [0, 0] (9 / 122500) [0, 0] [0, 0] [0, 0, 0, 0]) ! (1 * nat 2 + 0) = 0 \<and>
   p_direc (powell_init 2 [0, 0] (9 / 122500) [0, 0] [0, 0] [0, 0, 0, 0]) ! (1 * nat 2 + 1) = 1 \<and>
   powell_pass (Suc 0) 5 (- 1) (1 / 1000) skew 2 skew_start = Go skew_end \<and>
   powell_head 5 (- 1) (1 / 1000) 2 skew_start = Go skew_round \<and>
   directions (Suc 0) (- 1) (1 / 1000) skew 2 [0..<nat 2] skew_round = Go skew_mid1 \<and>
   average_direction 2 (p_x skew_mid1) (p_x skew_start) = [0, - (3 / 350)] \<and>
   test_passes (p_fbest skew_start) (p_fbest skew_mid1)
     (skew (stepped_out 2 (p_x skew_mid1) [0, - (3 / 350)])) (p_delta skew_mid1) \<and>
   gains (Suc 0) (- 1) (1 / 1000) skew 2 [0..<nat 2] skew_round =
     [(0, 0), (Suc 0, 9 / 122500)] \<and>
   p_idelta skew_mid1 = 1 \<and> p_delta skew_mid1 = 9 / 122500 \<and>
   p_idelta skew_end = 1 \<and>
   row 2 (p_direc skew_end) (nat 1) = [0, - 1] \<and>
   length_of 2 [0, - 1] = 1 \<and>
   row 2 (p_direc skew_start) 0 = [1, 0] \<and>
   row 2 (p_direc skew_end) 0 = [1, 0] \<and>
   largest_gain [(0, 0), (Suc 0, 9 / 122500)] 1 (9 / 122500)"
proof -
  have a: "nat 2 * nat 2 \<le> length [0, 0, 0, 0 :: real]" by simp
  have b: "powell_run 0 (Suc 0) 5 (- 1) (1 / 1000) skew 2
      (powell_init 2 [0, 0] (9 / 122500) [0, 0] [0, 0] [0, 0, 0, 0]) = Go skew_start"
    by (simp add: skew_start_def)
  note t = direc_identity_then_one_row[OF a b]
  from t have e: "\<And>i j. i < nat 2 \<Longrightarrow> j < nat 2 \<Longrightarrow>
      p_direc (powell_init 2 [0, 0] (9 / 122500) [0, 0] [0, 0] [0, 0, 0, 0]) ! (i * nat 2 + j) =
        (if j = i then 1 else 0)" by blast
  from t skew_pass obtain s0 s1 where
    h: "powell_head 5 (- 1) (1 / 1000) 2 skew_start = Go s0"
    and d: "directions (Suc 0) (- 1) (1 / 1000) skew 2 [0..<nat 2] s0 = Go s1"
    and c: "if test_passes (p_fbest skew_start) (p_fbest s1)
                 (skew (stepped_out 2 (p_x s1) (average_direction 2 (p_x s1) (p_x skew_start))))
                 (p_delta s1)
            then p_idelta skew_end = p_idelta s1 \<and>
                 ((0::int) < 2 \<longrightarrow>
                    0 \<le> p_idelta s1 \<and> p_idelta s1 < 2 \<and>
                    row 2 (p_direc skew_end) (nat (p_idelta s1)) =
                      unit_vector 2 (average_direction 2 (p_x s1) (p_x skew_start)) \<and>
                    length_of 2 (unit_vector 2 (average_direction 2 (p_x s1) (p_x skew_start))) = 1) \<and>
                 (\<forall>k<nat 2. int k \<noteq> p_idelta s1 \<longrightarrow>
                    row 2 (p_direc skew_end) k = row 2 (p_direc skew_start) k) \<and>
                 largest_gain (gains (Suc 0) (- 1) (1 / 1000) skew 2 [0..<nat 2] s0)
                   (p_idelta s1) (p_delta s1)
            else p_direc skew_end = p_direc skew_start"
    by blast
  from h skew_head have s0: "s0 = skew_round" by simp
  from d skew_directions have s1: "s1 = skew_mid1" by (simp add: s0)
  have i: "p_idelta skew_mid1 = 1" "p_delta skew_mid1 = 9 / 122500"
    by (simp_all add: skew_mid1_def)
  note c1 = c[unfolded s0 s1 skew_average skew_unit skew_gains i]
  from c1 skew_tested[unfolded i]
  have r: "p_idelta skew_end = 1"
    "row 2 (p_direc skew_end) (nat 1) = [0, - 1]"
    "length_of 2 [0, - 1] = 1"
    "\<forall>k<nat 2. int k \<noteq> 1 \<longrightarrow> row 2 (p_direc skew_end) k = row 2 (p_direc skew_start) k"
    "largest_gain [(0, 0), (Suc 0, 9 / 122500)] 1 (9 / 122500)"
    by simp_all
  have st: "row 2 (p_direc skew_start) 0 = [1, 0]"
    by (simp add: skew_start_def powell_init_def identity_direc_def row_def upt_two)
  from r(4) st have o: "row 2 (p_direc skew_end) 0 = [1, 0]" by simp
  have id: "p_direc (powell_init 2 [0, 0] (9 / 122500) [0, 0] [0, 0] [0, 0, 0, 0]) ! (0 * nat 2 + 0) = 1"
    "p_direc (powell_init 2 [0, 0] (9 / 122500) [0, 0] [0, 0] [0, 0, 0, 0]) ! (0 * nat 2 + 1) = 0"
    "p_direc (powell_init 2 [0, 0] (9 / 122500) [0, 0] [0, 0] [0, 0, 0, 0]) ! (1 * nat 2 + 0) = 0"
    "p_direc (powell_init 2 [0, 0] (9 / 122500) [0, 0] [0, 0] [0, 0, 0, 0]) ! (1 * nat 2 + 1) = 1"
    using e[of 0 0] e[of 0 1] e[of 1 0] e[of 1 1] by simp_all
  from a b id skew_pass skew_head skew_directions skew_average skew_tested skew_gains i r(1,2,3,5)
    st o
  show ?thesis by blast
qed

lemma trough_a_glob0:
  "glob_min (Suc 0) real_arith (- 1 / 50) (1 / 50) 15 False (1 / 1000000)
     (univar_crit trough 1 [0] [1])
     \<lparr>g_x1 = 0, g_y1 = 0, g_x2 = 0, g_y2 = 529 / 400000000, g_x3 = 0, g_y3 = 0\<rparr> =
   Some
     \<lparr>g_x1 = - 1 / 350, g_y1 = 57121 / 19600000000, g_x2 = 0, g_y2 = 529 / 400000000,
      g_x3 = 1 / 350, g_y3 = 314721 / 19600000000\<rparr>"
  by (simp add: glob_min_def glob_run_def glob_init_def scan.simps scan_point_def neighbors_def
      extension_def real_arith_def Let_def bracket.truncate_def univar_crit_def along_def
      trough_def)

lemma trough_a_tries:
  "bracket_tries (Suc 0) (1 / 1000000) (univar_crit trough 1 [0] [1]) (1 / 5) mults
     \<lparr>g_x1 = 0, g_y1 = 0, g_x2 = 0, g_y2 = 529 / 400000000, g_x3 = 0, g_y3 = 0\<rparr> =
   Some
     \<lparr>g_x1 = - 1 / 350, g_y1 = 57121 / 19600000000, g_x2 = 0, g_y2 = 529 / 400000000,
      g_x3 = 1 / 350, g_y3 = 314721 / 19600000000\<rparr>"
  using trough_a_glob0 by (simp add: mults_def)

lemma trough_a_pass0:
  "brent_body (1 / 1000000) (1 / 100) (1 / 100000)
     (univar_crit trough 1 [0] [1]) 0
     (brent_init (- 1 / 350) 0 (1 / 350) (529 / 400000000)) =
   Inr trough_a1"
  by (simp add: brent_eval univar_crit_def along_def trough_def trough_a1_def)

lemma trough_a_pass1:
  "brent_body (1 / 1000000) (1 / 100) (1 / 100000)
     (univar_crit trough 1 [0] [1]) 1
     trough_a1 =
   Inl Crit_reached"
  by (simp add: brent_eval univar_crit_def along_def trough_def trough_a1_def)

lemma trough_a_brentmin:
  "brentmin 20 (1 / 1000000) (1 / 100) (1 / 100000)
     (univar_crit trough 1 [0] [1])
     (- 1 / 350) 0 (1 / 350) (529 / 400000000) =
   (- 1 / 350, - 190983 / 175000000, 0, 105411289 / 30625000000000000)"
proof -
  have "brent_loop 20 (1 / 1000000) (1 / 100) (1 / 100000)
          (univar_crit trough 1 [0] [1]) 0
          (brent_init (- 1 / 350) 0 (1 / 350) (529 / 400000000)) =
        (Crit_reached, 1, trough_a1)"
    by (simp add: brent_loop_unfold trough_a_pass0[simplified] trough_a_pass1[simplified])
  then show ?thesis by (simp add: brentmin_def trough_a1_def)
qed

lemma trough_c_glob0:
  "glob_min (Suc 0) real_arith (- 190983 / 1750000000) (190983 / 1750000000) 15 False (1 / 1000000)
     (univar_crit trough 1 [- 190983 / 175000000] [- 1])
     \<lparr>g_x1 = - 1 / 350, g_y1 = 57121 / 19600000000, g_x2 = - 190983 / 175000000,
      g_y2 = 105411289 / 30625000000000000, g_x3 = 0, g_y3 = 314721 / 19600000000\<rparr> =
   Some
     \<lparr>g_x1 = 572949 / 12250000000, g_y1 = 21240439081 / 150062500000000000000,
      g_x2 = 190983 / 3062500000, g_y2 = 511709641 / 37515625000000000000,
      g_x3 = 190983 / 2450000000, g_y3 = 89283601 / 240100000000000000\<rparr>"
  by (simp add: glob_min_def glob_run_def glob_init_def scan.simps scan_point_def neighbors_def
      extension_def real_arith_def Let_def bracket.truncate_def univar_crit_def along_def
      trough_def)

lemma trough_c_tries:
  "bracket_tries (Suc 0) (1 / 1000000) (univar_crit trough 1 [- 190983 / 175000000] [- 1]) (190983 / 175000000) mults
     \<lparr>g_x1 = - 1 / 350, g_y1 = 57121 / 19600000000, g_x2 = - 190983 / 175000000,
      g_y2 = 105411289 / 30625000000000000, g_x3 = 0, g_y3 = 314721 / 19600000000\<rparr> =
   Some
     \<lparr>g_x1 = 572949 / 12250000000, g_y1 = 21240439081 / 150062500000000000000,
      g_x2 = 190983 / 3062500000, g_y2 = 511709641 / 37515625000000000000,
      g_x3 = 190983 / 2450000000, g_y3 = 89283601 / 240100000000000000\<rparr>"
  using trough_c_glob0 by (simp add: mults_def)

lemma trough_head:
  "powell_head 5 (1 / 1000000) (1 / 1000) 1 trough_start = Go trough_round"
  by (simp add: powell_head_def trough_start_def trough_round_def powell_init_def identity_direc_def
      vec_def Let_def upt_two)

lemma trough_direction0:
  "direction_step (Suc 0) (1 / 1000000) (1 / 1000) trough 1 0 trough_round = Go trough_mid0"
proof -
  have "\<not> ((1::int) < 1 \<and> (0::nat) = 0 \<and> p_replaced trough_round = 0)"
    by (simp add: trough_round_def)
  note run = direction_step_run[OF this]
  have v: "vec 1 [0::real] = [0]" "row 1 [1::real] 0 = [1]"
    by (simp_all add: vec_def row_def upt_two)
  show ?thesis unfolding run
    by (simp add: Let_def trough_round_def v[simplified] trough_a_tries[simplified]
          refine_def trough_a_brentmin[simplified] new_scale_def)
       (simp add: trough_mid0_def along_def upt_two)
qed

lemma trough_directions:
  "directions (Suc 0) (1 / 10 ^ 6) (1 / 1000) trough 1 [0..<nat 1] trough_round = Go trough_mid0"
  by (simp add: trough_direction0[simplified])

lemma trough_probed:
  "probe trough 1 trough_mid0 = (trough_probe, 105411289 / 30625000000000000)"
  by (simp add: probe_def Let_def trough_mid0_def trough_probe_def trough_def vec_def)

lemma trough_test: "replace_test (105411289 / 30625000000000000) trough_probe"
  by (simp add: replace_test_def trough_probe_def Let_def)

lemma length_one: "length_of 1 [a] = \<bar>a\<bar>"
  by (simp add: length_of_def)

lemma trough_replacement:
  "replacement (Suc 0) (1 / 10 ^ 6) (1 / 1000) trough 1 trough_probe =
     Stop Replace_break trough_end"
proof -
  have "\<not> ((0::int) < 1 \<and> length_of 1 (p_p0 trough_probe) = 0)"
    by (simp add: trough_probe_def length_one)
  note run = replacement_run[OF this]
  have v: "vec 1 [- 190983 / 175000000 :: real] = [- 190983 / 175000000]"
    by (simp add: vec_def)
  show ?thesis unfolding run
    by (simp add: Let_def trough_probe_def length_one v[simplified] trough_c_tries[simplified])
       (simp add: trough_end_def along_def)
qed

lemma trough_pass:
  "powell_pass (Suc 0) 5 (1 / 10 ^ 6) (1 / 1000) trough 1 trough_start =
     Stop Replace_break trough_end"
  by (simp add: powell_pass_def trough_head[simplified] powell_round_def
      trough_directions[simplified] trough_probed trough_test trough_replacement[simplified])

lemma trough_average:
  "average_direction 1 (p_x trough_mid0) (p_x trough_start) = [- (190983 / 175000000)]"
  by (simp add: average_direction_def trough_mid0_def trough_start_def powell_init_def)

lemma trough_unit: "unit_vector 1 [- (190983 / 175000000)] = [- 1]"
  by (simp add: unit_vector_def length_one)

lemma trough_tested:
  "test_passes (p_fbest trough_start) (p_fbest trough_mid0)
     (trough (stepped_out 1 (p_x trough_mid0) [- (190983 / 175000000)])) (p_delta trough_mid0)"
  by (simp add: test_passes_def stepped_out_def trough_def trough_start_def powell_init_def
      trough_mid0_def)

text \<open>
  C9 as stated fails when the two tests for the replacement pass and the line search along
  the new direction then finds a value below \<^verbatim>\<open>critlim\<close>: the \<^verbatim>\<open>break\<close> of line 553 leaves
  the main loop before the row is written. The first pass of \<^verbatim>\<open>powell\<close> on \<open>trough\<close> from
  0 with \<^verbatim>\<open>critlim = 1e-6\<close> is such a pass: the tests pass, the average direction divided
  by its length is \<open>-1\<close>, and the pass leaves the loop with the identity still in
  \<^verbatim>\<open>direc\<close>.
\<close>

theorem replacement_break_counterexample:
  "trough (vec 1 [0]) = 529 / 400000000 \<and>
   powell_run 0 (Suc 0) 5 (1 / 10 ^ 6) (1 / 1000) trough 1
     (powell_init 1 [0] (529 / 400000000) [0] [0] [0]) = Go trough_start \<and>
   powell_head 5 (1 / 10 ^ 6) (1 / 1000) 1 trough_start = Go trough_round \<and>
   directions (Suc 0) (1 / 10 ^ 6) (1 / 1000) trough 1 [0..<nat 1] trough_round =
     Go trough_mid0 \<and>
   average_direction 1 (p_x trough_mid0) (p_x trough_start) = [- (190983 / 175000000)] \<and>
   test_passes (p_fbest trough_start) (p_fbest trough_mid0)
     (trough (stepped_out 1 (p_x trough_mid0) [- (190983 / 175000000)])) (p_delta trough_mid0) \<and>
   unit_vector 1 [- (190983 / 175000000)] = [- 1] \<and>
   p_idelta trough_mid0 = 0 \<and>
   powell_pass (Suc 0) 5 (1 / 10 ^ 6) (1 / 1000) trough 1 trough_start =
     Stop Replace_break trough_end \<and>
   p_direc trough_start = [1] \<and> p_direc trough_end = [1] \<and>
   row 1 (p_direc trough_end) 0 = [1] \<and>
   row 1 (p_direc trough_end) 0 \<noteq> [- 1]"
proof -
  have a: "trough (vec 1 [0]) = 529 / 400000000" by (simp add: trough_def vec_def)
  have b: "powell_run 0 (Suc 0) 5 (1 / 10 ^ 6) (1 / 1000) trough 1
      (powell_init 1 [0] (529 / 400000000) [0] [0] [0]) = Go trough_start"
    by (simp add: trough_start_def)
  have c: "powell_head 5 (1 / 10 ^ 6) (1 / 1000) 1 trough_start = Go trough_round"
    "directions (Suc 0) (1 / 10 ^ 6) (1 / 1000) trough 1 [0..<nat 1] trough_round =
       Go trough_mid0"
    "powell_pass (Suc 0) 5 (1 / 10 ^ 6) (1 / 1000) trough 1 trough_start =
       Stop Replace_break trough_end"
    using trough_head trough_directions trough_pass by simp_all
  have d: "p_idelta trough_mid0 = 0" "p_direc trough_start = [1]" "p_direc trough_end = [1]"
    "row 1 (p_direc trough_end) 0 = [1]" "row 1 (p_direc trough_end) 0 \<noteq> [- 1]"
    by (simp_all add: trough_mid0_def trough_start_def powell_init_def identity_direc_def
        trough_end_def row_def)
  from a b c trough_average trough_tested trough_unit d show ?thesis by blast
qed

end
